theory Spec2Isabelle
  imports Complex_Main "HOL-Library.Log_Nat"
begin

section \<open>Numbers\<close>

text \<open>
  The program computes with JavaScript numbers.  A finite value is a real number.  What
  JavaScript does where a real division has no value is written out: dividing by zero
  gives an infinity or NaN, and every comparison with NaN is false.  The sign of a zero
  is not tracked: a zero divisor counts as +0.

  The operations of this first part are exact.  The operations of the second part round
  their result to the nearest binary64 value, as the program's arithmetic does; they are
  used where the outcome of a computation depends on the rounding: the take-profit
  adjustment of the risk manager and the scores of the learning engine.
\<close>

datatype jsnum = Num real | PosInf | NegInf | NaN

fun js_div :: "jsnum \<Rightarrow> jsnum \<Rightarrow> jsnum" where
  "js_div NaN _ = NaN"
| "js_div _ NaN = NaN"
| "js_div (Num a) (Num b) =
     (if b \<noteq> 0 then Num (a / b)
      else if 0 < a then PosInf else if a < 0 then NegInf else NaN)"
| "js_div (Num a) PosInf = Num 0"
| "js_div (Num a) NegInf = Num 0"
| "js_div PosInf (Num b) = (if 0 \<le> b then PosInf else NegInf)"
| "js_div NegInf (Num b) = (if 0 \<le> b then NegInf else PosInf)"
| "js_div PosInf PosInf = NaN"
| "js_div PosInf NegInf = NaN"
| "js_div NegInf PosInf = NaN"
| "js_div NegInf NegInf = NaN"

fun js_mul :: "jsnum \<Rightarrow> jsnum \<Rightarrow> jsnum" where
  "js_mul NaN _ = NaN"
| "js_mul _ NaN = NaN"
| "js_mul (Num a) (Num b) = Num (a * b)"
| "js_mul (Num a) PosInf = (if 0 < a then PosInf else if a < 0 then NegInf else NaN)"
| "js_mul (Num a) NegInf = (if 0 < a then NegInf else if a < 0 then PosInf else NaN)"
| "js_mul PosInf (Num b) = (if 0 < b then PosInf else if b < 0 then NegInf else NaN)"
| "js_mul NegInf (Num b) = (if 0 < b then NegInf else if b < 0 then PosInf else NaN)"
| "js_mul PosInf PosInf = PosInf"
| "js_mul PosInf NegInf = NegInf"
| "js_mul NegInf PosInf = NegInf"
| "js_mul NegInf NegInf = PosInf"

text \<open>\<^verbatim>\<open>a < b\<close> and \<^verbatim>\<open>a <= b\<close>: false as soon as one side is NaN.\<close>

fun js_lt :: "jsnum \<Rightarrow> jsnum \<Rightarrow> bool" where
  "js_lt NaN _ = False"
| "js_lt _ NaN = False"
| "js_lt (Num a) (Num b) = (a < b)"
| "js_lt (Num a) PosInf = True"
| "js_lt (Num a) NegInf = False"
| "js_lt PosInf _ = False"
| "js_lt NegInf (Num b) = True"
| "js_lt NegInf PosInf = True"
| "js_lt NegInf NegInf = False"

fun js_le :: "jsnum \<Rightarrow> jsnum \<Rightarrow> bool" where
  "js_le NaN _ = False"
| "js_le _ NaN = False"
| "js_le a b = (a = b \<or> js_lt a b)"

text \<open>\<^verbatim>\<open>Math.min\<close>, \<^verbatim>\<open>Math.max\<close>: NaN if an argument is NaN.\<close>

fun js_min :: "jsnum \<Rightarrow> jsnum \<Rightarrow> jsnum" where
  "js_min NaN _ = NaN"
| "js_min _ NaN = NaN"
| "js_min a b = (if js_lt b a then b else a)"

fun js_max :: "jsnum \<Rightarrow> jsnum \<Rightarrow> jsnum" where
  "js_max NaN _ = NaN"
| "js_max _ NaN = NaN"
| "js_max a b = (if js_lt a b then b else a)"

text \<open>\<^verbatim>\<open>Math.round\<close>: the nearest integer, a tie going up; infinities and NaN unchanged.\<close>

fun js_round :: "jsnum \<Rightarrow> jsnum" where
  "js_round (Num a) = Num (of_int \<lfloor>a + 1 / 2\<rfloor>)"
| "js_round x = x"

subsection \<open>Rounding to binary64\<close>

text \<open>
  A binary64 value is an integer multiple \<open>m * 2 ^ k\<close> with \<open>\<bar>m\<bar> < 2 ^ 53\<close> and
  \<open>- 1074 \<le> k\<close>.  \<open>pow2 k\<close> is \<open>2 ^ k\<close> for an integer \<open>k\<close>, \<open>expo x\<close> the binary
  exponent of \<open>x\<close> (the \<open>e\<close> with \<open>2 ^ e \<le> \<bar>x\<bar> < 2 ^ (e + 1)\<close>), \<open>scale x\<close> the exponent
  of the unit in the last place at \<open>x\<close> (53 significant bits, subnormal below
  \<open>2 ^ (- 1022)\<close>), \<open>rne\<close> rounding to the nearest integer with a tie going to the
  even one, and \<open>dbl x\<close> the binary64 value nearest to \<open>x\<close>: the value the program holds
  for a decimal literal and for the exact result of an operation.  Overflow to an
  infinity (beyond \<open>2 ^ 1024\<close>) is not modelled.
\<close>

definition pow2 :: "int \<Rightarrow> real" where
  "pow2 k = (if 0 \<le> k then 2 ^ nat k else 1 / 2 ^ nat (- k))"

definition expo :: "real \<Rightarrow> int" where
  "expo x = (if 1 \<le> \<bar>x\<bar> then bitlen \<lfloor>\<bar>x\<bar>\<rfloor> - 1 else - bitlen (\<lceil>1 / \<bar>x\<bar>\<rceil> - 1))"

definition scale :: "real \<Rightarrow> int" where
  "scale x = max (expo x) (- 1022) - 52"

definition rne :: "real \<Rightarrow> int" where
  "rne t = (let f = \<lfloor>t\<rfloor>; r = t - of_int f
            in if r < 1 / 2 then f else if 1 / 2 < r then f + 1
               else if even f then f else f + 1)"

definition dbl :: "real \<Rightarrow> real" where
  "dbl x = (if x = 0 then 0 else of_int (rne (x / pow2 (scale x))) * pow2 (scale x))"

text \<open>\<^verbatim>\<open>a + b\<close>, \<^verbatim>\<open>a - b\<close>, \<^verbatim>\<open>a * b\<close> and \<^verbatim>\<open>a / b\<close> on binary64 values.\<close>

definition fadd :: "real \<Rightarrow> real \<Rightarrow> real" where
  "fadd a b = dbl (a + b)"

definition fsub :: "real \<Rightarrow> real \<Rightarrow> real" where
  "fsub a b = dbl (a - b)"

definition fmul :: "real \<Rightarrow> real \<Rightarrow> real" where
  "fmul a b = dbl (a * b)"

definition fdiv :: "real \<Rightarrow> real \<Rightarrow> jsnum" where
  "fdiv a b = (if b \<noteq> 0 then Num (dbl (a / b))
               else if 0 < a then PosInf else if a < 0 then NegInf else NaN)"

text \<open>Half a unit in the last place at \<open>x\<close>: the most that rounding moves \<open>x\<close>.\<close>

definition halfUlp :: "real \<Rightarrow> real" where
  "halfUlp x = pow2 (scale x) / 2"

section \<open>Value types (mt5/types.ts)\<close>

record OHLC =
  time :: real
  openp :: real
  high :: real
  low :: real
  close :: real
  volume :: real

datatype Action = BUY | SELL | CLOSE

record StrategySignal =
  symbol :: string
  action :: Action
  confidence :: real
  entry :: real
  stopLoss :: real
  takeProfit :: real
  strategy :: string
  timestamp :: real

record MarketData =
  md_symbol :: string
  bid :: real
  ask :: real
  spread :: real
  md_volume :: real
  md_timestamp :: real

datatype PositionType = PosBUY | PosSELL

record Position =
  ticket :: nat
  pos_symbol :: string
  pos_type :: PositionType
  pos_volume :: real
  openPrice :: real
  currentPrice :: real
  profit :: real
  pos_stopLoss :: real
  pos_takeProfit :: real
  openTime :: real
  comment :: string

record SymbolInfo =
  si_name :: string
  digits :: nat
  point :: real
  si_spread :: real
  tradeMode :: nat
  volumeMin :: real
  volumeMax :: real
  volumeStep :: real
  marginRequired :: real

record AccountInfo =
  balance :: real
  equity :: real
  acc_profit :: real
  margin :: real
  freeMargin :: real
  marginLevel :: real
  currency :: string
  leverage :: real

record RiskParams =
  maxRiskPerTrade :: real
  maxDailyLoss :: real
  maxOpenPositions :: nat
  minRiskReward :: real
  maxSpread :: real
  newsFilterEnabled :: bool

section \<open>Strategies (strategies/base.ts, strategies/smc.ts)\<close>

datatype Direction = bullish | bearish

datatype ZoneKind = support | resistance

record OrderBlock =
  ob_type :: Direction
  ob_high :: real
  ob_low :: real
  ob_index :: nat
  ob_strength :: real
  tested :: bool

record LiquidityZone =
  lz_type :: ZoneKind
  level :: real
  lz_strength :: real
  touches :: nat

record FairValueGap =
  fvg_type :: Direction
  fvg_top :: real
  fvg_bottom :: real
  fvg_index :: nat
  filled :: bool

text \<open>
  The state of an \<^verbatim>\<open>SMCStrategy\<close> object: the fields of \<^verbatim>\<open>BaseStrategy\<close> that
  \<^verbatim>\<open>analyze\<close> reads, and the three structure lists.
\<close>

record SMCStrategy =
  name :: string
  timeframe :: string
  symbols :: "string list"
  isActive :: bool
  orderBlocks :: "OrderBlock list"
  liquidityZones :: "LiquidityZone list"
  fairValueGaps :: "FairValueGap list"

definition newSMCStrategy :: SMCStrategy where
  "newSMCStrategy =
     \<lparr>name = ''SMC (Smart Money)'', timeframe = ''M15'',
      symbols = [''EURUSD'', ''GBPUSD'', ''USDCAD'', ''AUDUSD''],
      isActive = False, orderBlocks = [], liquidityZones = [], fairValueGaps = []\<rparr>"

definition activate :: "SMCStrategy \<Rightarrow> SMCStrategy" where
  "activate st = st\<lparr>isActive := True\<rparr>"

definition deactivate :: "SMCStrategy \<Rightarrow> SMCStrategy" where
  "deactivate st = st\<lparr>isActive := False\<rparr>"

text \<open>The reward:risk ratio \<^verbatim>\<open>Math.abs(tp - entry) / Math.abs(entry - sl)\<close>.\<close>

definition rewardRisk :: "StrategySignal \<Rightarrow> jsnum" where
  "rewardRisk s =
     js_div (Num \<bar>takeProfit s - entry s\<bar>) (Num \<bar>entry s - stopLoss s\<bar>)"

text \<open>
  \<^verbatim>\<open>validateSignal\<close>.  An empty symbol is falsy; the action is one of three non-empty
  string literals, so \<^verbatim>\<open>!signal.action\<close> is never true.
\<close>

definition validateSignal :: "StrategySignal \<Rightarrow> bool" where
  "validateSignal s =
     (if symbol s = [] \<or> confidence s < 0.5 then False
      else if js_lt (rewardRisk s) (Num 1.5) then False
      else True)"

definition findPivotHighs :: "real list \<Rightarrow> nat \<Rightarrow> nat \<Rightarrow> real list" where
  "findPivotHighs highs leftBars rightBars =
     map (\<lambda>i.
        if list_all (\<lambda>j. \<not> highs ! j \<ge> highs ! i) [i - leftBars ..< i]
           \<and> list_all (\<lambda>j. \<not> highs ! j \<ge> highs ! i) [i + 1 ..< i + rightBars + 1]
        then highs ! i else 0)
       [leftBars ..< length highs - rightBars]"

definition findPivotLows :: "real list \<Rightarrow> nat \<Rightarrow> nat \<Rightarrow> real list" where
  "findPivotLows lows leftBars rightBars =
     map (\<lambda>i.
        if list_all (\<lambda>j. \<not> lows ! j \<le> lows ! i) [i - leftBars ..< i]
           \<and> list_all (\<lambda>j. \<not> lows ! j \<le> lows ! i) [i + 1 ..< i + rightBars + 1]
        then lows ! i else 0)
       [leftBars ..< length lows - rightBars]"

text \<open>
  \<^verbatim>\<open>isBullishOrderBlock\<close>, \<^verbatim>\<open>isBearishOrderBlock\<close>: the counting loop runs over the
  indices \<^verbatim>\<open>index + 1 .. min(index + 4, length) - 1\<close>.
\<close>

definition isBullishOrderBlock :: "OHLC list \<Rightarrow> nat \<Rightarrow> bool" where
  "isBullishOrderBlock ohlc index =
     (let current = ohlc ! index;
          bodySize = \<bar>close current - openp current\<bar>;
          lowerWick = min (openp current) (close current) - low current
      in if lowerWick < bodySize * 0.5 \<or> close current \<le> openp current then False
         else 2 \<le> length (filter (\<lambda>i. close (ohlc ! i) > high current)
                              [index + 1 ..< min (index + 3 + 1) (length ohlc)]))"

definition isBearishOrderBlock :: "OHLC list \<Rightarrow> nat \<Rightarrow> bool" where
  "isBearishOrderBlock ohlc index =
     (let current = ohlc ! index;
          bodySize = \<bar>close current - openp current\<bar>;
          upperWick = high current - max (openp current) (close current)
      in if upperWick < bodySize * 0.5 \<or> close current \<ge> openp current then False
         else 2 \<le> length (filter (\<lambda>i. close (ohlc ! i) < low current)
                              [index + 1 ..< min (index + 3 + 1) (length ohlc)]))"

text \<open>
  \<^verbatim>\<open>calculateOrderBlockStrength\<close> is called only for a bar that one of the two tests
  above accepted, so the body size it divides by is not zero
  (lemmas \<open>isBullishOrderBlock_body\<close>, \<open>isBearishOrderBlock_body\<close>), and the window is
  not empty.
\<close>

definition calculateOrderBlockStrength :: "OHLC list \<Rightarrow> nat \<Rightarrow> Direction \<Rightarrow> real" where
  "calculateOrderBlockStrength ohlc index ty =
     (let current = ohlc ! index;
          s1 = (if volume current > 1000 then 20 else 10);
          bodySize = \<bar>close current - openp current\<bar>;
          wickSize = (if ty = bullish
                      then min (openp current) (close current) - low current
                      else high current - max (openp current) (close current));
          s2 = s1 + (wickSize / bodySize) * 30;
          recency = (real (length ohlc) - real index) / real (length ohlc);
          s3 = s2 + recency * 20
      in min s3 100)"

definition orderBlocksAt :: "OHLC list \<Rightarrow> nat \<Rightarrow> OrderBlock list" where
  "orderBlocksAt ohlc i =
     (let current = ohlc ! i in
      (if isBullishOrderBlock ohlc i
       then [\<lparr>ob_type = bullish, ob_high = high current, ob_low = low current, ob_index = i,
              ob_strength = calculateOrderBlockStrength ohlc i bullish, tested = False\<rparr>]
       else []) @
      (if isBearishOrderBlock ohlc i
       then [\<lparr>ob_type = bearish, ob_high = high current, ob_low = low current, ob_index = i,
              ob_strength = calculateOrderBlockStrength ohlc i bearish, tested = False\<rparr>]
       else []))"

text \<open>
  \<^verbatim>\<open>updateOrderBlocks\<close>: the list is rebuilt, sorted by descending strength
  (\<^verbatim>\<open>Array.prototype.sort\<close> is stable, as \<open>sort_key\<close> is) and cut to ten entries.
\<close>

definition updateOrderBlocks :: "OHLC list \<Rightarrow> SMCStrategy \<Rightarrow> SMCStrategy" where
  "updateOrderBlocks ohlc st =
     st\<lparr>orderBlocks :=
          take 10 (sort_key (\<lambda>b. - ob_strength b)
                     (concat (map (orderBlocksAt ohlc) [10 ..< length ohlc - 5])))\<rparr>"

definition calculateLiquidityStrength :: "OHLC list \<Rightarrow> nat \<Rightarrow> real \<Rightarrow> real" where
  "calculateLiquidityStrength ohlc index lvl =
     (let n = length (filter (\<lambda>i. \<bar>high (ohlc ! i) - lvl\<bar> < lvl * 0.001
                                  \<or> \<bar>low (ohlc ! i) - lvl\<bar> < lvl * 0.001)
                        [index + 1 ..< length ohlc])
      in min (real n * 25) 100)"

definition updateLiquidityZones :: "OHLC list \<Rightarrow> SMCStrategy \<Rightarrow> SMCStrategy" where
  "updateLiquidityZones ohlc st =
     (let highs = map high ohlc;
          lows = map low ohlc;
          pivotHighs = findPivotHighs highs 3 3;
          pivotLows = findPivotLows lows 3 3
      in st\<lparr>liquidityZones :=
           concat (map (\<lambda>i. if pivotHighs ! i > 0
                      then [\<lparr>lz_type = resistance, level = pivotHighs ! i,
                             lz_strength = calculateLiquidityStrength ohlc (i + 3) (pivotHighs ! i),
                             touches = 1\<rparr>]
                      else []) [0 ..< length pivotHighs]) @
           concat (map (\<lambda>i. if pivotLows ! i > 0
                      then [\<lparr>lz_type = support, level = pivotLows ! i,
                             lz_strength = calculateLiquidityStrength ohlc (i + 3) (pivotLows ! i),
                             touches = 1\<rparr>]
                      else []) [0 ..< length pivotLows])\<rparr>)"

definition fairValueGapsAt :: "OHLC list \<Rightarrow> nat \<Rightarrow> FairValueGap list" where
  "fairValueGapsAt ohlc i =
     (let prev = ohlc ! (i - 1); current = ohlc ! i; next = ohlc ! (i + 1) in
      (if high prev < low next \<and> close current > openp current
       then [\<lparr>fvg_type = bullish, fvg_top = low next, fvg_bottom = high prev,
              fvg_index = i, filled = False\<rparr>]
       else []) @
      (if low prev > high next \<and> close current < openp current
       then [\<lparr>fvg_type = bearish, fvg_top = low prev, fvg_bottom = high next,
              fvg_index = i, filled = False\<rparr>]
       else []))"

text \<open>
  \<^verbatim>\<open>updateFairValueGaps\<close>: the list is emptied and refilled from the bar window; the
  previous list is not read.
\<close>

definition updateFairValueGaps :: "OHLC list \<Rightarrow> SMCStrategy \<Rightarrow> SMCStrategy" where
  "updateFairValueGaps ohlc st =
     st\<lparr>fairValueGaps := concat (map (fairValueGapsAt ohlc) [1 ..< length ohlc - 1])\<rparr>"

fun checkOrderBlockEntry :: "string \<Rightarrow> real \<Rightarrow> OrderBlock list \<Rightarrow> StrategySignal option" where
  "checkOrderBlockEntry nm price [] = None"
| "checkOrderBlockEntry nm price (orderBlock # rest) =
     (if tested orderBlock then checkOrderBlockEntry nm price rest
      else
        let tolerance = (ob_high orderBlock - ob_low orderBlock) * 0.1 in
        if ob_type orderBlock = bullish
           \<and> price \<ge> ob_low orderBlock - tolerance
           \<and> price \<le> ob_high orderBlock + tolerance
        then Some \<lparr>symbol = [], action = BUY,
                   confidence = ob_strength orderBlock / 100,
                   entry = price,
                   stopLoss = ob_low orderBlock - (ob_high orderBlock - ob_low orderBlock) * 0.2,
                   takeProfit = price + (price - ob_low orderBlock) * 2,
                   strategy = nm, timestamp = 0\<rparr>
        else if ob_type orderBlock = bearish
           \<and> price \<ge> ob_low orderBlock - tolerance
           \<and> price \<le> ob_high orderBlock + tolerance
        then Some \<lparr>symbol = [], action = SELL,
                   confidence = ob_strength orderBlock / 100,
                   entry = price,
                   stopLoss = ob_high orderBlock + (ob_high orderBlock - ob_low orderBlock) * 0.2,
                   takeProfit = price - (ob_high orderBlock - price) * 2,
                   strategy = nm, timestamp = 0\<rparr>
        else checkOrderBlockEntry nm price rest)"

text \<open>
  \<^verbatim>\<open>checkLiquidityGrabReversal\<close>: \<^verbatim>\<open>recent\<close> is \<^verbatim>\<open>ohlc.slice(-10)\<close>, the last ten bars
  (all of them when there are fewer), and \<^verbatim>\<open>lastBar\<close> its last one.
\<close>

fun liquidityGrabLoop ::
  "string \<Rightarrow> real \<Rightarrow> OHLC \<Rightarrow> LiquidityZone list \<Rightarrow> StrategySignal option" where
  "liquidityGrabLoop nm price lastBar [] = None"
| "liquidityGrabLoop nm price lastBar (zone # rest) =
     (let tolerance = level zone * 0.001 in
      if lz_type zone = resistance \<and> price > level zone + tolerance
         \<and> close lastBar < openp lastBar
      then Some \<lparr>symbol = [], action = SELL,
                 confidence = lz_strength zone / 100,
                 entry = price,
                 stopLoss = level zone + level zone * 0.002,
                 takeProfit = price - (price - level zone) * 1.5,
                 strategy = nm, timestamp = 0\<rparr>
      else if lz_type zone = support \<and> price < level zone - tolerance
         \<and> close lastBar > openp lastBar
      then Some \<lparr>symbol = [], action = BUY,
                 confidence = lz_strength zone / 100,
                 entry = price,
                 stopLoss = level zone - level zone * 0.002,
                 takeProfit = price + (level zone - price) * 1.5,
                 strategy = nm, timestamp = 0\<rparr>
      else liquidityGrabLoop nm price lastBar rest)"

definition checkLiquidityGrabReversal ::
  "string \<Rightarrow> real \<Rightarrow> OHLC list \<Rightarrow> LiquidityZone list \<Rightarrow> StrategySignal option" where
  "checkLiquidityGrabReversal nm price ohlc zones =
     (let recent = drop (length ohlc - 10) ohlc in
      if length recent < 5 then None
      else liquidityGrabLoop nm price (last recent) zones)"

fun checkFairValueGapFill :: "string \<Rightarrow> real \<Rightarrow> FairValueGap list \<Rightarrow> StrategySignal option" where
  "checkFairValueGapFill nm price [] = None"
| "checkFairValueGapFill nm price (fvg # rest) =
     (if filled fvg then checkFairValueGapFill nm price rest
      else if fvg_type fvg = bullish
              \<and> price \<ge> fvg_bottom fvg \<and> price \<le> fvg_top fvg
      then Some \<lparr>symbol = [], action = BUY, confidence = 0.75,
                 entry = price,
                 stopLoss = fvg_bottom fvg - (fvg_top fvg - fvg_bottom fvg) * 0.5,
                 takeProfit = price + (fvg_top fvg - fvg_bottom fvg) * 2,
                 strategy = nm, timestamp = 0\<rparr>
      else if fvg_type fvg = bearish
              \<and> price \<ge> fvg_bottom fvg \<and> price \<le> fvg_top fvg
      then Some \<lparr>symbol = [], action = SELL, confidence = 0.75,
                 entry = price,
                 stopLoss = fvg_top fvg + (fvg_top fvg - fvg_bottom fvg) * 0.5,
                 takeProfit = price - (fvg_top fvg - fvg_bottom fvg) * 2,
                 strategy = nm, timestamp = 0\<rparr>
      else checkFairValueGapFill nm price rest)"

text \<open>
  A candidate is stamped with the symbol, the strategy name and the clock
  (\<^verbatim>\<open>Date.now()\<close>, the parameter \<open>now\<close>) before it is validated.
\<close>

definition stamp :: "SMCStrategy \<Rightarrow> string \<Rightarrow> real \<Rightarrow> StrategySignal \<Rightarrow> StrategySignal" where
  "stamp st symb now s = s\<lparr>symbol := symb, strategy := name st, timestamp := now\<rparr>"

text \<open>
  \<^verbatim>\<open>analyze\<close>: returns the strategy's new state and the signal, \<open>None\<close> for \<^verbatim>\<open>null\<close>.
  The three categories are tried in order and the first candidate that passes
  \<^verbatim>\<open>validateSignal\<close> is returned at once.
\<close>

definition analyze ::
  "SMCStrategy \<Rightarrow> string \<Rightarrow> OHLC list \<Rightarrow> MarketData \<Rightarrow> real
     \<Rightarrow> SMCStrategy \<times> StrategySignal option" where
  "analyze st symb ohlc marketData now =
     (if \<not> isActive st \<or> length ohlc < 50 then (st, None)
      else
        let st1 = updateOrderBlocks ohlc st;
            st2 = updateLiquidityZones ohlc st1;
            st3 = updateFairValueGaps ohlc st2;
            price = bid marketData;
            orderBlockSignal =
              map_option (stamp st3 symb now)
                (checkOrderBlockEntry (name st3) price (orderBlocks st3));
            liquiditySignal =
              map_option (stamp st3 symb now)
                (checkLiquidityGrabReversal (name st3) price ohlc (liquidityZones st3));
            fvgSignal =
              map_option (stamp st3 symb now)
                (checkFairValueGapFill (name st3) price (fairValueGaps st3))
        in
        if orderBlockSignal \<noteq> None \<and> validateSignal (the orderBlockSignal)
        then (st3, orderBlockSignal)
        else if liquiditySignal \<noteq> None \<and> validateSignal (the liquiditySignal)
        then (st3, liquiditySignal)
        else if fvgSignal \<noteq> None \<and> validateSignal (the fvgSignal)
        then (st3, fvgSignal)
        else (st3, None))"

section \<open>Learning engine and orchestrator (marketmind/core.ts)\<close>

datatype TradeResultKind = win | loss

record TradeOutcome =
  result :: TradeResultKind
  oc_profit :: real
  closeTime :: real

record SignalHistory =
  h_signal :: StrategySignal
  h_ticket :: nat
  executionTime :: real
  outcome :: "TradeOutcome option"

record LearningEngine =
  strategyWeights :: "string \<rightharpoonup> real"
  symbolPerformance :: "string \<rightharpoonup> (string \<rightharpoonup> real)"

definition newLearningEngine :: LearningEngine where
  "newLearningEngine =
     \<lparr>strategyWeights = [''SMC'' \<mapsto> 1, ''ICT'' \<mapsto> 1, ''ORB'' \<mapsto> 1, ''TurtleSoup'' \<mapsto> 1],
      symbolPerformance = Map.empty\<rparr>"

text \<open>\<^verbatim>\<open>x || 1.0\<close>: a missing entry and a stored zero both give 1.\<close>

definition orOne :: "real option \<Rightarrow> real" where
  "orOne v = (case v of None \<Rightarrow> 1 | Some w \<Rightarrow> if w = 0 then 1 else w)"

definition getSymbolWeight :: "LearningEngine \<Rightarrow> string \<Rightarrow> string \<Rightarrow> real" where
  "getSymbolWeight eng strat symb =
     orOne (case symbolPerformance eng symb of None \<Rightarrow> None | Some symbolMap \<Rightarrow> symbolMap strat)"

definition getMarketConditionWeight :: "OHLC list \<Rightarrow> real" where
  "getMarketConditionWeight ohlc = 1"

text \<open>
  \<^verbatim>\<open>signal.confidence * strategyWeight * symbolWeight * marketConditionWeight\<close>: three
  multiplications from left to right, each rounded.
\<close>

definition totalScore :: "LearningEngine \<Rightarrow> string \<Rightarrow> OHLC list \<Rightarrow> StrategySignal \<Rightarrow> real" where
  "totalScore eng symb ohlc s =
     fmul (fmul (fmul (confidence s) (orOne (strategyWeights eng (strategy s))))
                (getSymbolWeight eng (strategy s) symb))
          (getMarketConditionWeight ohlc)"

text \<open>The scoring loop, with its two variables \<^verbatim>\<open>bestSignal\<close> and \<^verbatim>\<open>bestScore\<close>.\<close>

fun selectLoop ::
  "LearningEngine \<Rightarrow> string \<Rightarrow> OHLC list \<Rightarrow> StrategySignal list
     \<Rightarrow> StrategySignal option \<Rightarrow> real \<Rightarrow> StrategySignal option" where
  "selectLoop eng symb ohlc [] bestSignal bestScore = bestSignal"
| "selectLoop eng symb ohlc (s # rest) bestSignal bestScore =
     (if totalScore eng symb ohlc s > bestScore
      then selectLoop eng symb ohlc rest (Some s) (totalScore eng symb ohlc s)
      else selectLoop eng symb ohlc rest bestSignal bestScore)"

definition selectBestSignal ::
  "LearningEngine \<Rightarrow> StrategySignal list \<Rightarrow> string \<Rightarrow> OHLC list \<Rightarrow> StrategySignal option" where
  "selectBestSignal eng signals symb ohlc =
     (if length signals = 0 then None
      else if length signals = 1 then Some (signals ! 0)
      else selectLoop eng symb ohlc signals None 0)"

definition updateFromTrade :: "LearningEngine \<Rightarrow> SignalHistory \<Rightarrow> LearningEngine" where
  "updateFromTrade eng history =
     (case outcome history of
        None \<Rightarrow> eng
      | Some oc \<Rightarrow>
          let strat = strategy (h_signal history);
              symb = symbol (h_signal history);
              isWin = (result oc = win);
              currentWeight = orOne (strategyWeights eng strat);
              adjustment = (if isWin then 0.05 else - 0.02);
              newWeight = max 0.1 (min 2.0 (currentWeight + adjustment));
              symbolMap = (case symbolPerformance eng symb of
                             None \<Rightarrow> Map.empty | Some m \<Rightarrow> m);
              symbolWeight = orOne (symbolMap strat);
              symbolAdjustment = (if isWin then 0.03 else - 0.01);
              newSymbolWeight = max 0.1 (min 2.0 (symbolWeight + symbolAdjustment))
          in eng\<lparr>strategyWeights := (strategyWeights eng)(strat \<mapsto> newWeight),
                 symbolPerformance :=
                   (symbolPerformance eng)(symb \<mapsto> symbolMap(strat \<mapsto> newSymbolWeight))\<rparr>)"

text \<open>
  The orchestrator.  Its strategies are a \<^verbatim>\<open>Map\<close> iterated in insertion order (an
  association list); the only strategy class of the repository is \<^verbatim>\<open>SMCStrategy\<close>.
\<close>

record MarketMindCore =
  strategies :: "(string \<times> SMCStrategy) list"
  activeSymbols :: "string set"
  isRunning :: bool
  learningEngine :: LearningEngine
  signalHistory :: "SignalHistory list"

definition newMarketMindCore :: MarketMindCore where
  "newMarketMindCore =
     \<lparr>strategies = [(''SMC'', newSMCStrategy)], activeSymbols = {}, isRunning = False,
      learningEngine = newLearningEngine, signalHistory = []\<rparr>"

text \<open>
  \<^verbatim>\<open>String.prototype.toUpperCase\<close> on ASCII text, the alphabet of instrument symbols:
  the letters a to z go to A to Z, every other character stays.
\<close>

definition upperChar :: "char \<Rightarrow> char" where
  "upperChar c =
     (let n = (of_char c :: nat) in if 97 \<le> n \<and> n \<le> 122 then char_of (n - 32) else c)"

definition toUpperCase :: "string \<Rightarrow> string" where
  "toUpperCase s = map upperChar s"

definition addSymbol :: "MarketMindCore \<Rightarrow> string \<Rightarrow> MarketMindCore" where
  "addSymbol core s = core\<lparr>activeSymbols := insert (toUpperCase s) (activeSymbols core)\<rparr>"

definition removeSymbol :: "MarketMindCore \<Rightarrow> string \<Rightarrow> MarketMindCore" where
  "removeSymbol core s = core\<lparr>activeSymbols := activeSymbols core - {toUpperCase s}\<rparr>"

text \<open>
  The loop of \<^verbatim>\<open>analyzeSymbol\<close> that gathers the candidates: each active strategy is
  asked once and contributes the signal it returns, if any.
\<close>

fun collectSignals ::
  "(string \<times> SMCStrategy) list \<Rightarrow> string \<Rightarrow> OHLC list \<Rightarrow> MarketData \<Rightarrow> real
     \<Rightarrow> (string \<times> SMCStrategy) list \<times> StrategySignal list" where
  "collectSignals [] symb ohlc marketData now = ([], [])"
| "collectSignals ((nm, strat) # rest) symb ohlc marketData now =
     (if \<not> isActive strat
      then (let (rest', signals) = collectSignals rest symb ohlc marketData now
            in ((nm, strat) # rest', signals))
      else (let (strat', sg) = analyze strat symb ohlc marketData now;
                (rest', signals) = collectSignals rest symb ohlc marketData now
            in ((nm, strat') # rest',
                (case sg of None \<Rightarrow> [] | Some s \<Rightarrow> [s]) @ signals)))"

text \<open>
  \<^verbatim>\<open>analyzeSymbol\<close> up to the call of \<^verbatim>\<open>executeSignal\<close>: the result is the signal
  handed on for execution, if there is one.  The replies of the market data feed are
  parameters.
\<close>

definition analyzeSymbol ::
  "MarketMindCore \<Rightarrow> string \<Rightarrow> MarketData option \<Rightarrow> OHLC list \<Rightarrow> real
     \<Rightarrow> MarketMindCore \<times> StrategySignal option" where
  "analyzeSymbol core symb marketDataReply ohlc now =
     (case marketDataReply of
        None \<Rightarrow> (core, None)
      | Some marketData \<Rightarrow>
          if length ohlc < 50 then (core, None)
          else
            let (strategies', signals) =
                  collectSignals (strategies core) symb ohlc marketData now;
                core' = core\<lparr>strategies := strategies'\<rparr>
            in if length signals > 0
               then (core', selectBestSignal (learningEngine core') signals symb ohlc)
               else (core', None))"

section \<open>Risk manager\<close>

text \<open>The reason strings of the risk manager, the numbers they print as arguments.\<close>

datatype Reason =
    TradingBlocked
  | NoAccountInfo
  | DailyLossLimitReached real real
  | DailyLossPassed
  | MaxPositionsReached nat nat
  | PositionCountPassed
  | NoMarketData
  | SpreadTooWide real real
  | SpreadPassed
  | NoValidPositionSize
  | TradeValidated
  | ValidationError

record ValidationCheck =
  passed :: bool
  chk_reason :: Reason

record TradeValidationResult =
  isValid :: bool
  reason :: Reason
  adjustedSignal :: "StrategySignal option"
  positionSize :: "jsnum option"

record RiskManager =
  riskParams :: RiskParams
  dailyStartBalance :: real
  dailyPL :: real
  isTradeBlocked :: bool

text \<open>
  What the connection answers during one call of \<^verbatim>\<open>validateTrade\<close>; \<open>None\<close> is
  \<^verbatim>\<open>null\<close>.  The request for the positions can resolve to \<^verbatim>\<open>null\<close> too, and then
  \<^verbatim>\<open>positions.length\<close> throws.
\<close>

record Replies =
  accountInfoReply :: "AccountInfo option"
  positionsReply :: "Position list option"
  marketDataReply :: "MarketData option"
  symbolInfoReply :: "SymbolInfo option"

definition newRiskManager :: "RiskParams \<Rightarrow> RiskManager" where
  "newRiskManager ps =
     \<lparr>riskParams = ps, dailyStartBalance = 0, dailyPL = 0, isTradeBlocked = False\<rparr>"

definition defaultRiskParams :: RiskParams where
  "defaultRiskParams =
     \<lparr>maxRiskPerTrade = 2.0, maxDailyLoss = 6.0, maxOpenPositions = 5,
      minRiskReward = 1.5, maxSpread = 3.0, newsFilterEnabled = True\<rparr>"

definition initializeDailyTracking :: "RiskManager \<Rightarrow> AccountInfo option \<Rightarrow> RiskManager" where
  "initializeDailyTracking rm reply =
     (case reply of
        None \<Rightarrow> rm
      | Some accountInfo \<Rightarrow> rm\<lparr>dailyStartBalance := balance accountInfo, dailyPL := 0\<rparr>)"

definition invalid :: "Reason \<Rightarrow> TradeValidationResult" where
  "invalid r = \<lparr>isValid = False, reason = r, adjustedSignal = None, positionSize = None\<rparr>"

definition checkDailyLossLimit ::
  "RiskManager \<Rightarrow> AccountInfo \<Rightarrow> RiskManager \<times> ValidationCheck" where
  "checkDailyLossLimit rm accountInfo =
     (let maxLoss = (dailyStartBalance rm * maxDailyLoss (riskParams rm)) / 100;
          currentDailyLoss = dailyStartBalance rm - balance accountInfo
      in if currentDailyLoss \<ge> maxLoss
         then (rm\<lparr>isTradeBlocked := True\<rparr>,
               \<lparr>passed = False, chk_reason = DailyLossLimitReached currentDailyLoss maxLoss\<rparr>)
         else (rm, \<lparr>passed = True, chk_reason = DailyLossPassed\<rparr>))"

definition checkMaxPositions :: "RiskManager \<Rightarrow> Position list \<Rightarrow> ValidationCheck" where
  "checkMaxPositions rm positions =
     (if length positions \<ge> maxOpenPositions (riskParams rm)
      then \<lparr>passed = False,
            chk_reason = MaxPositionsReached (length positions) (maxOpenPositions (riskParams rm))\<rparr>
      else \<lparr>passed = True, chk_reason = PositionCountPassed\<rparr>)"

definition checkSpread :: "RiskManager \<Rightarrow> MarketData option \<Rightarrow> ValidationCheck" where
  "checkSpread rm reply =
     (case reply of
        None \<Rightarrow> \<lparr>passed = False, chk_reason = NoMarketData\<rparr>
      | Some marketData \<Rightarrow>
          if spread marketData > maxSpread (riskParams rm)
          then \<lparr>passed = False,
                chk_reason = SpreadTooWide (spread marketData) (maxSpread (riskParams rm))\<rparr>
          else \<lparr>passed = True, chk_reason = SpreadPassed\<rparr>)"

text \<open>
  \<^verbatim>\<open>calculatePositionSize\<close>: the stop distance is divided by the point size (and
  multiplied by the tick value, the constant 1), the risk amount is divided by that, the
  quotient is rounded to a multiple of the volume step and the result is then bounded
  by the symbol's volume limits.  Without symbol information the size is 0.
\<close>

definition calculatePositionSize ::
  "RiskManager \<Rightarrow> StrategySignal \<Rightarrow> AccountInfo \<Rightarrow> SymbolInfo option \<Rightarrow> jsnum" where
  "calculatePositionSize rm signal accountInfo reply =
     (let riskAmount = (equity accountInfo * maxRiskPerTrade (riskParams rm)) / 100;
          stopLossDistance = \<bar>entry signal - stopLoss signal\<bar>
      in case reply of
           None \<Rightarrow> Num 0
         | Some symbolInfo \<Rightarrow>
             let pointValue = point symbolInfo;
                 tickValue = 1;
                 size = js_div (Num riskAmount)
                          (js_mul (js_div (Num stopLossDistance) (Num pointValue)) (Num tickValue))
             in js_max (Num (volumeMin symbolInfo))
                  (js_min (Num (volumeMax symbolInfo))
                     (js_mul (js_round (js_div size (Num (volumeStep symbolInfo))))
                        (Num (volumeStep symbolInfo)))))"

definition adjustStopLoss :: "RiskManager \<Rightarrow> StrategySignal \<Rightarrow> real" where
  "adjustStopLoss rm signal = stopLoss signal"

text \<open>
  \<^verbatim>\<open>adjustTakeProfit\<close>, every operation rounded: the two distances, their quotient, the
  minimum reward and the new target.
\<close>

definition adjustTakeProfit :: "RiskManager \<Rightarrow> StrategySignal \<Rightarrow> real" where
  "adjustTakeProfit rm signal =
     (let riskDistance = \<bar>fsub (entry signal) (stopLoss signal)\<bar>;
          rewardDistance = \<bar>fsub (takeProfit signal) (entry signal)\<bar>;
          currentRR = fdiv rewardDistance riskDistance
      in if js_lt currentRR (Num (minRiskReward (riskParams rm)))
         then (let minReward = fmul riskDistance (minRiskReward (riskParams rm))
               in if action signal = BUY then fadd (entry signal) minReward
                  else fsub (entry signal) minReward)
         else takeProfit signal)"

text \<open>
  \<^verbatim>\<open>validateTrade\<close>: the checks in their order, each failure returning at once.  The
  result comes with the manager's new state, since the daily loss check may set the
  block.
\<close>

definition validateTrade ::
  "RiskManager \<Rightarrow> StrategySignal \<Rightarrow> Replies \<Rightarrow> RiskManager \<times> TradeValidationResult" where
  "validateTrade rm signal env =
     (if isTradeBlocked rm then (rm, invalid TradingBlocked)
      else case accountInfoReply env of
        None \<Rightarrow> (rm, invalid NoAccountInfo)
      | Some accountInfo \<Rightarrow>
          let (rm1, dailyLossCheck) = checkDailyLossLimit rm accountInfo in
          if \<not> passed dailyLossCheck then (rm1, invalid (chk_reason dailyLossCheck))
          else case positionsReply env of
            None \<Rightarrow> (rm1, invalid ValidationError)
          | Some positions \<Rightarrow>
              let positionCheck = checkMaxPositions rm1 positions in
              if \<not> passed positionCheck then (rm1, invalid (chk_reason positionCheck))
              else
                let spreadCheck = checkSpread rm1 (marketDataReply env) in
                if \<not> passed spreadCheck then (rm1, invalid (chk_reason spreadCheck))
                else
                  let size = calculatePositionSize rm1 signal accountInfo (symbolInfoReply env) in
                  if js_le size (Num 0) then (rm1, invalid NoValidPositionSize)
                  else
                    let adjustedSL = adjustStopLoss rm1 signal;
                        adjustedTP = adjustTakeProfit rm1 signal
                    in (rm1, \<lparr>isValid = True, reason = TradeValidated,
                              adjustedSignal =
                                Some (signal\<lparr>stopLoss := adjustedSL, takeProfit := adjustedTP\<rparr>),
                              positionSize = Some size\<rparr>))"

text \<open>Position monitoring: the requests sent to the execution gateway for one position.\<close>

datatype Request = ModifyPosition nat real real | ClosePosition nat

definition shouldMoveToBreakEven :: "RiskManager \<Rightarrow> Position \<Rightarrow> bool" where
  "shouldMoveToBreakEven rm position =
     (let riskDistance = \<bar>openPrice position - pos_stopLoss position\<bar>;
          currentProfit = currentPrice position - openPrice position
      in \<bar>currentProfit\<bar> \<ge> riskDistance * 1.5 \<and> pos_stopLoss position \<noteq> openPrice position)"

definition moveToBreakEven :: "RiskManager \<Rightarrow> Position \<Rightarrow> Request" where
  "moveToBreakEven rm position =
     ModifyPosition (ticket position) (openPrice position) (pos_takeProfit position)"

definition shouldTrailStop :: "RiskManager \<Rightarrow> Position \<Rightarrow> bool" where
  "shouldTrailStop rm position = False"

definition shouldEmergencyClose :: "RiskManager \<Rightarrow> Position \<Rightarrow> bool" where
  "shouldEmergencyClose rm position =
     (let maxLossAmount = (dailyStartBalance rm * maxRiskPerTrade (riskParams rm) * 2) / 100
      in \<bar>profit position\<bar> \<ge> maxLossAmount \<and> profit position < 0)"

text \<open>\<^verbatim>\<open>trailStopLoss\<close> writes to the log and sends nothing.\<close>

definition trailStopLoss :: "RiskManager \<Rightarrow> Position \<Rightarrow> Request list" where
  "trailStopLoss rm position = []"

definition applyPositionRiskManagement :: "RiskManager \<Rightarrow> Position \<Rightarrow> Request list" where
  "applyPositionRiskManagement rm position =
     (if shouldMoveToBreakEven rm position then [moveToBreakEven rm position] else []) @
     (if shouldTrailStop rm position then trailStopLoss rm position else []) @
     (if shouldEmergencyClose rm position then [ClosePosition (ticket position)] else [])"

definition monitorPositions :: "RiskManager \<Rightarrow> Position list \<Rightarrow> Request list" where
  "monitorPositions rm positions = concat (map (applyPositionRiskManagement rm) positions)"

definition updateDailyPL :: "RiskManager \<Rightarrow> AccountInfo option \<Rightarrow> RiskManager" where
  "updateDailyPL rm reply =
     (case reply of
        None \<Rightarrow> rm
      | Some accountInfo \<Rightarrow> rm\<lparr>dailyPL := balance accountInfo - dailyStartBalance rm\<rparr>)"

definition resetDailyTracking :: "RiskManager \<Rightarrow> AccountInfo option \<Rightarrow> RiskManager" where
  "resetDailyTracking rm reply = (initializeDailyTracking rm reply)\<lparr>isTradeBlocked := False\<rparr>"

definition updateRiskParams :: "RiskManager \<Rightarrow> (RiskParams \<Rightarrow> RiskParams) \<Rightarrow> RiskManager" where
  "updateRiskParams rm newParams = rm\<lparr>riskParams := newParams (riskParams rm)\<rparr>"

text \<open>
  The calls that reach a risk manager, and a run of them.  \<^verbatim>\<open>updateRiskParams\<close> merges
  a partial parameter record into the current one: any function on the parameters.  The
  constructor starts \<^verbatim>\<open>initializeDailyTracking\<close> without waiting for it, so its effect
  can arrive between later calls.
\<close>

datatype RiskCall =
    CallInitializeDailyTracking "AccountInfo option"
  | CallValidateTrade StrategySignal Replies
  | CallMonitorPositions "Position list"
  | CallUpdateDailyPL "AccountInfo option"
  | CallUpdateRiskParams "RiskParams \<Rightarrow> RiskParams"
  | CallResetDailyTracking "AccountInfo option"

fun riskCall :: "RiskManager \<Rightarrow> RiskCall \<Rightarrow> RiskManager" where
  "riskCall rm (CallInitializeDailyTracking reply) = initializeDailyTracking rm reply"
| "riskCall rm (CallValidateTrade signal env) = fst (validateTrade rm signal env)"
| "riskCall rm (CallMonitorPositions positions) = rm"
| "riskCall rm (CallUpdateDailyPL reply) = updateDailyPL rm reply"
| "riskCall rm (CallUpdateRiskParams newParams) = updateRiskParams rm newParams"
| "riskCall rm (CallResetDailyTracking reply) = resetDailyTracking rm reply"

fun isReset :: "RiskCall \<Rightarrow> bool" where
  "isReset (CallResetDailyTracking reply) = True"
| "isReset _ = False"

section \<open>Notions used to state the properties\<close>


text \<open>The first element of a list on which \<open>f\<close> gives a result, with that result.\<close>

fun firstSome :: "('a \<Rightarrow> 'b option) \<Rightarrow> 'a list \<Rightarrow> 'b option" where
  "firstSome f [] = None"
| "firstSome f (x # xs) = (case f x of Some y \<Rightarrow> Some y | None \<Rightarrow> firstSome f xs)"

text \<open>
  The candidates of the three categories, in the order in which \<^verbatim>\<open>analyze\<close> looks at
  them, for a strategy whose structure lists are up to date; and the validation filter.
\<close>

definition candidates ::
  "SMCStrategy \<Rightarrow> string \<Rightarrow> OHLC list \<Rightarrow> MarketData \<Rightarrow> real \<Rightarrow> StrategySignal option list" where
  "candidates st symb ohlc marketData now =
     [map_option (stamp st symb now)
        (checkOrderBlockEntry (name st) (bid marketData) (orderBlocks st)),
      map_option (stamp st symb now)
        (checkLiquidityGrabReversal (name st) (bid marketData) ohlc (liquidityZones st)),
      map_option (stamp st symb now)
        (checkFairValueGapFill (name st) (bid marketData) (fairValueGaps st))]"

definition validated :: "StrategySignal option \<Rightarrow> StrategySignal option" where
  "validated c =
     (case c of None \<Rightarrow> None | Some s \<Rightarrow> if validateSignal s then Some s else None)"

text \<open>
  The local values of \<^verbatim>\<open>adjustTakeProfit\<close>: the two distances, the reward:risk ratio
  that is compared with the minimum, and the minimum reward, each as the program
  computes it.
\<close>

definition riskDistance :: "StrategySignal \<Rightarrow> real" where
  "riskDistance s = \<bar>fsub (entry s) (stopLoss s)\<bar>"

definition rewardDistance :: "StrategySignal \<Rightarrow> real" where
  "rewardDistance s = \<bar>fsub (takeProfit s) (entry s)\<bar>"

definition computedRR :: "StrategySignal \<Rightarrow> jsnum" where
  "computedRR s = fdiv (rewardDistance s) (riskDistance s)"

definition minReward :: "RiskManager \<Rightarrow> StrategySignal \<Rightarrow> real" where
  "minReward rm s = fmul (riskDistance s) (minRiskReward (riskParams rm))"

text \<open>
  The most that the three roundings on the way to the adjusted target (of the risk
  distance, of the minimum reward, of the target) move the reward away from
  \<open>|entry - stopLoss| * minRiskReward\<close>: half a unit in the last place of each exact
  result, the first one multiplied by the minimum ratio.
\<close>

definition roundingSlack :: "RiskManager \<Rightarrow> StrategySignal \<Rightarrow> real" where
  "roundingSlack rm s =
     minRiskReward (riskParams rm) * halfUlp (entry s - stopLoss s)
     + halfUlp (riskDistance s * minRiskReward (riskParams rm))
     + halfUlp (if action s = BUY then entry s + minReward rm s else entry s - minReward rm s)"

text \<open>Every stored weight lies in the interval from 0.1 to 2.0.\<close>

definition weightsInRange :: "LearningEngine \<Rightarrow> bool" where
  "weightsInRange eng \<longleftrightarrow>
     (\<forall>strat w. strategyWeights eng strat = Some w \<longrightarrow> 0.1 \<le> w \<and> w \<le> 2.0) \<and>
     (\<forall>symb m strat w. symbolPerformance eng symb = Some m \<longrightarrow> m strat = Some w
         \<longrightarrow> 0.1 \<le> w \<and> w \<le> 2.0)"

text \<open>
  The position size as the specification words it: the risk amount divided by the stop
  distance in price units, clamped to the volume limits, then rounded to the nearest
  volume step.
\<close>

definition specPositionSize ::
  "RiskManager \<Rightarrow> StrategySignal \<Rightarrow> AccountInfo \<Rightarrow> SymbolInfo \<Rightarrow> real" where
  "specPositionSize rm signal accountInfo symbolInfo =
     (let riskAmount = equity accountInfo * maxRiskPerTrade (riskParams rm) / 100;
          stopDistance = \<bar>entry signal - stopLoss signal\<bar>;
          raw = riskAmount / stopDistance;
          clamped = max (volumeMin symbolInfo) (min (volumeMax symbolInfo) raw)
      in of_int \<lfloor>clamped / volumeStep symbolInfo + 1 / 2\<rfloor> * volumeStep symbolInfo)"

text \<open>The same wording with the stop distance counted in points.\<close>

definition specPositionSizePoints ::
  "RiskManager \<Rightarrow> StrategySignal \<Rightarrow> AccountInfo \<Rightarrow> SymbolInfo \<Rightarrow> real" where
  "specPositionSizePoints rm signal accountInfo symbolInfo =
     (let riskAmount = equity accountInfo * maxRiskPerTrade (riskParams rm) / 100;
          stopDistance = \<bar>entry signal - stopLoss signal\<bar> / point symbolInfo;
          raw = riskAmount / stopDistance;
          clamped = max (volumeMin symbolInfo) (min (volumeMax symbolInfo) raw)
      in of_int \<lfloor>clamped / volumeStep symbolInfo + 1 / 2\<rfloor> * volumeStep symbolInfo)"

section \<open>Sample data\<close>

text \<open>
  A window of fifty bars: twenty flat bars at 1, a bullish bar with a long lower wick
  (index 20), a bullish bar that leaves the range (index 21), then bars at 1.5.
\<close>

definition flat :: "real \<Rightarrow> OHLC" where
  "flat p = \<lparr>time = 0, openp = p, high = p, low = p, close = p, volume = 0\<rparr>"

definition bars50 :: "OHLC list" where
  "bars50 = replicate 20 (flat 1) @
     [\<lparr>time = 0, openp = 1, high = 1.1, low = 0.8, close = 1.1, volume = 0\<rparr>,
      \<lparr>time = 0, openp = 1.1, high = 1.5, low = 1.1, close = 1.5, volume = 0\<rparr>,
      \<lparr>time = 0, openp = 1.5, high = 1.5, low = 1.4, close = 1.5, volume = 0\<rparr>] @
     replicate 27 (flat 1.5)"

definition quote :: "real \<Rightarrow> MarketData" where
  "quote p = \<lparr>md_symbol = ''EURUSD'', bid = p, ask = p, spread = 0, md_volume = 0,
              md_timestamp = 0\<rparr>"

text \<open>A price inside the order block of bar 20 and the gap of bar 20; one inside the gap of bar 21.\<close>

definition tickInBlock :: MarketData where
  "tickInBlock = quote 1.05"

definition tickInGap :: MarketData where
  "tickInGap = quote 1.3"

definition block20 :: OrderBlock where
  "block20 = \<lparr>ob_type = bullish, ob_high = 1.1, ob_low = 0.8, ob_index = 20,
               ob_strength = 82, tested = False\<rparr>"

definition zone20 :: LiquidityZone where
  "zone20 = \<lparr>lz_type = support, level = 0.8, lz_strength = 0, touches = 1\<rparr>"

definition gap20 :: FairValueGap where
  "gap20 = \<lparr>fvg_type = bullish, fvg_top = 1.1, fvg_bottom = 1, fvg_index = 20,
             filled = False\<rparr>"

definition enteredGap :: FairValueGap where
  "enteredGap = \<lparr>fvg_type = bullish, fvg_top = 1.4, fvg_bottom = 1.1, fvg_index = 21,
                  filled = False\<rparr>"

definition afterCycle :: SMCStrategy where
  "afterCycle = (activate newSMCStrategy)
     \<lparr>orderBlocks := [block20], liquidityZones := [zone20],
      fairValueGaps := [gap20, enteredGap]\<rparr>"

definition markFilled :: "SMCStrategy \<Rightarrow> SMCStrategy" where
  "markFilled st = st\<lparr>fairValueGaps := map (\<lambda>g. g\<lparr>filled := True\<rparr>) (fairValueGaps st)\<rparr>"







definition obCandidate :: StrategySignal where
  "obCandidate = \<lparr>symbol = ''EURUSD'', action = BUY, confidence = 0.82, entry = 1.05,
      stopLoss = 0.74, takeProfit = 1.55, strategy = ''SMC (Smart Money)'', timestamp = 7\<rparr>"

definition fvgCandidate :: StrategySignal where
  "fvgCandidate = \<lparr>symbol = ''EURUSD'', action = BUY, confidence = 0.75, entry = 1.05,
      stopLoss = 0.95, takeProfit = 1.25, strategy = ''SMC (Smart Money)'', timestamp = 7\<rparr>"

definition gapSignal :: StrategySignal where
  "gapSignal = \<lparr>symbol = ''EURUSD'', action = BUY, confidence = 0.75, entry = 1.3,
      stopLoss = 0.95, takeProfit = 1.9, strategy = ''SMC (Smart Money)'', timestamp = 7\<rparr>"

definition sigOf :: "string \<Rightarrow> real \<Rightarrow> StrategySignal" where
  "sigOf strat c = \<lparr>symbol = ''EURUSD'', action = BUY, confidence = c, entry = 1.1000,
      stopLoss = 1.0950, takeProfit = 1.1100, strategy = strat, timestamp = 0\<rparr>"

text \<open>
  The scenario of two candidates with the strategy weights 1.2 and 0.8 and the
  confidences 0.6 and 0.9, each number the binary64 value of its decimal literal; and a
  scenario whose two products are equal, 0.5 times 1.5 and 0.75 times 1.
\<close>

definition engAB :: LearningEngine where
  "engAB = \<lparr>strategyWeights = [''A'' \<mapsto> dbl 1.2, ''B'' \<mapsto> dbl 0.8],
             symbolPerformance = Map.empty\<rparr>"

definition candidateA :: StrategySignal where
  "candidateA = sigOf ''A'' (dbl 0.6)"

definition candidateB :: StrategySignal where
  "candidateB = sigOf ''B'' (dbl 0.9)"

definition engTie :: LearningEngine where
  "engTie = \<lparr>strategyWeights = [''A'' \<mapsto> 1.5, ''B'' \<mapsto> 1], symbolPerformance = Map.empty\<rparr>"

definition tieA :: StrategySignal where
  "tieA = sigOf ''A'' 0.5"

definition tieB :: StrategySignal where
  "tieB = sigOf ''B'' 0.75"

definition closedTrade :: "TradeResultKind \<Rightarrow> SignalHistory" where
  "closedTrade r =
     \<lparr>h_signal = sigOf ''SMC'' 0.9, h_ticket = 1, executionTime = 0,
      outcome = Some \<lparr>result = r, oc_profit = 0, closeTime = 0\<rparr>\<rparr>"

definition rm10k :: RiskManager where
  "rm10k = \<lparr>riskParams = defaultRiskParams, dailyStartBalance = 10000, dailyPL = 0,
            isTradeBlocked = False\<rparr>"

definition account :: "real \<Rightarrow> AccountInfo" where
  "account b = \<lparr>balance = b, equity = b, acc_profit = 0, margin = 0, freeMargin = b,
                marginLevel = 0, currency = ''USD'', leverage = 100\<rparr>"

definition buySignal :: "real \<Rightarrow> StrategySignal" where
  "buySignal tp = \<lparr>symbol = ''EURUSD'', action = BUY, confidence = 0.9, entry = 1.1000,
     stopLoss = 1.0950, takeProfit = tp, strategy = ''SMC'', timestamp = 0\<rparr>"

text \<open>
  Signals whose prices are the binary64 values of decimal quotes: two BUY signals and a
  SELL signal below the minimum reward:risk of 1.5, and a BUY signal above it.
\<close>

definition quoted :: "Action \<Rightarrow> real \<Rightarrow> real \<Rightarrow> real \<Rightarrow> StrategySignal" where
  "quoted a e s t = \<lparr>symbol = ''EURUSD'', action = a, confidence = dbl 0.9, entry = dbl e,
     stopLoss = dbl s, takeProfit = dbl t, strategy = ''SMC'', timestamp = 0\<rparr>"

definition lowRewardBuy :: StrategySignal where
  "lowRewardBuy = quoted BUY 1.1 1.095 1.105"

definition shortfallBuy :: StrategySignal where
  "shortfallBuy = quoted BUY 1.20837 1.20047 1.21232"

definition lowRewardSell :: StrategySignal where
  "lowRewardSell = quoted SELL 1.1 1.105 1.099"

definition fairBuy :: StrategySignal where
  "fairBuy = quoted BUY 1.1 1.095 1.11"

definition eurusdInfo :: SymbolInfo where
  "eurusdInfo = \<lparr>si_name = ''EURUSD'', digits = 5, point = 0.00001, si_spread = 1,
     tradeMode = 0, volumeMin = 0.01, volumeMax = 5.0, volumeStep = 0.01,
     marginRequired = 0\<rparr>"

text \<open>A symbol whose minimum volume is not a multiple of its volume step.\<close>

definition oddLotInfo :: SymbolInfo where
  "oddLotInfo = eurusdInfo\<lparr>volumeMin := 0.015\<rparr>"

definition replies :: "real \<Rightarrow> Replies" where
  "replies b = \<lparr>accountInfoReply = Some (account b), positionsReply = Some [],
      marketDataReply = Some (quote 1.1), symbolInfoReply = Some eurusdInfo\<rparr>"

definition sellPosition :: "real \<Rightarrow> real \<Rightarrow> real \<Rightarrow> real \<Rightarrow> Position" where
  "sellPosition opened stop price pl =
     \<lparr>ticket = 2, pos_symbol = ''XAUUSD'', pos_type = PosSELL, pos_volume = 0.1,
      openPrice = opened, currentPrice = price, profit = pl, pos_stopLoss = stop,
      pos_takeProfit = 0, openTime = 0, comment = []\<rparr>"

definition buyPosition :: "real \<Rightarrow> real \<Rightarrow> real \<Rightarrow> Position" where
  "buyPosition stop price pl =
     \<lparr>ticket = 1, pos_symbol = ''EURUSD'', pos_type = PosBUY, pos_volume = 0.1,
      openPrice = 1.1000, currentPrice = price, profit = pl, pos_stopLoss = stop,
      pos_takeProfit = 1.1200, openTime = 0, comment = []\<rparr>"

section \<open>Rounding\<close>

lemma pow2_powr: "pow2 k = 2 powr (of_int k)"
proof (cases "0 \<le> k")
  case True
  then show ?thesis by (simp add: pow2_def powr_realpow [symmetric])
next
  case False
  then have "pow2 k = inverse (2 powr (real (nat (- k))))"
    by (simp add: pow2_def powr_realpow [symmetric] divide_inverse)
  also have "\<dots> = 2 powr (- real (nat (- k)))"
    by (simp add: powr_minus)
  also have "- real (nat (- k)) = of_int k" using False by simp
  finally show ?thesis .
qed

lemma pow2_pos: "0 < pow2 k"
  by (simp add: pow2_powr)

lemma pow2_add: "pow2 (a + b) = pow2 a * pow2 b"
  by (simp add: pow2_powr powr_add)

lemma pow2_le_iff: "pow2 a \<le> pow2 b \<longleftrightarrow> a \<le> b"
  by (simp add: pow2_powr)

lemma pow2_less_iff: "pow2 a < pow2 b \<longleftrightarrow> a < b"
  by (simp add: pow2_powr)

lemma pow2_nat: "0 \<le> k \<Longrightarrow> pow2 k = 2 ^ nat k"
  by (simp add: pow2_def)

lemma expo_bounds:
  assumes "x \<noteq> 0"
  shows "pow2 (expo x) \<le> \<bar>x\<bar>" and "\<bar>x\<bar> < pow2 (expo x + 1)"
proof -
  have both: "pow2 (expo x) \<le> \<bar>x\<bar> \<and> \<bar>x\<bar> < pow2 (expo x + 1)"
  proof (cases "1 \<le> \<bar>x\<bar>")
    case True
    define n where "n = \<lfloor>\<bar>x\<bar>\<rfloor>"
    have n: "0 < n" using True by (simp add: n_def)
    have e: "expo x = bitlen n - 1" using True by (simp add: expo_def n_def)
    have b1: "1 \<le> bitlen n" using n by (simp add: bitlen_alt_def)
    from bitlen_bounds [OF n]
    have lo: "(2::int) ^ nat (bitlen n - 1) \<le> n" and hi: "n < 2 ^ nat (bitlen n)" by simp_all
    have "pow2 (expo x) = of_int (2 ^ nat (bitlen n - 1))"
      using b1 by (simp add: e pow2_nat)
    also have "\<dots> \<le> of_int n" using lo by (simp only: of_int_le_iff)
    also have "\<dots> \<le> \<bar>x\<bar>" by (simp add: n_def)
    finally have 1: "pow2 (expo x) \<le> \<bar>x\<bar>" .
    have "n + 1 \<le> 2 ^ nat (bitlen n)" using hi by simp
    then have "real_of_int (n + 1) \<le> of_int (2 ^ nat (bitlen n))"
      by (simp only: of_int_le_iff)
    moreover have "\<bar>x\<bar> < real_of_int (n + 1)" by (simp add: n_def)
    moreover have "pow2 (expo x + 1) = of_int (2 ^ nat (bitlen n))"
      using b1 by (simp add: e pow2_nat)
    ultimately have 2: "\<bar>x\<bar> < pow2 (expo x + 1)" by simp
    show ?thesis using 1 2 by simp
  next
    case False
    define y where "y = 1 / \<bar>x\<bar>"
    define m where "m = \<lceil>y\<rceil> - 1"
    have ax: "0 < \<bar>x\<bar>" using assms by simp
    have y1: "1 < y" using False ax by (simp add: y_def)
    have xy: "\<bar>x\<bar> = 1 / y" by (simp add: y_def)
    have "1 < \<lceil>y\<rceil>" using y1 by (simp add: less_ceiling_iff)
    then have m: "0 < m" by (simp add: m_def)
    have e: "expo x = - bitlen m" using False by (simp add: expo_def m_def y_def)
    have b1: "1 \<le> bitlen m" using m by (simp add: bitlen_alt_def)
    from bitlen_bounds [OF m]
    have lo: "(2::int) ^ nat (bitlen m - 1) \<le> m" and hi: "m < 2 ^ nat (bitlen m)" by simp_all
    have ym: "real_of_int m < y" by (simp add: m_def) linarith
    have my: "y \<le> real_of_int (m + 1)" by (simp add: m_def)
    have "m + 1 \<le> 2 ^ nat (bitlen m)" using hi by simp
    then have "real_of_int (m + 1) \<le> of_int (2 ^ nat (bitlen m))"
      by (simp only: of_int_le_iff)
    with my have yhi: "y \<le> 2 ^ nat (bitlen m)" by simp
    have "real_of_int (2 ^ nat (bitlen m - 1)) \<le> of_int m"
      using lo by (simp only: of_int_le_iff)
    then have "(2::real) ^ nat (bitlen m - 1) \<le> of_int m" by simp
    with ym have ylo: "2 ^ nat (bitlen m - 1) < y" by linarith
    have p1: "pow2 (expo x) = 1 / 2 ^ nat (bitlen m)"
      using b1 by (simp add: e pow2_def)
    have p2: "pow2 (expo x + 1) = 1 / 2 ^ nat (bitlen m - 1)"
    proof (cases "bitlen m = 1")
      case True
      then show ?thesis by (simp add: e pow2_def)
    next
      case False
      then have "expo x + 1 < 0" using b1 by (simp add: e)
      moreover have "nat (- (expo x + 1)) = nat (bitlen m - 1)" by (simp add: e)
      ultimately show ?thesis by (simp add: pow2_def)
    qed
    have 1: "pow2 (expo x) \<le> \<bar>x\<bar>"
      unfolding p1 xy using yhi y1 by (simp add: frac_le)
    have 2: "\<bar>x\<bar> < pow2 (expo x + 1)"
      unfolding p2 xy using ylo y1 by (simp add: frac_less2)
    show ?thesis using 1 2 by simp
  qed
  show "pow2 (expo x) \<le> \<bar>x\<bar>" and "\<bar>x\<bar> < pow2 (expo x + 1)"
    using both by simp_all
qed

lemma expo_unique:
  assumes "pow2 j \<le> \<bar>x\<bar>" "\<bar>x\<bar> < pow2 (j + 1)"
  shows "expo x = j"
proof -
  have nz: "x \<noteq> 0" using assms(1) pow2_pos [of j] by auto
  have "pow2 j < pow2 (expo x + 1)"
    using assms(1) expo_bounds(2) [OF nz] by linarith
  then have a: "j \<le> expo x" by (simp add: pow2_less_iff)
  have "pow2 (expo x) < pow2 (j + 1)"
    using assms(2) expo_bounds(1) [OF nz] by linarith
  then have b: "expo x \<le> j" by (simp add: pow2_less_iff)
  show ?thesis using a b by simp
qed

lemma expo_mono:
  assumes "x \<noteq> 0" "\<bar>x\<bar> \<le> \<bar>y\<bar>"
  shows "expo x \<le> expo y"
proof -
  have ny: "y \<noteq> 0" using assms by auto
  have "pow2 (expo x) < pow2 (expo y + 1)"
    using expo_bounds(1) [OF assms(1)] expo_bounds(2) [OF ny] assms(2) by linarith
  then show ?thesis by (simp add: pow2_less_iff)
qed

lemma expo_minus: "expo (- x) = expo x"
  by (simp add: expo_def)

lemma rne_cases: "rne t = \<lfloor>t\<rfloor> \<or> rne t = \<lfloor>t\<rfloor> + 1"
  by (simp add: rne_def Let_def)

lemma rne_of_int: "rne (of_int n) = n"
  by (simp add: rne_def Let_def)

lemma rne_mono:
  assumes "t \<le> u"
  shows "rne t \<le> rne u"
proof (cases "\<lfloor>t\<rfloor> = \<lfloor>u\<rfloor>")
  case True
  have "t - of_int \<lfloor>u\<rfloor> \<le> u - of_int \<lfloor>u\<rfloor>" using assms by simp
  then show ?thesis
    unfolding rne_def Let_def True
    by (auto simp: not_less)
next
  case False
  then have "\<lfloor>t\<rfloor> < \<lfloor>u\<rfloor>" using floor_mono [OF assms] by simp
  then show ?thesis
    using rne_cases [of t] rne_cases [of u] by auto
qed

lemma rne_minus: "rne (- t) = - rne t"
proof (cases "t \<in> \<int>")
  case True
  then obtain n where "t = of_int n" by (auto elim: Ints_cases)
  then show ?thesis
    using rne_of_int [of n] rne_of_int [of "- n"] by simp
next
  case False
  have ne: "t \<noteq> of_int \<lfloor>t\<rfloor>"
    using False by (metis Ints_of_int)
  have fr: "0 < t - of_int \<lfloor>t\<rfloor>" "t - of_int \<lfloor>t\<rfloor> < 1"
    using ne of_int_floor_le [of t] by linarith+
  have f: "\<lfloor>- t\<rfloor> = - \<lfloor>t\<rfloor> - 1"
    by (rule floor_unique) (use fr in simp_all)
  show ?thesis
    unfolding rne_def Let_def f
    using fr ne by (auto; linarith?)
qed

lemma dbl_scale: "x \<noteq> 0 \<Longrightarrow> dbl x = of_int (rne (x / pow2 (scale x))) * pow2 (scale x)"
  by (simp add: dbl_def)

lemma scale_minus: "scale (- x) = scale x"
  by (simp add: scale_def expo_minus)

lemma scale_mono: "x \<noteq> 0 \<Longrightarrow> \<bar>x\<bar> \<le> \<bar>y\<bar> \<Longrightarrow> scale x \<le> scale y"
  using expo_mono [of x y] by (simp add: scale_def)

lemma dbl_minus: "dbl (- x) = - dbl x"
  by (simp add: dbl_def scale_minus rne_minus)

lemma rne_nonneg: "0 \<le> t \<Longrightarrow> 0 \<le> rne t"
  using rne_mono [of 0 t] rne_of_int [of 0] by simp

lemma dbl_nonneg: "0 \<le> x \<Longrightarrow> 0 \<le> dbl x"
proof (cases "x = 0")
  case True
  then show ?thesis by (simp add: dbl_def)
next
  case False
  assume "0 \<le> x"
  then have "0 \<le> x / pow2 (scale x)" using pow2_pos [of "scale x"] by simp
  then have "0 \<le> rne (x / pow2 (scale x))" by (rule rne_nonneg)
  then show ?thesis
    using pow2_pos [of "scale x"] by (simp add: dbl_scale [OF False])
qed

lemma dbl_nonpos: "x \<le> 0 \<Longrightarrow> dbl x \<le> 0"
  using dbl_nonneg [of "- x"] by (simp add: dbl_minus)

lemma significand_less:
  assumes "0 < x"
  shows "x / pow2 (scale x) < 2 ^ 53"
proof -
  have nz: "x \<noteq> 0" using assms by simp
  have "x < pow2 (expo x + 1)" using expo_bounds(2) [OF nz] assms by simp
  also have "pow2 (expo x + 1) \<le> pow2 (scale x + 53)"
    by (simp add: pow2_le_iff scale_def)
  also have "pow2 (scale x + 53) = pow2 (scale x) * 2 ^ 53"
    by (simp add: pow2_add pow2_nat)
  finally show ?thesis
    using pow2_pos [of "scale x"] by (simp add: pos_divide_less_eq mult.commute)
qed

lemma significand_ge:
  assumes "0 < x" "- 1022 \<le> expo x"
  shows "2 ^ 52 \<le> x / pow2 (scale x)"
proof -
  have nz: "x \<noteq> 0" using assms by simp
  have s: "scale x + 52 = expo x" using assms(2) by (simp add: scale_def)
  have "pow2 (scale x) * 2 ^ 52 = pow2 (scale x + 52)"
    by (simp add: pow2_add pow2_nat)
  also have "\<dots> \<le> x" using expo_bounds(1) [OF nz] assms(1) by (simp add: s)
  finally show ?thesis
    using pow2_pos [of "scale x"] by (simp add: pos_le_divide_eq mult.commute)
qed

lemma rne_le_int: "t \<le> of_int n \<Longrightarrow> rne t \<le> n"
  using rne_mono [of t "of_int n"] by (simp add: rne_of_int)

lemma rne_ge_int: "of_int n \<le> t \<Longrightarrow> n \<le> rne t"
  using rne_mono [of "of_int n" t] by (simp add: rne_of_int)

lemma dbl_mono_pos:
  assumes "0 < x" "x \<le> y"
  shows "dbl x \<le> dbl y"
proof -
  have nx: "x \<noteq> 0" and ny: "y \<noteq> 0" and py: "0 < y" using assms by simp_all
  have k: "scale x \<le> scale y" using scale_mono [OF nx, of y] assms by simp
  show ?thesis
  proof (cases "scale x = scale y")
    case True
    have "x / pow2 (scale y) \<le> y / pow2 (scale y)"
      using assms(2) pow2_pos [of "scale y"] by (simp add: divide_right_mono)
    then have "rne (x / pow2 (scale y)) \<le> rne (y / pow2 (scale y))" by (rule rne_mono)
    then have "real_of_int (rne (x / pow2 (scale y))) * pow2 (scale y)
                 \<le> real_of_int (rne (y / pow2 (scale y))) * pow2 (scale y)"
      using pow2_pos [of "scale y"] by (simp add: mult_right_mono)
    then show ?thesis by (simp add: dbl_scale [OF nx] dbl_scale [OF ny] True)
  next
    case False
    then have lt: "scale x + 1 \<le> scale y" using k by simp
    then have "- 1022 \<le> expo y" by (auto simp: scale_def max_def split: if_splits)
    then have "2 ^ 52 \<le> y / pow2 (scale y)" using significand_ge [OF py] by simp
    then have "real_of_int (2 ^ 52) \<le> y / pow2 (scale y)" by simp
    then have "2 ^ 52 \<le> rne (y / pow2 (scale y))" by (rule rne_ge_int)
    then have "real_of_int (2 ^ 52) \<le> real_of_int (rne (y / pow2 (scale y)))"
      by (simp only: of_int_le_iff)
    then have lo: "2 ^ 52 * pow2 (scale y) \<le> dbl y"
      using pow2_pos [of "scale y"] by (simp add: dbl_scale [OF ny] mult_right_mono)
    have "x / pow2 (scale x) \<le> real_of_int (2 ^ 53)"
      using significand_less [OF assms(1)] by simp
    then have "rne (x / pow2 (scale x)) \<le> 2 ^ 53" by (rule rne_le_int)
    then have "real_of_int (rne (x / pow2 (scale x))) \<le> real_of_int (2 ^ 53)"
      by (simp only: of_int_le_iff)
    then have hi: "dbl x \<le> 2 ^ 53 * pow2 (scale x)"
      using pow2_pos [of "scale x"] by (simp add: dbl_scale [OF nx] mult_right_mono)
    have "2 ^ 53 * pow2 (scale x) = 2 ^ 52 * pow2 (scale x + 1)"
      by (simp add: pow2_add pow2_nat)
    also have "\<dots> \<le> 2 ^ 52 * pow2 (scale y)"
      using lt by (simp add: pow2_le_iff)
    finally show ?thesis using lo hi by linarith
  qed
qed

lemma dbl_mono:
  assumes "x \<le> y"
  shows "dbl x \<le> dbl y"
proof -
  consider "0 < x" | "x \<le> 0" "0 \<le> y" | "y < 0" by linarith
  then show ?thesis
  proof cases
    case 1
    then show ?thesis using dbl_mono_pos assms by simp
  next
    case 2
    then show ?thesis using dbl_nonpos [of x] dbl_nonneg [of y] by linarith
  next
    case 3
    then have "dbl (- y) \<le> dbl (- x)" using dbl_mono_pos [of "- y" "- x"] assms by simp
    then show ?thesis by (simp add: dbl_minus)
  qed
qed

lemma dbl_ge: "dbl d = d \<Longrightarrow> d \<le> x \<Longrightarrow> d \<le> dbl x"
  using dbl_mono [of d x] by simp

lemma dbl_le: "dbl d = d \<Longrightarrow> x \<le> d \<Longrightarrow> dbl x \<le> d"
  using dbl_mono [of x d] by simp

lemma rne_error: "\<bar>of_int (rne t) - t\<bar> \<le> 1 / 2"
proof -
  have "of_int \<lfloor>t\<rfloor> \<le> t" "t < of_int \<lfloor>t\<rfloor> + 1" by linarith+
  then show ?thesis
    unfolding rne_def Let_def by (auto simp: abs_le_iff) 
qed

lemma dbl_error: "\<bar>dbl x - x\<bar> \<le> halfUlp x"
proof (cases "x = 0")
  case True
  then show ?thesis using pow2_pos [of "scale 0"] by (simp add: dbl_def halfUlp_def)
next
  case False
  let ?p = "pow2 (scale x)"
  have p: "0 < ?p" by (rule pow2_pos)
  have "dbl x - x = (of_int (rne (x / ?p)) - x / ?p) * ?p"
    using p by (simp add: dbl_scale [OF False] algebra_simps)
  then have "\<bar>dbl x - x\<bar> = \<bar>of_int (rne (x / ?p)) - x / ?p\<bar> * ?p"
    using p by (simp add: abs_mult)
  also have "\<dots> \<le> 1 / 2 * ?p"
    using rne_error [of "x / ?p"] p by (intro mult_right_mono) simp_all
  finally show ?thesis by (simp add: halfUlp_def)
qed

lemma halfUlp_pos: "0 < halfUlp x"
  using pow2_pos [of "scale x"] by (simp add: halfUlp_def)

lemma rne_eqI:
  assumes "\<bar>t - of_int n\<bar> < 1 / 2"
  shows "rne t = n"
proof -
  have "\<bar>real_of_int (rne t) - of_int n\<bar> < 1"
    using rne_error [of t] assms by linarith
  then have "\<bar>real_of_int (rne t - n)\<bar> < 1" by simp
  then have "\<bar>rne t - n\<bar> < 1" by linarith
  then show ?thesis by simp
qed

lemma scale_normal:
  assumes "- 1074 \<le> k" "2 ^ 52 * pow2 k \<le> \<bar>x\<bar>" "\<bar>x\<bar> < 2 ^ 53 * pow2 k"
  shows "scale x = k"
proof -
  have a: "pow2 (k + 52) = 2 ^ 52 * pow2 k" by (simp add: pow2_add pow2_nat)
  have b: "pow2 (k + 52 + 1) = 2 ^ 53 * pow2 k"
    using pow2_add [of k 53] by (simp add: pow2_nat add.assoc)
  have "expo x = k + 52"
    by (rule expo_unique) (use assms a b in simp_all)
  then show ?thesis using assms(1) by (simp add: scale_def)
qed

text \<open>
  A value is checked against \<open>dbl\<close> by its exponent \<open>k\<close> and significand \<open>n\<close>: the argument
  lies in the binade of \<open>k\<close> and within less than half a unit of \<open>n * 2 ^ k\<close>.
\<close>

lemma dbl_cert:
  assumes k: "- 1074 \<le> k"
    and lo: "2 ^ 52 * pow2 k \<le> \<bar>x\<bar>" and hi: "\<bar>x\<bar> < 2 ^ 53 * pow2 k"
    and near: "\<bar>x - of_int n * pow2 k\<bar> < pow2 k / 2"
    and y: "y = of_int n * pow2 k"
  shows "dbl x = y"
proof -
  have p: "0 < pow2 k" by (rule pow2_pos)
  have nz: "x \<noteq> 0" using lo p by auto
  have s: "scale x = k" using scale_normal [OF k lo hi] .
  have "x / pow2 k - of_int n = (x - of_int n * pow2 k) / pow2 k"
    using p by (simp add: diff_divide_distrib)
  then have "\<bar>x / pow2 k - of_int n\<bar> = \<bar>x - of_int n * pow2 k\<bar> / pow2 k"
    using p by (simp add: abs_divide)
  also have "\<dots> < 1 / 2"
    using near p by (simp add: pos_divide_less_eq)
  finally have "rne (x / pow2 k) = n" by (rule rne_eqI)
  then show ?thesis by (simp add: dbl_scale [OF nz] s y)
qed

lemma dbl_fixed:
  assumes "x = of_int m * pow2 (scale x)"
  shows "dbl x = x"
proof (cases "x = 0")
  case True
  then show ?thesis by (simp add: dbl_def)
next
  case False
  have p: "0 < pow2 (scale x)" by (rule pow2_pos)
  have "x / pow2 (scale x) = of_int m"
    using p by (subst assms) simp
  then have "rne (x / pow2 (scale x)) = m" by (simp add: rne_of_int)
  then show ?thesis using assms by (simp add: dbl_scale [OF False])
qed

lemma pow2_diff_int:
  assumes "j \<le> k"
  shows "pow2 k = of_int (2 ^ nat (k - j)) * pow2 j"
proof -
  have "pow2 k = pow2 ((k - j) + j)" by simp
  also have "\<dots> = pow2 (k - j) * pow2 j" by (rule pow2_add)
  also have "pow2 (k - j) = of_int (2 ^ nat (k - j))"
    using assms by (simp add: pow2_nat)
  finally show ?thesis .
qed

lemma scale_lower: "- 1074 \<le> scale x"
  by (simp add: scale_def)

lemma scale_le:
  assumes "x \<noteq> 0" "\<bar>x\<bar> < pow2 (k + 53)" "- 1074 \<le> k"
  shows "scale x \<le> k"
proof -
  have "pow2 (expo x) < pow2 (k + 53)"
    using expo_bounds(1) [OF assms(1)] assms(2) by linarith
  then have "expo x < k + 53" by (simp add: pow2_less_iff)
  then show ?thesis using assms(3) by (simp add: scale_def)
qed

lemma dbl_idem_pos:
  assumes "0 < x"
  shows "dbl (dbl x) = dbl x"
proof -
  define k where "k = scale x"
  define n where "n = rne (x / pow2 k)"
  have nz: "x \<noteq> 0" using assms by simp
  have y: "dbl x = of_int n * pow2 k"
    by (simp add: dbl_scale [OF nz] n_def k_def)
  have p: "0 < pow2 k" by (rule pow2_pos)
  have k: "- 1074 \<le> k" by (simp add: k_def scale_lower)
  have "x / pow2 k \<le> real_of_int (2 ^ 53)"
    using significand_less [OF assms] by (simp add: k_def)
  then have n53: "n \<le> 2 ^ 53" unfolding n_def by (rule rne_le_int)
  have "0 \<le> x / pow2 k" using assms p by simp
  then have n0: "0 \<le> n" unfolding n_def by (rule rne_nonneg)
  show ?thesis
  proof (cases "n = 0")
    case True
    then have z: "dbl x = 0" by (simp add: y)
    show ?thesis unfolding z by (simp add: dbl_def)
  next
    case False
    then have npos: "0 < n" using n0 by simp
    then have ypos: "0 < dbl x" using p by (simp add: y)
    show ?thesis
    proof (cases "n = 2 ^ 53")
      case True
      have v: "dbl x = pow2 (k + 53)"
        by (simp add: y True pow2_add pow2_nat mult.commute)
      have "2 ^ 52 * pow2 (k + 1) \<le> \<bar>dbl x\<bar>"
        using pow2_add [of "k + 1" 52] by (simp add: v pow2_nat add.assoc mult.commute)
      moreover have "\<bar>dbl x\<bar> < 2 ^ 53 * pow2 (k + 1)"
        using pow2_add [of "k + 1" 52] pow2_pos [of "k + 1"]
        by (simp add: v pow2_nat add.assoc mult.commute)
      ultimately have s: "scale (dbl x) = k + 1"
        using scale_normal [of "k + 1" "dbl x"] k by simp
      have e: "pow2 (k + 53) = of_int (2 ^ 52) * pow2 (k + 1)"
        using pow2_add [of "k + 1" 52] by (simp add: pow2_nat add.assoc mult.commute)
      have "dbl x = of_int (2 ^ 52) * pow2 (scale (dbl x))"
        unfolding s unfolding v by (rule e)
      then show ?thesis by (rule dbl_fixed)
    next
      case False
      then have "n + 1 \<le> 2 ^ 53" using n53 by simp
      then have "real_of_int (n + 1) \<le> real_of_int (2 ^ 53)" by (simp only: of_int_le_iff)
      then have "real_of_int n < 2 ^ 53" by simp
      then have "dbl x < 2 ^ 53 * pow2 k" using p by (simp add: y)
      also have "\<dots> = pow2 (k + 53)" by (simp add: pow2_add pow2_nat mult.commute)
      finally have "\<bar>dbl x\<bar> < pow2 (k + 53)" using ypos by simp
      then have s: "scale (dbl x) \<le> k"
        using scale_le [of "dbl x" k] ypos k by simp
      have "dbl x = of_int n * (of_int (2 ^ nat (k - scale (dbl x))) * pow2 (scale (dbl x)))"
        using pow2_diff_int [OF s] by (simp add: y)
      then have "dbl x = of_int (n * 2 ^ nat (k - scale (dbl x))) * pow2 (scale (dbl x))"
        by (simp add: mult.assoc)
      then show ?thesis by (rule dbl_fixed)
    qed
  qed
qed

lemma dbl_idem: "dbl (dbl x) = dbl x"
proof -
  consider "0 < x" | "x = 0" | "x < 0" by linarith
  then show ?thesis
  proof cases
    case 1
    then show ?thesis by (rule dbl_idem_pos)
  next
    case 2
    then show ?thesis by (simp add: dbl_def)
  next
    case 3
    then have "dbl (dbl (- x)) = dbl (- x)" using dbl_idem_pos [of "- x"] by simp
    then show ?thesis by (simp add: dbl_minus)
  qed
qed

lemma rne_eqI_even:
  assumes "\<bar>t - of_int n\<bar> \<le> 1 / 2" "even n"
  shows "rne t = n"
proof -
  consider "\<bar>t - of_int n\<bar> < 1 / 2" | "t = of_int n + 1 / 2" | "t = of_int n - 1 / 2"
    using assms(1) by linarith
  then show ?thesis
  proof cases
    case 1
    then show ?thesis by (rule rne_eqI)
  next
    case 2
    have f: "\<lfloor>t\<rfloor> = n" unfolding 2 by (rule floor_unique) simp_all
    have r: "t - of_int n = 1 / 2" by (simp add: 2)
    show ?thesis unfolding rne_def Let_def f r using assms(2) by simp
  next
    case 3
    have f: "\<lfloor>t\<rfloor> = n - 1" unfolding 3 by (rule floor_unique) simp_all
    have r: "t - of_int (n - 1) = 1 / 2" by (simp add: 3)
    show ?thesis unfolding rne_def Let_def f r using assms(2) by simp
  qed
qed

lemma dbl_cert_even:
  assumes k: "- 1074 \<le> k"
    and lo: "2 ^ 52 * pow2 k \<le> \<bar>x\<bar>" and hi: "\<bar>x\<bar> < 2 ^ 53 * pow2 k"
    and near: "\<bar>x - of_int n * pow2 k\<bar> \<le> pow2 k / 2" and even: "even n"
    and y: "y = of_int n * pow2 k"
  shows "dbl x = y"
proof -
  have p: "0 < pow2 k" by (rule pow2_pos)
  have nz: "x \<noteq> 0" using lo p by auto
  have s: "scale x = k" using scale_normal [OF k lo hi] .
  have "x / pow2 k - of_int n = (x - of_int n * pow2 k) / pow2 k"
    using p by (simp add: diff_divide_distrib)
  then have "\<bar>x / pow2 k - of_int n\<bar> = \<bar>x - of_int n * pow2 k\<bar> / pow2 k"
    using p by (simp add: abs_divide)
  also have "\<dots> \<le> 1 / 2"
    using near p by (simp add: pos_divide_le_eq)
  finally have "rne (x / pow2 k) = n" using even by (rule rne_eqI_even)
  then show ?thesis by (simp add: dbl_scale [OF nz] s y)
qed

subsection \<open>The sample values in binary64\<close>

lemma dbl_lowRewardBuy_entry:
  "dbl (11 / 10)
     = 2476979795053773 / 2251799813685248"
  by (rule dbl_cert [where k = "- 52" and n = 4953959590107546])
    (simp_all add: pow2_def)

lemma dbl_lowRewardBuy_stop:
  "dbl (219 / 200)
     = 4931441591970693 / 4503599627370496"
  by (rule dbl_cert [where k = "- 52" and n = 4931441591970693])
    (simp_all add: pow2_def)

lemma dbl_lowRewardBuy_target:
  "dbl (221 / 200)
     = 2488238794122199 / 2251799813685248"
  by (rule dbl_cert [where k = "- 52" and n = 4976477588244398])
    (simp_all add: pow2_def)

lemma dbl_lowRewardBuy_risk:
  "dbl (22517998136853 / 4503599627370496)
     = 22517998136853 / 4503599627370496"
  by (rule dbl_cert [where k = "- 60" and n = 5764607523034368])
    (simp_all add: pow2_def)

lemma dbl_lowRewardBuy_reward:
  "dbl (5629499534213 / 1125899906842624)
     = 5629499534213 / 1125899906842624"
  by (rule dbl_cert [where k = "- 60" and n = 5764607523034112])
    (simp_all add: pow2_def)

lemma dbl_lowRewardBuy_ratio:
  "dbl (22517998136852 / 22517998136853)
     = 562949953421287 / 562949953421312"
  by (rule dbl_cert [where k = "- 53" and n = 9007199254740592])
    (simp_all add: pow2_def)

lemma dbl_lowRewardBuy_minReward:
  "dbl (67553994410559 / 9007199254740992)
     = 67553994410559 / 9007199254740992"
  by (rule dbl_cert [where k = "- 60" and n = 8646911284551552])
    (simp_all add: pow2_def)

lemma dbl_lowRewardBuy_adjusted:
  "dbl (9975473174625651 / 9007199254740992)
     = 2493868293656413 / 2251799813685248"
  by (rule dbl_cert_even [where k = "- 52" and n = 4987736587312826])
    (simp_all add: pow2_def)

lemma dbl_lowRewardBuy_adjusted_reward:
  "dbl (1055531162665 / 140737488355328)
     = 1055531162665 / 140737488355328"
  by (rule dbl_cert [where k = "- 60" and n = 8646911284551680])
    (simp_all add: pow2_def)

lemma dbl_lowRewardBuy_adjusted_ratio:
  "dbl (33776997205280 / 22517998136853)
     = 1688849860263961 / 1125899906842624"
  by (rule dbl_cert [where k = "- 52" and n = 6755399441055844])
    (simp_all add: pow2_def)

lemma scale_lowRewardBuy_distance: "scale (22517998136853 / 4503599627370496) = - 60"
  by (rule scale_normal) (simp_all add: pow2_def)

lemma scale_lowRewardBuy_product: "scale (67553994410559 / 9007199254740992) = - 60"
  by (rule scale_normal) (simp_all add: pow2_def)

lemma scale_lowRewardBuy_sum: "scale (9975473174625651 / 9007199254740992) = - 52"
  by (rule scale_normal) (simp_all add: pow2_def)

lemma dbl_shortfallBuy_entry:
  "dbl (120837 / 100000)
     = 2721007340862843 / 2251799813685248"
  by (rule dbl_cert [where k = "- 52" and n = 5442014681725686])
    (simp_all add: pow2_def)

lemma dbl_shortfallBuy_stop:
  "dbl (120047 / 100000)
     = 5406436244669459 / 4503599627370496"
  by (rule dbl_cert [where k = "- 52" and n = 5406436244669459])
    (simp_all add: pow2_def)

lemma dbl_shortfallBuy_target:
  "dbl (7577 / 6250)
     = 682475487531725 / 562949953421312"
  by (rule dbl_cert [where k = "- 52" and n = 5459803900253800])
    (simp_all add: pow2_def)

lemma dbl_shortfallBuy_risk:
  "dbl (35578437056227 / 4503599627370496)
     = 35578437056227 / 4503599627370496"
  by (rule dbl_cert [where k = "- 59" and n = 4554039943197056])
    (simp_all add: pow2_def)

lemma dbl_shortfallBuy_reward:
  "dbl (8894609264057 / 2251799813685248)
     = 8894609264057 / 2251799813685248"
  by (rule dbl_cert [where k = "- 60" and n = 4554039943197184])
    (simp_all add: pow2_def)

lemma dbl_shortfallBuy_ratio:
  "dbl (17789218528114 / 35578437056227)
     = 4503599627370623 / 9007199254740992"
  by (rule dbl_cert [where k = "- 53" and n = 4503599627370623])
    (simp_all add: pow2_def)

lemma dbl_shortfallBuy_minReward:
  "dbl (106735311168681 / 9007199254740992)
     = 106735311168681 / 9007199254740992"
  by (rule dbl_cert [where k = "- 59" and n = 6831059914795584])
    (simp_all add: pow2_def)

lemma dbl_shortfallBuy_adjusted:
  "dbl (10990764674620053 / 9007199254740992)
     = 2747691168655013 / 2251799813685248"
  by (rule dbl_cert_even [where k = "- 52" and n = 5495382337310026])
    (simp_all add: pow2_def)

lemma dbl_shortfallBuy_adjusted_reward:
  "dbl (13341913896085 / 1125899906842624)
     = 13341913896085 / 1125899906842624"
  by (rule dbl_cert [where k = "- 59" and n = 6831059914795520])
    (simp_all add: pow2_def)

lemma dbl_shortfallBuy_adjusted_ratio:
  "dbl (53367655584340 / 35578437056227)
     = 6755399441055681 / 4503599627370496"
  by (rule dbl_cert [where k = "- 52" and n = 6755399441055681])
    (simp_all add: pow2_def)

lemma dbl_lowRewardSell_target:
  "dbl (1099 / 1000)
     = 4949455990480175 / 4503599627370496"
  by (rule dbl_cert [where k = "- 52" and n = 4949455990480175])
    (simp_all add: pow2_def)

lemma dbl_lowRewardSell_reward:
  "dbl (4503599627371 / 4503599627370496)
     = 4503599627371 / 4503599627370496"
  by (rule dbl_cert [where k = "- 62" and n = 4611686018427904])
    (simp_all add: pow2_def)

lemma dbl_lowRewardSell_ratio:
  "dbl (4503599627371 / 22517998136852)
     = 3602879701896877 / 18014398509481984"
  by (rule dbl_cert [where k = "- 55" and n = 7205759403793754])
    (simp_all add: pow2_def)

lemma dbl_lowRewardSell_minReward:
  "dbl (16888498602639 / 2251799813685248)
     = 16888498602639 / 2251799813685248"
  by (rule dbl_cert [where k = "- 60" and n = 8646911284551168])
    (simp_all add: pow2_def)

lemma dbl_lowRewardSell_adjusted:
  "dbl (1230045648225567 / 1125899906842624)
     = 1230045648225567 / 1125899906842624"
  by (rule dbl_cert [where k = "- 52" and n = 4920182592902268])
    (simp_all add: pow2_def)

lemma dbl_lowRewardSell_adjusted_ratio:
  "dbl (3 / 2)
     = 3 / 2"
  by (rule dbl_cert [where k = "- 52" and n = 6755399441055744])
    (simp_all add: pow2_def)

lemma scale_lowRewardSell_distance: "scale (5629499534213 / 1125899906842624) = - 60"
  by (rule scale_normal) (simp_all add: pow2_def)

lemma scale_lowRewardSell_product: "scale (16888498602639 / 2251799813685248) = - 60"
  by (rule scale_normal) (simp_all add: pow2_def)

lemma scale_lowRewardSell_sum: "scale (1230045648225567 / 1125899906842624) = - 52"
  by (rule scale_normal) (simp_all add: pow2_def)

lemma dbl_fairBuy_target:
  "dbl (111 / 100)
     = 4998995586381251 / 4503599627370496"
  by (rule dbl_cert [where k = "- 52" and n = 4998995586381251])
    (simp_all add: pow2_def)

lemma dbl_fairBuy_reward:
  "dbl (45035996273705 / 4503599627370496)
     = 45035996273705 / 4503599627370496"
  by (rule dbl_cert [where k = "- 59" and n = 5764607523034240])
    (simp_all add: pow2_def)

lemma dbl_fairBuy_ratio:
  "dbl (45035996273705 / 22517998136853)
     = 1125899906842599 / 562949953421312"
  by (rule dbl_cert [where k = "- 52" and n = 9007199254740792])
    (simp_all add: pow2_def)

lemma dbl_weightA:
  "dbl (6 / 5)
     = 5404319552844595 / 4503599627370496"
  by (rule dbl_cert [where k = "- 52" and n = 5404319552844595])
    (simp_all add: pow2_def)

lemma dbl_weightB:
  "dbl (4 / 5)
     = 3602879701896397 / 4503599627370496"
  by (rule dbl_cert [where k = "- 53" and n = 7205759403792794])
    (simp_all add: pow2_def)

lemma dbl_confidenceA:
  "dbl (3 / 5)
     = 5404319552844595 / 9007199254740992"
  by (rule dbl_cert [where k = "- 53" and n = 5404319552844595])
    (simp_all add: pow2_def)

lemma dbl_confidenceB:
  "dbl (9 / 10)
     = 8106479329266893 / 9007199254740992"
  by (rule dbl_cert [where k = "- 53" and n = 8106479329266893])
    (simp_all add: pow2_def)

lemma dbl_scoreA:
  "dbl (29206669829258403248756220714025 / 40564819207303340847894502572032)
     = 3242591731706757 / 4503599627370496"
  by (rule dbl_cert [where k = "- 53" and n = 6485183463413514])
    (simp_all add: pow2_def)

lemma dbl_scoreB:
  "dbl (29206669829258407752355848084521 / 40564819207303340847894502572032)
     = 6485183463413515 / 9007199254740992"
  by (rule dbl_cert [where k = "- 53" and n = 6485183463413515])
    (simp_all add: pow2_def)

lemma dbl_three_quarters:
  "dbl (3 / 4)
     = 3 / 4"
  by (rule dbl_cert [where k = "- 53" and n = 6755399441055744])
    (simp_all add: pow2_def)

lemma dbl_one_32nd:
  "dbl (1 / 32)
     = 1 / 32"
  by (rule dbl_cert [where k = "- 57" and n = 4503599627370496])
    (simp_all add: pow2_def)

lemma dbl_one_512th:
  "dbl (1 / 512)
     = 1 / 512"
  by (rule dbl_cert [where k = "- 61" and n = 4503599627370496])
    (simp_all add: pow2_def)

lemmas dbl_samples =
  dbl_lowRewardBuy_entry dbl_lowRewardBuy_stop dbl_lowRewardBuy_target dbl_lowRewardBuy_risk
  dbl_lowRewardBuy_reward dbl_lowRewardBuy_ratio dbl_lowRewardBuy_minReward dbl_lowRewardBuy_adjusted
  dbl_lowRewardBuy_adjusted_reward dbl_lowRewardBuy_adjusted_ratio dbl_shortfallBuy_entry dbl_shortfallBuy_stop
  dbl_shortfallBuy_target dbl_shortfallBuy_risk dbl_shortfallBuy_reward dbl_shortfallBuy_ratio
  dbl_shortfallBuy_minReward dbl_shortfallBuy_adjusted dbl_shortfallBuy_adjusted_reward dbl_shortfallBuy_adjusted_ratio
  dbl_lowRewardSell_target dbl_lowRewardSell_reward dbl_lowRewardSell_ratio dbl_lowRewardSell_minReward
  dbl_lowRewardSell_adjusted dbl_lowRewardSell_adjusted_ratio dbl_fairBuy_target dbl_fairBuy_reward
  dbl_fairBuy_ratio dbl_weightA dbl_weightB dbl_confidenceA
  dbl_confidenceB dbl_scoreA dbl_scoreB dbl_three_quarters
  dbl_one_32nd dbl_one_512th

lemmas scale_samples =
  scale_lowRewardBuy_distance scale_lowRewardBuy_product scale_lowRewardBuy_sum scale_lowRewardSell_distance
  scale_lowRewardSell_product scale_lowRewardSell_sum

section \<open>Signal generation\<close>

subsection \<open>The shape of an analysis cycle\<close>

lemma analyze_inactive:
  "\<not> isActive st \<or> length ohlc < 50 \<Longrightarrow> analyze st symb ohlc md now = (st, None)"
  by (auto simp: analyze_def)

lemma analyze_state:
  "isActive st \<Longrightarrow> 50 \<le> length ohlc \<Longrightarrow>
   fst (analyze st symb ohlc md now) =
     updateFairValueGaps ohlc (updateLiquidityZones ohlc (updateOrderBlocks ohlc st))"
  by (simp add: analyze_def Let_def)

lemma analyze_first_valid:
  assumes "isActive st" "50 \<le> length ohlc"
  shows "snd (analyze st symb ohlc md now) =
           firstSome validated (candidates (fst (analyze st symb ohlc md now)) symb ohlc md now)"
  unfolding analyze_state [OF assms]
  using assms
  by (auto simp: analyze_def Let_def candidates_def validated_def split: option.splits)



lemma collectSignals_length:
  "length (snd (collectSignals strats symb ohlc md now))
     \<le> length (filter (\<lambda>(nm, st). isActive st) strats)"
  by (induction strats) (auto simp: split_beta split: option.splits)

lemma checkOrderBlockEntry_first:
  "checkOrderBlockEntry nm p bs = firstSome (\<lambda>b. checkOrderBlockEntry nm p [b]) bs"
  by (induction bs) (auto simp: Let_def)

lemma liquidityGrabLoop_first:
  "liquidityGrabLoop nm p lastBar zs = firstSome (\<lambda>z. liquidityGrabLoop nm p lastBar [z]) zs"
  by (induction zs) (auto simp: Let_def)

lemma checkFairValueGapFill_first:
  "checkFairValueGapFill nm p gs = firstSome (\<lambda>g. checkFairValueGapFill nm p [g]) gs"
  by (induction gs) (auto simp: Let_def)

subsection \<open>The sample window\<close>

lemma bars50_length: "length bars50 = 50"
  by (simp add: bars50_def)


lemma orderBlocks_new_bars50:
  "orderBlocks (updateOrderBlocks bars50 newSMCStrategy) = [block20]"
  by code_simp

lemma liquidityZones_new_bars50:
  "liquidityZones (updateLiquidityZones bars50 newSMCStrategy) = [zone20]"
  by code_simp

lemma fairValueGaps_new_bars50:
  "fairValueGaps (updateFairValueGaps bars50 newSMCStrategy) = [gap20, enteredGap]"
  by code_simp

lemma orderBlocks_bars50: "orderBlocks (updateOrderBlocks bars50 st) = [block20]"
proof -
  have "orderBlocks (updateOrderBlocks bars50 st)
          = orderBlocks (updateOrderBlocks bars50 newSMCStrategy)"
    by (simp add: updateOrderBlocks_def)
  then show ?thesis by (simp only: orderBlocks_new_bars50)
qed

lemma liquidityZones_bars50: "liquidityZones (updateLiquidityZones bars50 st) = [zone20]"
proof -
  have "liquidityZones (updateLiquidityZones bars50 st)
          = liquidityZones (updateLiquidityZones bars50 newSMCStrategy)"
    by (simp add: updateLiquidityZones_def Let_def)
  then show ?thesis by (simp only: liquidityZones_new_bars50)
qed

lemma fairValueGaps_bars50:
  "fairValueGaps (updateFairValueGaps bars50 st) = [gap20, enteredGap]"
proof -
  have "fairValueGaps (updateFairValueGaps bars50 st)
          = fairValueGaps (updateFairValueGaps bars50 newSMCStrategy)"
    by (simp add: updateFairValueGaps_def)
  then show ?thesis by (simp only: fairValueGaps_new_bars50)
qed

lemma updateOrderBlocks_fields:
  "orderBlocks (updateOrderBlocks ohlc st) = obs \<Longrightarrow>
     updateOrderBlocks ohlc st = st\<lparr>orderBlocks := obs\<rparr>"
  by (auto simp: updateOrderBlocks_def)

lemma updateLiquidityZones_fields:
  "liquidityZones (updateLiquidityZones ohlc st) = zs \<Longrightarrow>
     updateLiquidityZones ohlc st = st\<lparr>liquidityZones := zs\<rparr>"
  by (auto simp: updateLiquidityZones_def Let_def)

lemma updateFairValueGaps_fields:
  "fairValueGaps (updateFairValueGaps ohlc st) = gs \<Longrightarrow>
     updateFairValueGaps ohlc st = st\<lparr>fairValueGaps := gs\<rparr>"
  by (auto simp: updateFairValueGaps_def)

lemma cycle_bars50:
  assumes "isActive st"
  shows "fst (analyze st symb bars50 md now) =
           st\<lparr>orderBlocks := [block20], liquidityZones := [zone20],
               fairValueGaps := [gap20, enteredGap]\<rparr>"
proof -
  have "fst (analyze st symb bars50 md now) =
          updateFairValueGaps bars50 (updateLiquidityZones bars50 (updateOrderBlocks bars50 st))"
    using analyze_state [OF assms] by (simp add: bars50_length)
  also have "\<dots> = st\<lparr>orderBlocks := [block20], liquidityZones := [zone20],
                      fairValueGaps := [gap20, enteredGap]\<rparr>"
    by (simp only: updateOrderBlocks_fields [OF orderBlocks_bars50]
          updateLiquidityZones_fields [OF liquidityZones_bars50]
          updateFairValueGaps_fields [OF fairValueGaps_bars50])
  finally show ?thesis .
qed

lemma cycle_from_new: "fst (analyze (activate newSMCStrategy) symb bars50 md now) = afterCycle"
  by (simp add: cycle_bars50 activate_def afterCycle_def)

lemma cycle_from_afterCycle: "fst (analyze afterCycle symb bars50 md now) = afterCycle"
  by (simp add: cycle_bars50 activate_def afterCycle_def)

lemma cycle_from_markFilled:
  "fst (analyze (markFilled afterCycle) symb bars50 md now) = afterCycle"
  by (simp add: cycle_bars50 activate_def afterCycle_def markFilled_def)

lemma active_states:
  "isActive (activate newSMCStrategy)" "isActive afterCycle" "isActive (markFilled afterCycle)"
  by (simp_all add: activate_def afterCycle_def markFilled_def)

lemma bars50_long: "50 \<le> length bars50"
  by (simp add: bars50_length)

lemma candidates_in_block:
  "candidates afterCycle ''EURUSD'' bars50 tickInBlock 7
     = [Some obCandidate, None, Some fvgCandidate]"
  by code_simp

lemma candidates_in_gap:
  "candidates afterCycle ''EURUSD'' bars50 tickInGap 7 = [None, None, Some gapSignal]"
  by code_simp

lemma sample_signals_valid:
  "validateSignal obCandidate" "validateSignal fvgCandidate" "validateSignal gapSignal"
  by (simp_all add: validateSignal_def rewardRisk_def obCandidate_def fvgCandidate_def
      gapSignal_def)

lemma signal_in_block:
  assumes "isActive st" "fst (analyze st ''EURUSD'' bars50 tickInBlock 7) = afterCycle"
  shows "snd (analyze st ''EURUSD'' bars50 tickInBlock 7) = Some obCandidate"
proof -
  have "snd (analyze st ''EURUSD'' bars50 tickInBlock 7)
          = firstSome validated [Some obCandidate, None, Some fvgCandidate]"
    using analyze_first_valid [OF assms(1) bars50_long, of "''EURUSD''" tickInBlock 7]
    by (simp only: assms(2) candidates_in_block)
  then show ?thesis
    by (simp add: validated_def sample_signals_valid)
qed

lemma signal_in_gap:
  assumes "isActive st" "fst (analyze st ''EURUSD'' bars50 tickInGap 7) = afterCycle"
  shows "snd (analyze st ''EURUSD'' bars50 tickInGap 7) = Some gapSignal"
proof -
  have "snd (analyze st ''EURUSD'' bars50 tickInGap 7)
          = firstSome validated [None, None, Some gapSignal]"
    using analyze_first_valid [OF assms(1) bars50_long, of "''EURUSD''" tickInGap 7]
    by (simp only: assms(2) candidates_in_gap)
  then show ?thesis
    by (simp add: validated_def sample_signals_valid)
qed

subsection \<open>Fair value gaps across cycles\<close>

lemma checkFairValueGapFill_skips_filled:
  "checkFairValueGapFill nm p gs = checkFairValueGapFill nm p (filter (\<lambda>g. \<not> filled g) gs)"
  by (induction gs) auto

lemma checkFairValueGapFill_all_filled:
  "\<forall>g \<in> set gs. filled g \<Longrightarrow> checkFairValueGapFill nm p gs = None"
  by (induction gs) auto

lemma updateFairValueGaps_unfilled:
  "g \<in> set (fairValueGaps (updateFairValueGaps ohlc st)) \<Longrightarrow> \<not> filled g"
  by (auto simp: updateFairValueGaps_def fairValueGapsAt_def Let_def split: if_splits)

text \<open>
  Claim C1 fails on the code.  In the sample window the price 1.3 lies inside the gap left
  at bar 21.  The first cycle returns a signal for that gap and leaves it in the gap list
  with \<open>filled = False\<close>; the next cycle, on the same bars and price, returns the same
  signal again.  And when the gaps of the list are marked filled by hand, the next cycle
  rebuilds the gap with \<open>filled = False\<close> and signals once more.
\<close>

theorem filled_gap_returns_unfilled_and_triggers_again:
  "snd (analyze (activate newSMCStrategy) ''EURUSD'' bars50 tickInGap 7) = Some gapSignal \<and>
   fst (analyze (activate newSMCStrategy) ''EURUSD'' bars50 tickInGap 7) = afterCycle \<and>
   enteredGap \<in> set (fairValueGaps afterCycle) \<and> \<not> filled enteredGap \<and>
   snd (analyze afterCycle ''EURUSD'' bars50 tickInGap 7) = Some gapSignal \<and>
   filled (enteredGap\<lparr>filled := True\<rparr>) \<and>
   enteredGap\<lparr>filled := True\<rparr> \<in> set (fairValueGaps (markFilled afterCycle)) \<and>
   enteredGap \<in> set (fairValueGaps (updateFairValueGaps bars50 (markFilled afterCycle))) \<and>
   snd (analyze (markFilled afterCycle) ''EURUSD'' bars50 tickInGap 7) = Some gapSignal"
proof -
  have 1: "snd (analyze (activate newSMCStrategy) ''EURUSD'' bars50 tickInGap 7) = Some gapSignal"
    using signal_in_gap [OF active_states(1) cycle_from_new] .
  have 2: "fst (analyze (activate newSMCStrategy) ''EURUSD'' bars50 tickInGap 7) = afterCycle"
    using cycle_from_new .
  have 3: "enteredGap \<in> set (fairValueGaps afterCycle)"
    by (simp add: afterCycle_def)
  have 4: "\<not> filled enteredGap"
    by (simp add: enteredGap_def)
  have 5: "snd (analyze afterCycle ''EURUSD'' bars50 tickInGap 7) = Some gapSignal"
    using signal_in_gap [OF active_states(2) cycle_from_afterCycle] .
  have 6: "filled (enteredGap\<lparr>filled := True\<rparr>)"
    by simp
  have 7: "enteredGap\<lparr>filled := True\<rparr> \<in> set (fairValueGaps (markFilled afterCycle))"
    by (simp add: afterCycle_def markFilled_def)
  have 8: "enteredGap \<in> set (fairValueGaps (updateFairValueGaps bars50 (markFilled afterCycle)))"
    by (simp add: fairValueGaps_bars50)
  have 9: "snd (analyze (markFilled afterCycle) ''EURUSD'' bars50 tickInGap 7) = Some gapSignal"
    using signal_in_gap [OF active_states(3) cycle_from_markFilled] .
  show ?thesis
    using 1 2 3 4 5 6 7 8 9 by (intro conjI)
qed

text \<open>
  Claim C1, as amended: \<^verbatim>\<open>checkFairValueGapFill\<close> skips every gap whose \<open>filled\<close> flag is
  true (its result is that for the unfilled gaps alone, and none when all are filled).
  \<^verbatim>\<open>updateFairValueGaps\<close> rebuilds the gap list from the bar window alone: every gap it
  produces is unfilled and the list does not depend on the list held before, so after each
  cycle that runs the detection every gap of the strategy is unfilled.
\<close>

theorem gaps_rebuilt_unfilled:
  "checkFairValueGapFill nm p gs = checkFairValueGapFill nm p (filter (\<lambda>g. \<not> filled g) gs) \<and>
   ((\<forall>g \<in> set gs. filled g) \<longrightarrow> checkFairValueGapFill nm p gs = None) \<and>
   (\<forall>g \<in> set (fairValueGaps (updateFairValueGaps ohlc st)). \<not> filled g) \<and>
   fairValueGaps (updateFairValueGaps ohlc st) = fairValueGaps (updateFairValueGaps ohlc st') \<and>
   (isActive st \<and> 50 \<le> length ohlc \<longrightarrow>
      (\<forall>g \<in> set (fairValueGaps (fst (analyze st symb ohlc md now))). \<not> filled g))"
proof -
  have "\<forall>g \<in> set (fairValueGaps (fst (analyze st symb ohlc md now))). \<not> filled g"
    if "isActive st \<and> 50 \<le> length ohlc"
    using that analyze_state [of st ohlc symb md now] updateFairValueGaps_unfilled by auto
  moreover have "fairValueGaps (updateFairValueGaps ohlc st)
                   = fairValueGaps (updateFairValueGaps ohlc st')"
    by (simp add: updateFairValueGaps_def)
  ultimately show ?thesis
    using checkFairValueGapFill_skips_filled [of nm p gs]
      checkFairValueGapFill_all_filled [of gs nm p] updateFairValueGaps_unfilled [of _ ohlc st]
    by blast
qed

theorem gaps_rebuilt_unfilled_witness:
  "filled (enteredGap\<lparr>filled := True\<rparr>) \<and>
   checkFairValueGapFill ''SMC'' (bid tickInGap) [enteredGap\<lparr>filled := True\<rparr>] = None \<and>
   isActive (markFilled afterCycle) \<and> 50 \<le> length bars50 \<and>
   enteredGap \<in> set (fairValueGaps
      (fst (analyze (markFilled afterCycle) ''EURUSD'' bars50 tickInGap 7))) \<and>
   \<not> filled enteredGap"
proof -
  have g: "enteredGap \<in> set (fairValueGaps
      (fst (analyze (markFilled afterCycle) ''EURUSD'' bars50 tickInGap 7)))"
    unfolding cycle_from_markFilled by (simp add: afterCycle_def)
  have a: "isActive (markFilled afterCycle) \<and> 50 \<le> length bars50"
    using active_states(3) bars50_long by simp
  have f: "\<forall>g \<in> set [enteredGap\<lparr>filled := True\<rparr>]. filled g"
    by simp
  have t: "filled (enteredGap\<lparr>filled := True\<rparr>)"
    by simp
  show ?thesis
    using gaps_rebuilt_unfilled [of "''SMC''" "bid tickInGap" "[enteredGap\<lparr>filled := True\<rparr>]"
        bars50 "markFilled afterCycle" afterCycle "''EURUSD''" tickInGap 7]
      g a f t
    by blast
qed

subsection \<open>Bounds on an emitted signal\<close>




lemma isBullishOrderBlock_body:
  "isBullishOrderBlock ohlc i \<Longrightarrow> close (ohlc ! i) \<noteq> openp (ohlc ! i)"
  by (auto simp: isBullishOrderBlock_def Let_def split: if_splits)

lemma isBearishOrderBlock_body:
  "isBearishOrderBlock ohlc i \<Longrightarrow> close (ohlc ! i) \<noteq> openp (ohlc ! i)"
  by (auto simp: isBearishOrderBlock_def Let_def split: if_splits)

















subsection \<open>Candidates per cycle\<close>

text \<open>
  Claim C5 fails on the code.  In the sample window at the price 1.05 the order block
  category and the fair value gap category each have a candidate that passes
  \<^verbatim>\<open>validateSignal\<close>, yet \<^verbatim>\<open>analyze\<close> returns the order block candidate alone and the
  strategy adds one signal, not two, to the candidates of the cycle.
\<close>

theorem single_candidate_when_two_categories_match:
  "candidates afterCycle ''EURUSD'' bars50 tickInBlock 7
      = [Some obCandidate, None, Some fvgCandidate] \<and>
   validateSignal obCandidate \<and> validateSignal fvgCandidate \<and>
   obCandidate \<noteq> fvgCandidate \<and>
   analyze (activate newSMCStrategy) ''EURUSD'' bars50 tickInBlock 7
      = (afterCycle, Some obCandidate) \<and>
   snd (collectSignals [(''SMC'', activate newSMCStrategy)] ''EURUSD'' bars50 tickInBlock 7)
      = [obCandidate]"
proof -
  have a: "analyze (activate newSMCStrategy) ''EURUSD'' bars50 tickInBlock 7
             = (afterCycle, Some obCandidate)"
    using signal_in_block [OF active_states(1) cycle_from_new]
      cycle_from_new [of "''EURUSD''" tickInBlock 7]
    by (simp add: prod_eq_iff)
  have c: "snd (collectSignals [(''SMC'', activate newSMCStrategy)] ''EURUSD'' bars50
                  tickInBlock 7) = [obCandidate]"
    by (simp add: a active_states)
  have d: "obCandidate \<noteq> fvgCandidate"
    by (simp add: obCandidate_def fvgCandidate_def)
  show ?thesis
    using candidates_in_block sample_signals_valid(1,2) a c d by (intro conjI)
qed

text \<open>
  Claim C5, as amended: within a category the first structure that matches gives the
  candidate (each check returns what the first structure yielding a signal on its own
  yields).  \<^verbatim>\<open>analyze\<close> then looks at the categories in the order order block,
  liquidity grab, fair value gap and returns the first candidate that passes
  \<^verbatim>\<open>validateSignal\<close>, and nothing when the strategy is inactive or the window has fewer
  than 50 bars; so a strategy emits at most one signal in a cycle, and the candidates of
  a cycle are at most as many as the active strategies.
\<close>

theorem one_signal_per_strategy_first_valid_category:
  "checkOrderBlockEntry nm p bs = firstSome (\<lambda>b. checkOrderBlockEntry nm p [b]) bs \<and>
   liquidityGrabLoop nm p lastBar zs = firstSome (\<lambda>z. liquidityGrabLoop nm p lastBar [z]) zs \<and>
   checkFairValueGapFill nm p gs = firstSome (\<lambda>g. checkFairValueGapFill nm p [g]) gs \<and>
   (isActive st \<and> 50 \<le> length ohlc \<longrightarrow>
      snd (analyze st symb ohlc md now) =
        firstSome validated (candidates (fst (analyze st symb ohlc md now)) symb ohlc md now)) \<and>
   (\<not> isActive st \<or> length ohlc < 50 \<longrightarrow> snd (analyze st symb ohlc md now) = None) \<and>
   length (snd (collectSignals strats symb ohlc md now))
     \<le> length (filter (\<lambda>(nm, st). isActive st) strats)"
  using checkOrderBlockEntry_first [of nm p bs] liquidityGrabLoop_first [of nm p lastBar zs]
    checkFairValueGapFill_first [of nm p gs] analyze_first_valid [of st ohlc symb md now]
    analyze_inactive [of st ohlc symb md now] collectSignals_length [of strats symb ohlc md now]
  by simp

theorem one_signal_per_strategy_first_valid_category_witness:
  "isActive (activate newSMCStrategy) \<and> 50 \<le> length bars50 \<and>
   snd (analyze (activate newSMCStrategy) ''EURUSD'' bars50 tickInBlock 7)
     = firstSome validated [Some obCandidate, None, Some fvgCandidate] \<and>
   length (snd (collectSignals [(''SMC'', activate newSMCStrategy)] ''EURUSD'' bars50
                  tickInBlock 7)) \<le> 1 \<and>
   \<not> isActive newSMCStrategy \<and>
   snd (analyze newSMCStrategy ''EURUSD'' bars50 tickInBlock 7) = None \<and>
   checkFairValueGapFill ''SMC'' (bid tickInBlock) [enteredGap, gap20]
     = firstSome (\<lambda>g. checkFairValueGapFill ''SMC'' (bid tickInBlock) [g]) [enteredGap, gap20]"
proof -
  have a: "isActive (activate newSMCStrategy) \<and> 50 \<le> length bars50"
    using active_states(1) bars50_long by simp
  have c: "candidates (fst (analyze (activate newSMCStrategy) ''EURUSD'' bars50 tickInBlock 7))
             ''EURUSD'' bars50 tickInBlock 7 = [Some obCandidate, None, Some fvgCandidate]"
    by (simp only: cycle_from_new candidates_in_block)
  have f: "length (filter (\<lambda>(nm, st). isActive st) [(''SMC'', activate newSMCStrategy)]) = 1"
    by (simp add: active_states)
  have i: "\<not> isActive newSMCStrategy"
    by (simp add: newSMCStrategy_def)
  note t1 = one_signal_per_strategy_first_valid_category
      [of "''SMC''" "bid tickInBlock" "[]" lastBar "[]" "[enteredGap, gap20]"
        "activate newSMCStrategy" bars50 "''EURUSD''" tickInBlock 7
        "[(''SMC'', activate newSMCStrategy)]"]
  note t2 = one_signal_per_strategy_first_valid_category
      [of "''SMC''" "bid tickInBlock" "[]" lastBar "[]" "[]"
        newSMCStrategy bars50 "''EURUSD''" tickInBlock 7 "[]"]
  have 1: "snd (analyze (activate newSMCStrategy) ''EURUSD'' bars50 tickInBlock 7)
     = firstSome validated [Some obCandidate, None, Some fvgCandidate]"
    using t1 a c by simp
  have 2: "length (snd (collectSignals [(''SMC'', activate newSMCStrategy)] ''EURUSD'' bars50
                  tickInBlock 7)) \<le> 1"
    using t1 f by simp
  have 3: "snd (analyze newSMCStrategy ''EURUSD'' bars50 tickInBlock 7) = None"
    using t2 i by simp
  have 4: "checkFairValueGapFill ''SMC'' (bid tickInBlock) [enteredGap, gap20]
     = firstSome (\<lambda>g. checkFairValueGapFill ''SMC'' (bid tickInBlock) [g]) [enteredGap, gap20]"
    using t1 by blast
  show ?thesis
    using a 1 2 i 3 4 by (intro conjI) simp_all
qed

section \<open>Learning engine\<close>

subsection \<open>Weights stay in their range\<close>

lemma weightsInRange_new: "weightsInRange newLearningEngine"
  by (simp add: weightsInRange_def newLearningEngine_def)

lemma clamp_range: "(0.1::real) \<le> max 0.1 (min 2.0 x) \<and> max 0.1 (min 2.0 x) \<le> 2.0"
  by auto

lemma updateFromTrade_Some:
  assumes "outcome h = Some oc"
  shows "updateFromTrade eng h =
     eng\<lparr>strategyWeights := (strategyWeights eng)(strategy (h_signal h) \<mapsto>
              max 0.1 (min 2.0 (orOne (strategyWeights eng (strategy (h_signal h)))
                 + (if result oc = win then 0.05 else - 0.02)))),
          symbolPerformance := (symbolPerformance eng)(symbol (h_signal h) \<mapsto>
             (case symbolPerformance eng (symbol (h_signal h)) of
                None \<Rightarrow> Map.empty | Some m \<Rightarrow> m)
               (strategy (h_signal h) \<mapsto>
                  max 0.1 (min 2.0
                    (getSymbolWeight eng (strategy (h_signal h)) (symbol (h_signal h))
                     + (if result oc = win then 0.03 else - 0.01)))))\<rparr>"
  using assms
  by (simp add: updateFromTrade_def Let_def getSymbolWeight_def split: option.splits)

lemma updateFromTrade_pending: "outcome h = None \<Longrightarrow> updateFromTrade eng h = eng"
  by (simp add: updateFromTrade_def)

lemma weightsInRange_update:
  assumes inv: "weightsInRange eng"
  shows "weightsInRange (updateFromTrade eng h)"
proof (cases "outcome h")
  case None
  then show ?thesis using inv by (simp add: updateFromTrade_def)
next
  case (Some oc)
  let ?k = "strategy (h_signal h)" and ?sy = "symbol (h_signal h)"
  let ?old = "case symbolPerformance eng ?sy of None \<Rightarrow> Map.empty | Some m \<Rightarrow> m"
  let ?w1 = "max 0.1 (min 2.0 (orOne (strategyWeights eng ?k)
                 + (if result oc = win then 0.05 else - 0.02)))"
  let ?w2 = "max 0.1 (min 2.0 (getSymbolWeight eng ?k ?sy
                 + (if result oc = win then 0.03 else - 0.01)))"
  have old: "?old strat = Some w \<Longrightarrow> 0.1 \<le> w \<and> w \<le> 2.0" for strat w
    using inv by (auto simp: weightsInRange_def split: option.splits)
  show ?thesis
    unfolding weightsInRange_def updateFromTrade_Some [OF Some]
  proof (intro conjI allI impI)
    fix strat w
    assume "strategyWeights (eng\<lparr>strategyWeights := (strategyWeights eng)(?k \<mapsto> ?w1),
          symbolPerformance := (symbolPerformance eng)(?sy \<mapsto> ?old (?k \<mapsto> ?w2))\<rparr>) strat
        = Some w"
    then have "w = ?w1 \<or> strategyWeights eng strat = Some w"
      by (auto split: if_splits)
    then show "0.1 \<le> w" "w \<le> 2.0"
      using clamp_range inv by (auto simp only: weightsInRange_def)
  next
    fix symb m strat w
    assume a: "symbolPerformance (eng\<lparr>strategyWeights := (strategyWeights eng)(?k \<mapsto> ?w1),
          symbolPerformance := (symbolPerformance eng)(?sy \<mapsto> ?old (?k \<mapsto> ?w2))\<rparr>) symb
        = Some m"
      and b: "m strat = Some w"
    have "w = ?w2 \<or> ?old strat = Some w
          \<or> (\<exists>m'. symbolPerformance eng symb = Some m' \<and> m' strat = Some w)"
      using a b by (auto split: if_splits)
    then show "0.1 \<le> w" "w \<le> 2.0"
      using clamp_range old inv by (auto simp only: weightsInRange_def)
  qed
qed

lemma weightsInRange_foldl:
  "weightsInRange eng \<Longrightarrow> weightsInRange (foldl updateFromTrade eng hs)"
  by (induction hs arbitrary: eng) (simp_all add: weightsInRange_update)

text \<open>
  Claim C3: from the initial engine, after any finite sequence of trade histories fed to
  \<^verbatim>\<open>updateFromTrade\<close> every stored strategy weight and every stored (symbol, strategy)
  weight lies in [0.1, 2.0]; an update with an outcome stores the current weight (1.0 when
  none is stored) plus 0.05 on a win or minus 0.02 on a loss for the strategy, plus 0.03 or
  minus 0.01 for the symbol, each clamped to [0.1, 2.0]; a history without outcome
  changes nothing.
\<close>

theorem weights_stay_in_range:
  "weightsInRange (foldl updateFromTrade newLearningEngine hs) \<and>
   (\<forall>h oc. outcome h = Some oc \<longrightarrow>
      (let eng = foldl updateFromTrade newLearningEngine hs;
           strat = strategy (h_signal h); symb = symbol (h_signal h);
           eng' = updateFromTrade eng h
       in strategyWeights eng' strat =
            Some (max 0.1 (min 2.0 (orOne (strategyWeights eng strat)
                                     + (if result oc = win then 0.05 else - 0.02)))) \<and>
          (\<exists>m. symbolPerformance eng' symb = Some m \<and>
             m strat = Some (max 0.1 (min 2.0 (getSymbolWeight eng strat symb
                                     + (if result oc = win then 0.03 else - 0.01))))))) \<and>
   (\<forall>h. outcome h = None \<longrightarrow>
      updateFromTrade (foldl updateFromTrade newLearningEngine hs) h
        = foldl updateFromTrade newLearningEngine hs)"
  by (simp add: weightsInRange_foldl weightsInRange_new updateFromTrade_Some
      updateFromTrade_pending Let_def)

lemma weight_after_win_and_loss:
  "strategyWeights (foldl updateFromTrade newLearningEngine [closedTrade win, closedTrade loss])
     ''SMC'' = Some 1.03"
  by (simp add: updateFromTrade_def closedTrade_def sigOf_def newLearningEngine_def orOne_def
      Let_def)

theorem weights_stay_in_range_witness:
  "outcome (closedTrade win) = Some \<lparr>result = win, oc_profit = 0, closeTime = 0\<rparr> \<and>
   strategyWeights (foldl updateFromTrade newLearningEngine [closedTrade win, closedTrade loss])
     ''SMC'' = Some 1.03 \<and>
   0.1 \<le> the (strategyWeights
             (foldl updateFromTrade newLearningEngine [closedTrade win, closedTrade loss])
             ''SMC'') \<and>
   the (strategyWeights
          (foldl updateFromTrade newLearningEngine [closedTrade win, closedTrade loss]) ''SMC'')
     \<le> 2.0 \<and>
   strategyWeights
      (updateFromTrade
         (foldl updateFromTrade newLearningEngine [closedTrade win, closedTrade loss])
         (closedTrade win)) ''SMC'' = Some 1.08"
proof -
  let ?eng = "foldl updateFromTrade newLearningEngine [closedTrade win, closedTrade loss]"
  have o: "outcome (closedTrade win) = Some \<lparr>result = win, oc_profit = 0, closeTime = 0\<rparr>"
    by (simp add: closedTrade_def)
  have k: "strategy (h_signal (closedTrade win)) = ''SMC''"
    by (simp add: closedTrade_def sigOf_def)
  have w: "strategyWeights ?eng ''SMC'' = Some 1.03"
    using weight_after_win_and_loss .
  from weights_stay_in_range [of "[closedTrade win, closedTrade loss]"]
  have r: "weightsInRange ?eng"
    and u: "\<forall>h oc. outcome h = Some oc \<longrightarrow>
      (let eng = ?eng; strat = strategy (h_signal h); symb = symbol (h_signal h);
           eng' = updateFromTrade eng h
       in strategyWeights eng' strat =
            Some (max 0.1 (min 2.0 (orOne (strategyWeights eng strat)
                                     + (if result oc = win then 0.05 else - 0.02)))) \<and>
          (\<exists>m. symbolPerformance eng' symb = Some m \<and>
             m strat = Some (max 0.1 (min 2.0 (getSymbolWeight eng strat symb
                                     + (if result oc = win then 0.03 else - 0.01))))))"
    by blast+
  from r w have b: "0.1 \<le> (1.03::real) \<and> (1.03::real) \<le> 2.0"
    unfolding weightsInRange_def by blast
  from u o have "strategyWeights (updateFromTrade ?eng (closedTrade win))
                   (strategy (h_signal (closedTrade win)))
      = Some (max 0.1 (min 2.0 (orOne (strategyWeights ?eng (strategy (h_signal (closedTrade win))))
                                     + (if win = win then 0.05 else - 0.02))))"
    unfolding Let_def by fastforce
  then have n: "strategyWeights (updateFromTrade ?eng (closedTrade win)) ''SMC'' = Some 1.08"
    unfolding k w by (simp add: orOne_def)
  show ?thesis
    using o w b n by simp
qed

subsection \<open>Choice of the best signal\<close>

lemma selectLoop_none:
  "\<forall>s \<in> set xs. totalScore eng symb ohlc s \<le> bs \<Longrightarrow>
     selectLoop eng symb ohlc xs best bs = best"
  by (induction xs arbitrary: best bs) auto

lemma selectLoop_some:
  "\<exists>s \<in> set xs. bs < totalScore eng symb ohlc s \<Longrightarrow>
   \<exists>i < length xs. selectLoop eng symb ohlc xs best bs = Some (xs ! i) \<and>
      bs < totalScore eng symb ohlc (xs ! i) \<and>
      (\<forall>j < length xs. totalScore eng symb ohlc (xs ! j) \<le> totalScore eng symb ohlc (xs ! i)) \<and>
      (\<forall>j < i. totalScore eng symb ohlc (xs ! j) < totalScore eng symb ohlc (xs ! i))"
proof (induction xs arbitrary: best bs)
  case Nil
  then show ?case by simp
next
  case (Cons x xs)
  let ?sc = "totalScore eng symb ohlc"
  show ?case
  proof (cases "bs < ?sc x")
    case True
    note better = True
    show ?thesis
    proof (cases "\<exists>s \<in> set xs. ?sc x < ?sc s")
      case True
      from Cons.IH [OF True, of "Some x"]
      obtain i where i: "i < length xs"
        "selectLoop eng symb ohlc xs (Some x) (?sc x) = Some (xs ! i)"
        "?sc x < ?sc (xs ! i)"
        "\<forall>j < length xs. ?sc (xs ! j) \<le> ?sc (xs ! i)"
        "\<forall>j < i. ?sc (xs ! j) < ?sc (xs ! i)"
        by blast
      have a: "\<forall>j < length (x # xs). ?sc ((x # xs) ! j) \<le> ?sc ((x # xs) ! Suc i)"
        using i by (auto simp: nth_Cons split: nat.splits)
      have b: "\<forall>j < Suc i. ?sc ((x # xs) ! j) < ?sc ((x # xs) ! Suc i)"
        using i by (auto simp: nth_Cons split: nat.splits)
      have c: "selectLoop eng symb ohlc (x # xs) best bs = Some ((x # xs) ! Suc i)"
        using better i by simp
      have d: "bs < ?sc ((x # xs) ! Suc i)" using better i by simp
      show ?thesis
        using a b c d i(1) by (intro exI [of _ "Suc i"]) simp
    next
      case False
      then have le: "\<forall>s \<in> set xs. ?sc s \<le> ?sc x" by auto
      have "selectLoop eng symb ohlc (x # xs) best bs = Some x"
        using better selectLoop_none [OF le] by simp
      moreover have "\<forall>j < length (x # xs). ?sc ((x # xs) ! j) \<le> ?sc x"
        using le by (auto simp: nth_Cons split: nat.splits)
      ultimately show ?thesis
        using better by (intro exI [of _ 0]) simp
    qed
  next
    case False
    note notbetter = False
    then have ex: "\<exists>s \<in> set xs. bs < ?sc s" using Cons.prems by auto
    from Cons.IH [OF ex, of best]
    obtain i where i: "i < length xs"
      "selectLoop eng symb ohlc xs best bs = Some (xs ! i)"
      "bs < ?sc (xs ! i)"
      "\<forall>j < length xs. ?sc (xs ! j) \<le> ?sc (xs ! i)"
      "\<forall>j < i. ?sc (xs ! j) < ?sc (xs ! i)"
      by blast
    have a: "\<forall>j < length (x # xs). ?sc ((x # xs) ! j) \<le> ?sc ((x # xs) ! Suc i)"
      using i notbetter by (auto simp: nth_Cons split: nat.splits)
    have b: "\<forall>j < Suc i. ?sc ((x # xs) ! j) < ?sc ((x # xs) ! Suc i)"
      using i notbetter by (auto simp: nth_Cons split: nat.splits)
    have c: "selectLoop eng symb ohlc (x # xs) best bs = Some ((x # xs) ! Suc i)"
      using notbetter i by simp
    have d: "bs < ?sc ((x # xs) ! Suc i)" using i by simp
    show ?thesis
      using a b c d i(1) by (intro exI [of _ "Suc i"]) simp
  qed
qed

lemma orOne_lower: "(\<And>w. v = Some w \<Longrightarrow> 1 / 10 \<le> w) \<Longrightarrow> 1 / 10 \<le> orOne v"
  by (cases v) (auto simp: orOne_def)

lemma strategy_weight_lower:
  "weightsInRange eng \<Longrightarrow> 1 / 10 \<le> orOne (strategyWeights eng k)"
  by (rule orOne_lower) (auto simp: weightsInRange_def)

lemma symbol_weight_lower:
  "weightsInRange eng \<Longrightarrow> 1 / 10 \<le> getSymbolWeight eng k symb"
  unfolding getSymbolWeight_def
  by (rule orOne_lower) (auto simp: weightsInRange_def split: option.splits)

lemma score_positive:
  assumes inv: "weightsInRange eng" and c: "1 / 2 \<le> confidence s"
  shows "0 < totalScore eng symb ohlc s"
proof -
  let ?w = "orOne (strategyWeights eng (strategy s))"
  let ?sw = "getSymbolWeight eng (strategy s) symb"
  have w: "1 / 10 \<le> ?w" using strategy_weight_lower [OF inv] .
  have sw: "1 / 10 \<le> ?sw" using symbol_weight_lower [OF inv] .
  have "1 / 2 * (1 / 10) \<le> confidence s * ?w"
    using c w by (intro mult_mono) simp_all
  then have "1 / 32 \<le> confidence s * ?w" by simp
  then have p1: "1 / 32 \<le> fmul (confidence s) ?w"
    unfolding fmul_def by (intro dbl_ge dbl_one_32nd)
  have "1 / 32 * (1 / 10) \<le> fmul (confidence s) ?w * ?sw"
    using p1 sw by (intro mult_mono) simp_all
  then have "1 / 512 \<le> fmul (confidence s) ?w * ?sw" by simp
  then have p2: "1 / 512 \<le> fmul (fmul (confidence s) ?w) ?sw"
    unfolding fmul_def by (intro dbl_ge dbl_one_512th)
  then have "1 / 512 \<le> fmul (fmul (fmul (confidence s) ?w) ?sw) 1"
    unfolding fmul_def by (intro dbl_ge dbl_one_512th) simp
  then show ?thesis
    by (simp add: totalScore_def getMarketConditionWeight_def)
qed

lemma totalScore_no_symbol_weight:
  "symbolPerformance eng symb = None \<Longrightarrow>
   totalScore eng symb ohlc s = dbl (confidence s * orOne (strategyWeights eng (strategy s)))"
  by (simp add: totalScore_def fmul_def getSymbolWeight_def orOne_def
      getMarketConditionWeight_def dbl_idem)

lemma example_scores:
  "totalScore engAB ''EURUSD'' [] candidateA = 3242591731706757 / 4503599627370496"
  "totalScore engAB ''EURUSD'' [] candidateB = 6485183463413515 / 9007199254740992"
  "totalScore engTie ''EURUSD'' [] tieA = 3 / 4"
  "totalScore engTie ''EURUSD'' [] tieB = 3 / 4"
  by (simp_all add: totalScore_no_symbol_weight engAB_def engTie_def candidateA_def
      candidateB_def tieA_def tieB_def sigOf_def orOne_def dbl_samples)

lemma example_fields:
  "confidence candidateA = 5404319552844595 / 9007199254740992"
  "confidence candidateB = 8106479329266893 / 9007199254740992"
  "strategyWeights engAB ''A'' = Some (5404319552844595 / 4503599627370496)"
  "strategyWeights engAB ''B'' = Some (3602879701896397 / 4503599627370496)"
  by (simp_all add: engAB_def candidateA_def candidateB_def sigOf_def dbl_samples)

text \<open>
  Claim C8 fails on the code in its example.  With the strategy weights 1.2 and 0.8 and
  the confidences 0.6 and 0.9 the two scores are not equal: 0.6 times 1.2 is computed as
  0.72 and 0.9 times 0.8 as 0.7200000000000001, so the second candidate has the strictly
  larger score and is the one selected, although the first was generated first.
\<close>

theorem example_selects_second_candidate:
  "confidence candidateA = dbl 0.6 \<and> confidence candidateB = dbl 0.9 \<and>
   strategyWeights engAB (strategy candidateA) = Some (dbl 1.2) \<and>
   strategyWeights engAB (strategy candidateB) = Some (dbl 0.8) \<and>
   getSymbolWeight engAB (strategy candidateA) ''EURUSD'' = 1 \<and>
   getSymbolWeight engAB (strategy candidateB) ''EURUSD'' = 1 \<and>
   getMarketConditionWeight [] = 1 \<and>
   totalScore engAB ''EURUSD'' [] candidateA = 3242591731706757 / 4503599627370496 \<and>
   totalScore engAB ''EURUSD'' [] candidateB = 6485183463413515 / 9007199254740992 \<and>
   totalScore engAB ''EURUSD'' [] candidateA < totalScore engAB ''EURUSD'' [] candidateB \<and>
   candidateA \<noteq> candidateB \<and>
   selectBestSignal engAB [candidateA, candidateB] ''EURUSD'' [] = Some candidateB"
proof -
  have f: "confidence candidateA = dbl 0.6 \<and> confidence candidateB = dbl 0.9 \<and>
     strategyWeights engAB (strategy candidateA) = Some (dbl 1.2) \<and>
     strategyWeights engAB (strategy candidateB) = Some (dbl 0.8) \<and>
     getSymbolWeight engAB (strategy candidateA) ''EURUSD'' = 1 \<and>
     getSymbolWeight engAB (strategy candidateB) ''EURUSD'' = 1 \<and>
     getMarketConditionWeight [] = 1"
    by (simp add: engAB_def candidateA_def candidateB_def sigOf_def getSymbolWeight_def
        orOne_def getMarketConditionWeight_def)
  have lt: "totalScore engAB ''EURUSD'' [] candidateA < totalScore engAB ''EURUSD'' [] candidateB"
    by (simp add: example_scores)
  have ne: "candidateA \<noteq> candidateB"
    by (simp add: candidateA_def candidateB_def sigOf_def)
  have sel: "selectBestSignal engAB [candidateA, candidateB] ''EURUSD'' [] = Some candidateB"
    by (simp add: selectBestSignal_def example_scores)
  show ?thesis
    using f example_scores(1,2) lt ne sel by simp
qed

text \<open>
  Claim C8, as amended: the score of a signal is confidence times strategy weight times
  symbol weight times market condition factor (a missing weight counts as 1.0, the factor
  is 1.0), the three products taken from left to right and each rounded.  A single
  candidate is returned outright.  For two or more candidates that passed validation
  (confidence at least 0.5), with the stored weights in [0.1, 2.0], every score is
  positive, the candidate returned has the maximal score and is the first one in the
  list with that score.
\<close>

theorem best_signal_is_first_maximum:
  "(signals = [s] \<longrightarrow> selectBestSignal eng signals symb ohlc = Some s) \<and>
   (2 \<le> length signals \<longrightarrow> weightsInRange eng \<longrightarrow>
    (\<forall>c \<in> set signals. 0.5 \<le> confidence c) \<longrightarrow>
      (\<forall>c \<in> set signals. 0 < totalScore eng symb ohlc c) \<and>
      (\<exists>i < length signals.
          selectBestSignal eng signals symb ohlc = Some (signals ! i) \<and>
          (\<forall>j < length signals.
             totalScore eng symb ohlc (signals ! j) \<le> totalScore eng symb ohlc (signals ! i)) \<and>
          (\<forall>j < i.
             totalScore eng symb ohlc (signals ! j) < totalScore eng symb ohlc (signals ! i)))) \<and>
   totalScore eng symb ohlc s =
     fmul (fmul (fmul (confidence s) (orOne (strategyWeights eng (strategy s))))
                (getSymbolWeight eng (strategy s) symb))
          (getMarketConditionWeight ohlc) \<and>
   getSymbolWeight eng (strategy s) symb =
     orOne (case symbolPerformance eng symb of None \<Rightarrow> None | Some m \<Rightarrow> m (strategy s)) \<and>
   getMarketConditionWeight ohlc = 1"
proof -
  have one: "selectBestSignal eng [s] symb ohlc = Some s"
    by (simp add: selectBestSignal_def)
  have many: "(\<forall>c \<in> set signals. 0 < totalScore eng symb ohlc c) \<and>
      (\<exists>i < length signals.
          selectBestSignal eng signals symb ohlc = Some (signals ! i) \<and>
          (\<forall>j < length signals.
             totalScore eng symb ohlc (signals ! j) \<le> totalScore eng symb ohlc (signals ! i)) \<and>
          (\<forall>j < i.
             totalScore eng symb ohlc (signals ! j) < totalScore eng symb ohlc (signals ! i)))"
    if l: "2 \<le> length signals" and inv: "weightsInRange eng"
      and c: "\<forall>c \<in> set signals. 0.5 \<le> confidence c"
  proof -
    have pos: "\<forall>c \<in> set signals. 0 < totalScore eng symb ohlc c"
      using score_positive [OF inv] c by simp
    from l obtain x where "x \<in> set signals" by (cases signals) auto
    then have ex: "\<exists>c \<in> set signals. 0 < totalScore eng symb ohlc c"
      using pos by blast
    have "selectBestSignal eng signals symb ohlc = selectLoop eng symb ohlc signals None 0"
      using l by (simp add: selectBestSignal_def)
    then show ?thesis
      using pos selectLoop_some [OF ex, of None] by auto
  qed
  show ?thesis
    using one many
    by (auto simp: totalScore_def getSymbolWeight_def getMarketConditionWeight_def)
qed

lemma weightsInRange_examples: "weightsInRange engAB" "weightsInRange engTie"
  by (auto simp: weightsInRange_def engAB_def engTie_def dbl_samples split: if_splits)

theorem best_signal_is_first_maximum_witness:
  "2 \<le> length [candidateA, candidateB] \<and>
   1 / 2 \<le> confidence candidateA \<and> 1 / 2 \<le> confidence candidateB \<and>
   1 / 2 \<le> confidence tieA \<and> 1 / 2 \<le> confidence tieB \<and>
   totalScore engAB ''EURUSD'' [] candidateA = 3242591731706757 / 4503599627370496 \<and>
   totalScore engAB ''EURUSD'' [] candidateB = 6485183463413515 / 9007199254740992 \<and>
   selectBestSignal engAB [candidateA, candidateB] ''EURUSD'' [] = Some candidateB \<and>
   selectBestSignal engAB [candidateB, candidateA] ''EURUSD'' [] = Some candidateB \<and>
   totalScore engTie ''EURUSD'' [] tieA = 3 / 4 \<and>
   totalScore engTie ''EURUSD'' [] tieB = 3 / 4 \<and>
   selectBestSignal engTie [tieA, tieB] ''EURUSD'' [] = Some tieA \<and>
   selectBestSignal engTie [tieB, tieA] ''EURUSD'' [] = Some tieB \<and>
   selectBestSignal engAB [candidateA] ''EURUSD'' [] = Some candidateA"
proof -
  have c: "1 / 2 \<le> confidence candidateA" "1 / 2 \<le> confidence candidateB"
    "1 / 2 \<le> confidence tieA" "1 / 2 \<le> confidence tieB"
    by (simp_all add: example_fields tieA_def tieB_def sigOf_def)
  have pick: "selectBestSignal eng [x, y] ''EURUSD'' [] =
                Some (if totalScore eng ''EURUSD'' [] x < totalScore eng ''EURUSD'' [] y
                      then y else x)"
    if inv: "weightsInRange eng" and x: "1 / 2 \<le> confidence x" and y: "1 / 2 \<le> confidence y"
    for eng x y
  proof -
    let ?sc = "totalScore eng ''EURUSD'' []"
    have l: "2 \<le> length [x, y]" by simp
    have cs: "\<forall>c \<in> set [x, y]. 0.5 \<le> confidence c" using x y by simp
    from best_signal_is_first_maximum [of "[x, y]" x eng "''EURUSD''" "[]"] l inv cs
    obtain i where i: "i < length [x, y]"
      "selectBestSignal eng [x, y] ''EURUSD'' [] = Some ([x, y] ! i)"
      "\<forall>j < length [x, y]. ?sc ([x, y] ! j) \<le> ?sc ([x, y] ! i)"
      "\<forall>j < i. ?sc ([x, y] ! j) < ?sc ([x, y] ! i)"
      by blast
    from i(1) have "i = 0 \<or> i = 1" by auto
    then show ?thesis
    proof
      assume z: "i = 0"
      have "?sc ([x, y] ! 1) \<le> ?sc ([x, y] ! i)" using i(3) [rule_format, of 1] by simp
      then show ?thesis using i(2) z by simp
    next
      assume z: "i = 1"
      have "?sc ([x, y] ! 0) < ?sc ([x, y] ! i)" using i(4) [rule_format, of 0] z by simp
      then show ?thesis using i(2) z by simp
    qed
  qed
  have single: "selectBestSignal engAB [candidateA] ''EURUSD'' [] = Some candidateA"
    using best_signal_is_first_maximum [of "[candidateA]" candidateA engAB "''EURUSD''" "[]"]
    by simp
  have 1: "selectBestSignal engAB [candidateA, candidateB] ''EURUSD'' [] = Some candidateB"
    using pick [OF weightsInRange_examples(1) c(1) c(2)] by (simp add: example_scores)
  have 2: "selectBestSignal engAB [candidateB, candidateA] ''EURUSD'' [] = Some candidateB"
    using pick [OF weightsInRange_examples(1) c(2) c(1)] by (simp add: example_scores)
  have 3: "selectBestSignal engTie [tieA, tieB] ''EURUSD'' [] = Some tieA"
    using pick [OF weightsInRange_examples(2) c(3) c(4)] by (simp add: example_scores)
  have 4: "selectBestSignal engTie [tieB, tieA] ''EURUSD'' [] = Some tieB"
    using pick [OF weightsInRange_examples(2) c(4) c(3)] by (simp add: example_scores)
  have l: "2 \<le> length [candidateA, candidateB]" by simp
  show ?thesis
    using l c example_scores 1 2 3 4 single by (intro conjI)
qed

section \<open>Orchestrator\<close>

lemma toUpperCase_samples:
  "toUpperCase ''eurusd'' = ''EURUSD''"
  "toUpperCase ''EurUsd'' = ''EURUSD''"
  "toUpperCase ''EURUSD'' = ''EURUSD''"
  by code_simp+

text \<open>
  Claim C10 fails on the code where it promises a round trip: when the symbol is already
  monitored, adding it (in any letter case) and removing it again leaves a set that
  lacks the symbol, not the set held before.
\<close>

theorem remove_after_add_no_round_trip:
  "''EURUSD'' \<in> activeSymbols (addSymbol newMarketMindCore ''EURUSD'') \<and>
   ''EURUSD'' \<notin> activeSymbols
      (removeSymbol (addSymbol (addSymbol newMarketMindCore ''EURUSD'') ''eurusd'') ''EurUsd'') \<and>
   activeSymbols
      (removeSymbol (addSymbol (addSymbol newMarketMindCore ''EURUSD'') ''eurusd'') ''EurUsd'')
     \<noteq> activeSymbols (addSymbol newMarketMindCore ''EURUSD'')"
  by (simp add: addSymbol_def removeSymbol_def newMarketMindCore_def toUpperCase_samples)

text \<open>
  Claim C10, as amended: \<^verbatim>\<open>addSymbol\<close> inserts the upper-case form of its argument, so
  two spellings with the same upper-case form give one and the same entry.
  \<^verbatim>\<open>removeSymbol\<close> of any such spelling after \<^verbatim>\<open>addSymbol\<close> leaves the monitored set
  without that symbol: the earlier set minus the upper-case symbol, which is the earlier
  set itself exactly when the symbol was not monitored before.
\<close>

theorem symbol_case_normalised:
  "activeSymbols (addSymbol core s) = insert (toUpperCase s) (activeSymbols core) \<and>
   (toUpperCase s = toUpperCase t \<longrightarrow>
      activeSymbols (addSymbol core s) = activeSymbols (addSymbol core t) \<and>
      activeSymbols (addSymbol (addSymbol core s) t) = activeSymbols (addSymbol core s) \<and>
      toUpperCase s \<notin> activeSymbols (removeSymbol (addSymbol core s) t) \<and>
      activeSymbols (removeSymbol (addSymbol core s) t) = activeSymbols core - {toUpperCase s} \<and>
      (activeSymbols (removeSymbol (addSymbol core s) t) = activeSymbols core
         \<longleftrightarrow> toUpperCase s \<notin> activeSymbols core))"
  by (auto simp: addSymbol_def removeSymbol_def)

theorem symbol_case_normalised_witness:
  "toUpperCase ''eurusd'' = toUpperCase ''EurUsd'' \<and>
   toUpperCase ''eurusd'' \<notin> activeSymbols newMarketMindCore \<and>
   activeSymbols (addSymbol newMarketMindCore ''eurusd'')
     = insert ''EURUSD'' (activeSymbols newMarketMindCore) \<and>
   activeSymbols (addSymbol newMarketMindCore ''eurusd'')
     = activeSymbols (addSymbol newMarketMindCore ''EurUsd'') \<and>
   activeSymbols (removeSymbol (addSymbol newMarketMindCore ''eurusd'') ''EurUsd'')
     = activeSymbols newMarketMindCore"
proof -
  let ?C = newMarketMindCore
  have e: "toUpperCase ''eurusd'' = toUpperCase ''EurUsd''"
    by (simp add: toUpperCase_samples)
  have n: "toUpperCase ''eurusd'' \<notin> activeSymbols ?C"
    by (simp add: newMarketMindCore_def)
  from symbol_case_normalised [of ?C "''eurusd''" "''EurUsd''"] e n
  have 1: "activeSymbols (addSymbol ?C ''eurusd'')
             = insert (toUpperCase ''eurusd'') (activeSymbols ?C)"
    and 2: "activeSymbols (addSymbol ?C ''eurusd'') = activeSymbols (addSymbol ?C ''EurUsd'')"
    and 3: "activeSymbols (removeSymbol (addSymbol ?C ''eurusd'') ''EurUsd'') = activeSymbols ?C"
    by blast+
  have ins: "activeSymbols (addSymbol ?C ''eurusd'') = insert ''EURUSD'' (activeSymbols ?C)"
    using 1 by (simp only: toUpperCase_samples)
  show ?thesis
    using e n ins 2 3 by (intro conjI)
qed

section \<open>Risk manager\<close>

subsection \<open>Numbers of the program on finite values\<close>

lemma js_min_Num: "js_min (Num a) (Num b) = Num (min a b)"
  by (simp add: min_def)

lemma js_max_Num: "js_max (Num a) (Num b) = Num (max a b)"
  by (simp add: max_def)

lemma js_div_Num: "b \<noteq> 0 \<Longrightarrow> js_div (Num a) (Num b) = Num (a / b)"
  by simp

subsection \<open>The daily loss block\<close>

lemma validateTrade_blocked:
  "isTradeBlocked rm \<Longrightarrow> validateTrade rm signal env = (rm, invalid TradingBlocked)"
  by (simp add: validateTrade_def)

lemma checkDailyLossLimit_params:
  "riskParams (fst (checkDailyLossLimit rm acc)) = riskParams rm"
  by (simp add: checkDailyLossLimit_def Let_def)

lemma checkDailyLossLimit_breach:
  assumes "dailyStartBalance rm - balance acc
             \<ge> dailyStartBalance rm * maxDailyLoss (riskParams rm) / 100"
  shows "isTradeBlocked (fst (checkDailyLossLimit rm acc))"
    and "\<not> passed (snd (checkDailyLossLimit rm acc))"
  using assms by (simp_all add: checkDailyLossLimit_def Let_def)

lemma riskCall_keeps_block:
  "isTradeBlocked rm \<Longrightarrow> \<not> isReset c \<Longrightarrow> isTradeBlocked (riskCall rm c)"
  by (cases c) (simp_all add: validateTrade_blocked updateDailyPL_def updateRiskParams_def
      initializeDailyTracking_def split: option.splits)

lemma foldl_riskCall_keeps_block:
  "isTradeBlocked rm \<Longrightarrow> \<forall>c \<in> set cs. \<not> isReset c \<Longrightarrow> isTradeBlocked (foldl riskCall rm cs)"
  by (induction cs arbitrary: rm) (simp_all add: riskCall_keeps_block)

text \<open>
  Claim C4: when the daily loss check sees a loss \<open>dailyStartBalance - balance\<close> of at
  least \<open>dailyStartBalance * maxDailyLoss / 100\<close>, it sets the block and fails, so the
  \<^verbatim>\<open>validateTrade\<close> that ran it is invalid; after that, across any calls of the risk
  manager other than the daily reset (validations with any replies, daily P/L updates
  with any balance, parameter updates, position monitoring), the block stays set and
  every \<^verbatim>\<open>validateTrade\<close>, for any signal and any replies, returns invalid with the
  blocked reason and leaves the state as it is; the daily reset clears the block.
\<close>

theorem daily_loss_block_is_sticky:
  assumes breach: "dailyStartBalance rm - balance accountInfo
                     \<ge> dailyStartBalance rm * maxDailyLoss (riskParams rm) / 100"
    and noReset: "\<forall>c \<in> set calls. \<not> isReset c"
  shows "isTradeBlocked (fst (checkDailyLossLimit rm accountInfo)) \<and>
         \<not> passed (snd (checkDailyLossLimit rm accountInfo)) \<and>
         (accountInfoReply env = Some accountInfo \<longrightarrow>
            isTradeBlocked (fst (validateTrade rm signal env)) \<and>
            \<not> isValid (snd (validateTrade rm signal env))) \<and>
         isTradeBlocked (foldl riskCall (fst (checkDailyLossLimit rm accountInfo)) calls) \<and>
         validateTrade (foldl riskCall (fst (checkDailyLossLimit rm accountInfo)) calls)
             signal' env'
           = (foldl riskCall (fst (checkDailyLossLimit rm accountInfo)) calls,
              invalid TradingBlocked) \<and>
         \<not> isTradeBlocked
             (riskCall (foldl riskCall (fst (checkDailyLossLimit rm accountInfo)) calls)
                (CallResetDailyTracking reply))"
proof -
  have b: "isTradeBlocked (fst (checkDailyLossLimit rm accountInfo))"
    and p: "\<not> passed (snd (checkDailyLossLimit rm accountInfo))"
    using checkDailyLossLimit_breach [OF breach] by simp_all
  have v: "isTradeBlocked (fst (validateTrade rm signal env)) \<and>
           \<not> isValid (snd (validateTrade rm signal env))"
    if "accountInfoReply env = Some accountInfo"
    using that b p by (simp add: validateTrade_def invalid_def split_beta)
  have s: "isTradeBlocked (foldl riskCall (fst (checkDailyLossLimit rm accountInfo)) calls)"
    using foldl_riskCall_keeps_block [OF b noReset] .
  have r: "\<not> isTradeBlocked (riskCall rm' (CallResetDailyTracking reply))" for rm'
    by (simp add: resetDailyTracking_def)
  show ?thesis
    using b p v s r validateTrade_blocked [OF s] by blast
qed

theorem daily_loss_block_is_sticky_witness:
  "dailyStartBalance rm10k - balance (account 9400)
      \<ge> dailyStartBalance rm10k * maxDailyLoss (riskParams rm10k) / 100 \<and>
   \<not> isReset (CallUpdateDailyPL (Some (account 12000))) \<and>
   \<not> isReset (CallValidateTrade (buySignal 1.11) (replies 12000)) \<and>
   validateTrade rm10k (buySignal 1.11) (replies 9400)
     = (rm10k\<lparr>isTradeBlocked := True\<rparr>, invalid (DailyLossLimitReached 600 600)) \<and>
   isTradeBlocked (fst (validateTrade rm10k (buySignal 1.11) (replies 9400))) \<and>
   \<not> isValid (snd (validateTrade rm10k (buySignal 1.11) (replies 9400))) \<and>
   snd (validateTrade
          (foldl riskCall (fst (checkDailyLossLimit rm10k (account 9400)))
             [CallUpdateDailyPL (Some (account 12000)),
              CallValidateTrade (buySignal 1.11) (replies 12000)])
          (buySignal 1.11) (replies 12000)) = invalid TradingBlocked"
proof -
  have h1: "dailyStartBalance rm10k - balance (account 9400)
      \<ge> dailyStartBalance rm10k * maxDailyLoss (riskParams rm10k) / 100"
    by (simp add: rm10k_def account_def defaultRiskParams_def)
  have h2: "\<forall>c \<in> set [CallUpdateDailyPL (Some (account 12000)),
                CallValidateTrade (buySignal 1.11) (replies 12000)]. \<not> isReset c"
    by simp
  have h3: "accountInfoReply (replies 9400) = Some (account 9400)"
    by (simp add: replies_def)
  have h4: "validateTrade rm10k (buySignal 1.11) (replies 9400)
     = (rm10k\<lparr>isTradeBlocked := True\<rparr>, invalid (DailyLossLimitReached 600 600))"
    by (simp add: validateTrade_def checkDailyLossLimit_def rm10k_def replies_def account_def
        defaultRiskParams_def Let_def)
  show ?thesis
    using daily_loss_block_is_sticky [OF h1 h2, of "replies 9400" "buySignal 1.11"
        "buySignal 1.11" "replies 12000" None] h1 h3 h4
    by simp
qed

subsection \<open>Position size\<close>

lemma calculatePositionSize_params:
  "riskParams rm1 = riskParams rm \<Longrightarrow>
     calculatePositionSize rm1 signal acc reply = calculatePositionSize rm signal acc reply"
  by (simp add: calculatePositionSize_def Let_def)

lemma validateTrade_size:
  assumes "accountInfoReply env = Some acc"
  shows "js_le (calculatePositionSize rm signal acc (symbolInfoReply env)) (Num 0)
           \<Longrightarrow> \<not> isValid (snd (validateTrade rm signal env))"
    and "isValid (snd (validateTrade rm signal env)) \<Longrightarrow>
           positionSize (snd (validateTrade rm signal env))
             = Some (calculatePositionSize rm signal acc (symbolInfoReply env))"
  using assms
  by (auto simp: validateTrade_def invalid_def Let_def split_beta
        calculatePositionSize_params [OF checkDailyLossLimit_params]
      split: if_splits option.splits)

lemma calculatePositionSize_finite:
  assumes p: "point symbolInfo \<noteq> 0" and d: "entry signal \<noteq> stopLoss signal"
    and v: "volumeStep symbolInfo \<noteq> 0"
  shows "calculatePositionSize rm signal accountInfo (Some symbolInfo) =
           Num (max (volumeMin symbolInfo) (min (volumeMax symbolInfo)
             (of_int \<lfloor>(equity accountInfo * maxRiskPerTrade (riskParams rm) / 100
                         / (\<bar>entry signal - stopLoss signal\<bar> / point symbolInfo * 1))
                        / volumeStep symbolInfo + 1 / 2\<rfloor> * volumeStep symbolInfo)))"
proof -
  have q: "\<bar>entry signal - stopLoss signal\<bar> / point symbolInfo * 1 \<noteq> 0"
    using p d by simp
  show ?thesis
    unfolding calculatePositionSize_def Let_def option.case
    by (simp only: js_div_Num [OF p] js_mul.simps js_div_Num [OF q] js_div_Num [OF v]
          js_round.simps js_min_Num js_max_Num)
qed

text \<open>
  Claim C6 fails on the code.  For an account of 10000, 2 percent risk, entry 1.1000 and
  stop 1.0950 on a symbol with point 0.00001, volume limits 0.01 and 5.0 and step 0.01,
  the program divides the risk amount 200 by the stop distance in points (500) and
  returns 0.4; the formula of the claim divides by the stop distance in price units
  (0.005) and, clamped, gives 5.  And the program rounds before it clamps: for an account
  of 10 on a symbol whose minimum volume 0.015 is not a multiple of the step, it returns
  0.015, where clamping first and rounding then gives 0.02 even with the distance
  counted in points.
\<close>

theorem position_size_differs_from_price_unit_formula:
  "calculatePositionSize rm10k (buySignal 1.11) (account 10000) (Some eurusdInfo) = Num 0.4 \<and>
   specPositionSize rm10k (buySignal 1.11) (account 10000) eurusdInfo = 5 \<and>
   calculatePositionSize rm10k (buySignal 1.11) (account 10) (Some oddLotInfo) = Num 0.015 \<and>
   specPositionSize rm10k (buySignal 1.11) (account 10) oddLotInfo = 5 \<and>
   specPositionSizePoints rm10k (buySignal 1.11) (account 10) oddLotInfo = 0.02"
  by (simp add: calculatePositionSize_def specPositionSize_def specPositionSizePoints_def
      rm10k_def buySignal_def account_def eurusdInfo_def oddLotInfo_def defaultRiskParams_def
      Let_def)

text \<open>
  Claim C6, as amended: with \<open>riskAmount = equity * maxRiskPerTrade / 100\<close> the position
  size is \<open>riskAmount\<close> divided by the stop distance \<open>|entry - stopLoss|\<close> expressed in
  points (the distance over the symbol's point size, times the tick value 1), rounded to
  the nearest multiple of the volume step and after that bounded below by the minimum and
  above by the maximum volume (for a non-zero point size, stop distance and volume step);
  without symbol information the size is 0.  Whenever the size is at most 0,
  \<^verbatim>\<open>validateTrade\<close> is invalid, and a valid result carries the size.
\<close>

theorem position_size_rounded_then_clamped:
  "(point symbolInfo \<noteq> 0 \<and> entry signal \<noteq> stopLoss signal \<and> volumeStep symbolInfo \<noteq> 0 \<longrightarrow>
      calculatePositionSize rm signal accountInfo (Some symbolInfo) =
        Num (max (volumeMin symbolInfo) (min (volumeMax symbolInfo)
          (of_int \<lfloor>(equity accountInfo * maxRiskPerTrade (riskParams rm) / 100
                      / (\<bar>entry signal - stopLoss signal\<bar> / point symbolInfo * 1))
                     / volumeStep symbolInfo + 1 / 2\<rfloor> * volumeStep symbolInfo)))) \<and>
   calculatePositionSize rm signal accountInfo None = Num 0 \<and>
   (accountInfoReply env = Some accountInfo \<longrightarrow>
      js_le (calculatePositionSize rm signal accountInfo (symbolInfoReply env)) (Num 0) \<longrightarrow>
      \<not> isValid (snd (validateTrade rm signal env))) \<and>
   (accountInfoReply env = Some accountInfo \<longrightarrow>
      isValid (snd (validateTrade rm signal env)) \<longrightarrow>
      positionSize (snd (validateTrade rm signal env))
        = Some (calculatePositionSize rm signal accountInfo (symbolInfoReply env)))"
proof -
  have n: "calculatePositionSize rm signal accountInfo None = Num 0"
    by (simp add: calculatePositionSize_def)
  show ?thesis
    using calculatePositionSize_finite [of symbolInfo signal rm accountInfo]
      validateTrade_size [of env accountInfo rm signal] n
    by blast
qed

lemma validateTrade_sample:
  "validateTrade rm10k (buySignal tp) (replies 10000) =
     (rm10k, \<lparr>isValid = True, reason = TradeValidated,
              adjustedSignal = Some ((buySignal tp)
                 \<lparr>stopLoss := 1.0950, takeProfit := adjustTakeProfit rm10k (buySignal tp)\<rparr>),
              positionSize = Some (Num 0.4)\<rparr>)"
  by (simp add: validateTrade_def checkDailyLossLimit_def checkMaxPositions_def checkSpread_def
      calculatePositionSize_def adjustStopLoss_def rm10k_def replies_def account_def
      defaultRiskParams_def eurusdInfo_def quote_def buySignal_def Let_def)

theorem position_size_rounded_then_clamped_witness:
  "point eurusdInfo \<noteq> 0 \<and> entry (buySignal 1.11) \<noteq> stopLoss (buySignal 1.11) \<and>
   volumeStep eurusdInfo \<noteq> 0 \<and>
   accountInfoReply (replies 10000) = Some (account 10000) \<and>
   isValid (snd (validateTrade rm10k (buySignal 1.11) (replies 10000))) \<and>
   positionSize (snd (validateTrade rm10k (buySignal 1.11) (replies 10000)))
     = Some (calculatePositionSize rm10k (buySignal 1.11) (account 10000) (Some eurusdInfo)) \<and>
   calculatePositionSize rm10k (buySignal 1.11) (account 10000) (Some eurusdInfo) = Num 0.4 \<and>
   js_le (calculatePositionSize rm10k (buySignal 1.11) (account 10000) None) (Num 0) \<and>
   \<not> isValid (snd (validateTrade rm10k (buySignal 1.11)
                     ((replies 10000)\<lparr>symbolInfoReply := None\<rparr>)))"
proof -
  have h: "point eurusdInfo \<noteq> 0 \<and> entry (buySignal 1.11) \<noteq> stopLoss (buySignal 1.11) \<and>
           volumeStep eurusdInfo \<noteq> 0"
    by (simp add: eurusdInfo_def buySignal_def)
  have a: "accountInfoReply (replies 10000) = Some (account 10000)"
    "symbolInfoReply (replies 10000) = Some eurusdInfo"
    "accountInfoReply ((replies 10000)\<lparr>symbolInfoReply := None\<rparr>) = Some (account 10000)"
    "symbolInfoReply ((replies 10000)\<lparr>symbolInfoReply := None\<rparr>) = None"
    by (simp_all add: replies_def)
  have v: "isValid (snd (validateTrade rm10k (buySignal 1.11) (replies 10000)))"
    by (simp add: validateTrade_sample)
  have e: "max (volumeMin eurusdInfo) (min (volumeMax eurusdInfo)
          (of_int \<lfloor>(equity (account 10000) * maxRiskPerTrade (riskParams rm10k) / 100
                      / (\<bar>entry (buySignal 1.11) - stopLoss (buySignal 1.11)\<bar>
                          / point eurusdInfo * 1))
                     / volumeStep eurusdInfo + 1 / 2\<rfloor> * volumeStep eurusdInfo)) = 0.4"
    by (simp add: eurusdInfo_def buySignal_def account_def rm10k_def defaultRiskParams_def)
  note t1 = position_size_rounded_then_clamped [of eurusdInfo "buySignal 1.11" rm10k
      "account 10000" "replies 10000"]
  note t2 = position_size_rounded_then_clamped [of eurusdInfo "buySignal 1.11" rm10k
      "account 10000" "(replies 10000)\<lparr>symbolInfoReply := None\<rparr>"]
  have s: "calculatePositionSize rm10k (buySignal 1.11) (account 10000) (Some eurusdInfo)
             = Num 0.4"
    using t1 h e by simp
  have p: "positionSize (snd (validateTrade rm10k (buySignal 1.11) (replies 10000)))
     = Some (calculatePositionSize rm10k (buySignal 1.11) (account 10000) (Some eurusdInfo))"
    using t1 a(1,2) v by simp
  have z: "js_le (calculatePositionSize rm10k (buySignal 1.11) (account 10000) None) (Num 0)"
    using t1 by simp
  have i: "\<not> isValid (snd (validateTrade rm10k (buySignal 1.11)
                     ((replies 10000)\<lparr>symbolInfoReply := None\<rparr>)))"
    using t2 a(3,4) z by simp
  show ?thesis
    using h a(1) v p s z i by (intro conjI) simp_all
qed

subsection \<open>Reward adjustment\<close>

lemma adjustTakeProfit_params:
  "riskParams rm1 = riskParams rm \<Longrightarrow> adjustTakeProfit rm1 signal = adjustTakeProfit rm signal"
  by (simp add: adjustTakeProfit_def Let_def)

lemma validateTrade_valid:
  assumes "isValid (snd (validateTrade rm signal env))"
  shows "adjustedSignal (snd (validateTrade rm signal env)) =
           Some (signal\<lparr>stopLoss := adjustStopLoss rm signal,
                        takeProfit := adjustTakeProfit rm signal\<rparr>)"
  using assms
  by (auto simp: validateTrade_def invalid_def Let_def split_beta adjustStopLoss_def
        adjustTakeProfit_params [OF checkDailyLossLimit_params]
      split: if_splits option.splits)

lemma below_min:
  assumes "js_lt (computedRR signal) (Num c)"
  shows "riskDistance signal \<noteq> 0" and "entry signal \<noteq> stopLoss signal" and "0 < c"
proof -
  have rw: "0 \<le> rewardDistance signal" by (simp add: rewardDistance_def)
  show rk: "riskDistance signal \<noteq> 0"
    using assms rw by (auto simp: computedRR_def fdiv_def split: if_splits)
  then show "entry signal \<noteq> stopLoss signal"
    by (auto simp: riskDistance_def fsub_def dbl_def)
  have "0 \<le> rewardDistance signal / riskDistance signal"
    using rw by (simp add: riskDistance_def)
  then have "0 \<le> dbl (rewardDistance signal / riskDistance signal)" by (rule dbl_nonneg)
  moreover have "dbl (rewardDistance signal / riskDistance signal) < c"
    using assms rk by (simp add: computedRR_def fdiv_def)
  ultimately show "0 < c" by linarith
qed

lemma adjustTakeProfit_below:
  assumes "js_lt (computedRR signal) (Num (minRiskReward (riskParams rm)))"
  shows "adjustTakeProfit rm signal =
           (if action signal = BUY then fadd (entry signal) (minReward rm signal)
            else fsub (entry signal) (minReward rm signal))"
  using assms
  by (simp add: adjustTakeProfit_def computedRR_def riskDistance_def rewardDistance_def
      minReward_def Let_def)

lemma adjustTakeProfit_not_below:
  assumes "\<not> js_lt (computedRR signal) (Num (minRiskReward (riskParams rm)))"
  shows "adjustTakeProfit rm signal = takeProfit signal"
  using assms
  by (simp add: adjustTakeProfit_def computedRR_def riskDistance_def rewardDistance_def Let_def)

lemma minReward_nonneg: "0 \<le> minRiskReward (riskParams rm) \<Longrightarrow> 0 \<le> minReward rm signal"
  unfolding minReward_def fmul_def by (rule dbl_nonneg) (simp add: riskDistance_def)

lemma riskDistance_error:
  "\<bar>riskDistance signal - \<bar>entry signal - stopLoss signal\<bar>\<bar>
     \<le> halfUlp (entry signal - stopLoss signal)"
proof -
  have "\<bar>riskDistance signal - \<bar>entry signal - stopLoss signal\<bar>\<bar>
          \<le> \<bar>dbl (entry signal - stopLoss signal) - (entry signal - stopLoss signal)\<bar>"
    unfolding riskDistance_def fsub_def by (rule abs_triangle_ineq3)
  also have "\<dots> \<le> halfUlp (entry signal - stopLoss signal)" by (rule dbl_error)
  finally show ?thesis .
qed

lemma adjusted_reward_error:
  assumes c: "0 \<le> minRiskReward (riskParams rm)"
    and t: "t = (if action signal = BUY then fadd (entry signal) (minReward rm signal)
                 else fsub (entry signal) (minReward rm signal))"
  shows "\<bar>\<bar>t - entry signal\<bar> - \<bar>entry signal - stopLoss signal\<bar> * minRiskReward (riskParams rm)\<bar>
           \<le> roundingSlack rm signal"
proof -
  let ?c = "minRiskReward (riskParams rm)"
  let ?e = "entry signal"
  let ?d = "\<bar>entry signal - stopLoss signal\<bar>"
  let ?rk = "riskDistance signal"
  let ?m = "minReward rm signal"
  let ?x = "if action signal = BUY then ?e + ?m else ?e - ?m"
  have e1: "\<bar>?rk * ?c - ?d * ?c\<bar> \<le> ?c * halfUlp (entry signal - stopLoss signal)"
  proof -
    have "?rk * ?c - ?d * ?c = ?c * (?rk - ?d)"
      by (simp add: algebra_simps)
    then have "\<bar>?rk * ?c - ?d * ?c\<bar> = \<bar>?c\<bar> * \<bar>?rk - ?d\<bar>"
      by (simp only: abs_mult)
    also have "\<dots> = ?c * \<bar>?rk - ?d\<bar>"
      using c by simp
    also have "\<dots> \<le> ?c * halfUlp (entry signal - stopLoss signal)"
      using riskDistance_error [of signal] c by (intro mult_left_mono) simp_all
    finally show ?thesis .
  qed
  have e2: "\<bar>?m - ?rk * ?c\<bar> \<le> halfUlp (?rk * ?c)"
    unfolding minReward_def fmul_def by (rule dbl_error)
  have e3: "\<bar>t - ?x\<bar> \<le> halfUlp ?x"
    using dbl_error [of ?x] by (simp add: t fadd_def fsub_def split: if_splits)
  have dc: "0 \<le> ?d * ?c" using c by simp
  have "\<bar>\<bar>t - ?e\<bar> - ?d * ?c\<bar> \<le> \<bar>?m - ?d * ?c\<bar> + \<bar>t - ?x\<bar>"
    using dc by (auto split: if_splits)
  also have "\<dots> \<le> \<bar>?rk * ?c - ?d * ?c\<bar> + \<bar>?m - ?rk * ?c\<bar> + \<bar>t - ?x\<bar>"
    by linarith
  also have "\<dots> \<le> roundingSlack rm signal"
    using e1 e2 e3 by (simp add: roundingSlack_def)
  finally show ?thesis .
qed

lemma positive_size: "0 < a \<Longrightarrow> \<not> js_le (js_max (Num a) x) (Num 0)"
  by (cases x) auto

lemma validateTrade_sample_valid:
  "isValid (snd (validateTrade rm10k signal (replies 10000)))"
  by (simp add: validateTrade_def checkDailyLossLimit_def checkMaxPositions_def checkSpread_def
      calculatePositionSize_def rm10k_def replies_def account_def defaultRiskParams_def
      eurusdInfo_def quote_def Let_def positive_size)

lemma minimum_sample: "minRiskReward (riskParams rm10k) = 3 / 2"
  by (simp add: rm10k_def defaultRiskParams_def)

lemma lowRewardBuy_fields:
  "entry lowRewardBuy = 2476979795053773 / 2251799813685248"
  "stopLoss lowRewardBuy = 4931441591970693 / 4503599627370496"
  "takeProfit lowRewardBuy = 2488238794122199 / 2251799813685248"
  "action lowRewardBuy = BUY"
  by (simp_all add: lowRewardBuy_def quoted_def dbl_samples)

lemma shortfallBuy_fields:
  "entry shortfallBuy = 2721007340862843 / 2251799813685248"
  "stopLoss shortfallBuy = 5406436244669459 / 4503599627370496"
  "takeProfit shortfallBuy = 682475487531725 / 562949953421312"
  "action shortfallBuy = BUY"
  by (simp_all add: shortfallBuy_def quoted_def dbl_samples)

lemma lowRewardSell_fields:
  "entry lowRewardSell = 2476979795053773 / 2251799813685248"
  "stopLoss lowRewardSell = 2488238794122199 / 2251799813685248"
  "takeProfit lowRewardSell = 4949455990480175 / 4503599627370496"
  "action lowRewardSell = SELL"
  by (simp_all add: lowRewardSell_def quoted_def dbl_samples)

lemma fairBuy_fields:
  "entry fairBuy = 2476979795053773 / 2251799813685248"
  "stopLoss fairBuy = 4931441591970693 / 4503599627370496"
  "takeProfit fairBuy = 4998995586381251 / 4503599627370496"
  "action fairBuy = BUY"
  by (simp_all add: fairBuy_def quoted_def dbl_samples)

lemma computedRR_samples:
  "computedRR lowRewardBuy = Num (562949953421287 / 562949953421312)"
  "computedRR shortfallBuy = Num (4503599627370623 / 9007199254740992)"
  "computedRR lowRewardSell = Num (3602879701896877 / 18014398509481984)"
  "computedRR fairBuy = Num (1125899906842599 / 562949953421312)"
  "computedRR (lowRewardBuy\<lparr>takeProfit := 2493868293656413 / 2251799813685248\<rparr>)
     = Num (1688849860263961 / 1125899906842624)"
  "computedRR (shortfallBuy\<lparr>takeProfit := 2747691168655013 / 2251799813685248\<rparr>)
     = Num (6755399441055681 / 4503599627370496)"
  by (simp_all add: computedRR_def rewardDistance_def riskDistance_def fsub_def fdiv_def
      dbl_minus lowRewardBuy_fields shortfallBuy_fields lowRewardSell_fields fairBuy_fields
      dbl_samples)

lemma minReward_samples:
  "minReward rm10k lowRewardBuy = 67553994410559 / 9007199254740992"
  "minReward rm10k shortfallBuy = 106735311168681 / 9007199254740992"
  "minReward rm10k lowRewardSell = 16888498602639 / 2251799813685248"
  by (simp_all add: minReward_def riskDistance_def fsub_def fmul_def minimum_sample
      dbl_minus lowRewardBuy_fields shortfallBuy_fields lowRewardSell_fields dbl_samples)

lemma adjusted_targets:
  "fadd (entry lowRewardBuy) (minReward rm10k lowRewardBuy)
     = 2493868293656413 / 2251799813685248"
  "fadd (entry shortfallBuy) (minReward rm10k shortfallBuy)
     = 2747691168655013 / 2251799813685248"
  "fsub (entry lowRewardSell) (minReward rm10k lowRewardSell)
     = 1230045648225567 / 1125899906842624"
  by (simp_all add: minReward_samples fadd_def fsub_def lowRewardBuy_fields
      shortfallBuy_fields lowRewardSell_fields dbl_samples)

lemma roundingSlack_samples:
  "roundingSlack rm10k lowRewardBuy = 517 / 4611686018427387904"
  "roundingSlack rm10k lowRewardSell = 517 / 4611686018427387904"
  by (simp_all add: roundingSlack_def halfUlp_def minReward_samples riskDistance_def fsub_def
      minimum_sample dbl_minus scale_minus lowRewardBuy_fields lowRewardSell_fields
      dbl_samples scale_samples pow2_def)

lemma adjusted_sample:
  assumes "js_lt (computedRR signal) (Num (minRiskReward (riskParams rm10k)))"
  shows "adjustedSignal (snd (validateTrade rm10k signal (replies 10000))) =
           Some (signal\<lparr>takeProfit :=
              if action signal = BUY then fadd (entry signal) (minReward rm10k signal)
              else fsub (entry signal) (minReward rm10k signal)\<rparr>)"
  using validateTrade_valid [OF validateTrade_sample_valid, of signal]
    adjustTakeProfit_below [OF assms]
  by (simp add: adjustStopLoss_def)

text \<open>
  Claim C7 fails on the code in the words \<open>exactly equals\<close>.  The BUY signal with entry
  1.1, stop 1.095 and target 1.105 has a computed reward:risk below the minimum 1.5; the
  target it comes back with is 1.1075000000000004, and the ratio of the adjusted signal
  is not 1.5, whether taken exactly or as the program computes it
  (1.5000000000000222).  For entry 1.20837, stop 1.20047 and target 1.21232 the ratio of
  the adjusted signal is below the minimum (1.499999999999986).
\<close>

theorem adjusted_ratio_differs_from_minimum:
  "minRiskReward (riskParams rm10k) = 3 / 2 \<and>
   isValid (snd (validateTrade rm10k lowRewardBuy (replies 10000))) \<and>
   js_lt (computedRR lowRewardBuy) (Num (minRiskReward (riskParams rm10k))) \<and>
   adjustedSignal (snd (validateTrade rm10k lowRewardBuy (replies 10000)))
     = Some (lowRewardBuy\<lparr>takeProfit := 2493868293656413 / 2251799813685248\<rparr>) \<and>
   \<bar>2493868293656413 / 2251799813685248 - entry lowRewardBuy\<bar>
       / \<bar>entry lowRewardBuy - stopLoss lowRewardBuy\<bar>
     = 33776997205280 / 22517998136853 \<and>
   (33776997205280 / 22517998136853 :: real) \<noteq> 3 / 2 \<and>
   computedRR (lowRewardBuy\<lparr>takeProfit := 2493868293656413 / 2251799813685248\<rparr>)
     = Num (1688849860263961 / 1125899906842624) \<and>
   (1688849860263961 / 1125899906842624 :: real) \<noteq> 3 / 2 \<and>
   isValid (snd (validateTrade rm10k shortfallBuy (replies 10000))) \<and>
   js_lt (computedRR shortfallBuy) (Num (minRiskReward (riskParams rm10k))) \<and>
   adjustedSignal (snd (validateTrade rm10k shortfallBuy (replies 10000)))
     = Some (shortfallBuy\<lparr>takeProfit := 2747691168655013 / 2251799813685248\<rparr>) \<and>
   \<bar>2747691168655013 / 2251799813685248 - entry shortfallBuy\<bar>
       / \<bar>entry shortfallBuy - stopLoss shortfallBuy\<bar>
     < minRiskReward (riskParams rm10k) \<and>
   js_lt (computedRR (shortfallBuy\<lparr>takeProfit := 2747691168655013 / 2251799813685248\<rparr>))
     (Num (minRiskReward (riskParams rm10k)))"
proof -
  have l1: "js_lt (computedRR lowRewardBuy) (Num (minRiskReward (riskParams rm10k)))"
    by (simp add: computedRR_samples minimum_sample)
  have l2: "js_lt (computedRR shortfallBuy) (Num (minRiskReward (riskParams rm10k)))"
    by (simp add: computedRR_samples minimum_sample)
  have a1: "adjustedSignal (snd (validateTrade rm10k lowRewardBuy (replies 10000)))
     = Some (lowRewardBuy\<lparr>takeProfit := 2493868293656413 / 2251799813685248\<rparr>)"
    using adjusted_sample [OF l1] by (simp add: lowRewardBuy_fields(4) adjusted_targets)
  have a2: "adjustedSignal (snd (validateTrade rm10k shortfallBuy (replies 10000)))
     = Some (shortfallBuy\<lparr>takeProfit := 2747691168655013 / 2251799813685248\<rparr>)"
    using adjusted_sample [OF l2] by (simp add: shortfallBuy_fields(4) adjusted_targets)
  have r1: "\<bar>2493868293656413 / 2251799813685248 - entry lowRewardBuy\<bar>
       / \<bar>entry lowRewardBuy - stopLoss lowRewardBuy\<bar>
     = 33776997205280 / 22517998136853"
    by (simp add: lowRewardBuy_fields)
  have r2: "\<bar>2747691168655013 / 2251799813685248 - entry shortfallBuy\<bar>
       / \<bar>entry shortfallBuy - stopLoss shortfallBuy\<bar>
     < minRiskReward (riskParams rm10k)"
    by (simp add: shortfallBuy_fields minimum_sample)
  have c2: "js_lt (computedRR (shortfallBuy\<lparr>takeProfit :=
                2747691168655013 / 2251799813685248\<rparr>))
     (Num (minRiskReward (riskParams rm10k)))"
    by (simp add: computedRR_samples minimum_sample)
  have n: "(33776997205280 / 22517998136853 :: real) \<noteq> 3 / 2"
    "(1688849860263961 / 1125899906842624 :: real) \<noteq> 3 / 2"
    by simp_all
  show ?thesis
    using minimum_sample validateTrade_sample_valid l1 a1 r1 n computedRR_samples(5) l2 a2 r2 c2
    by (intro conjI)
qed

text \<open>
  Claim C7, as amended: a signal that \<^verbatim>\<open>validateTrade\<close> accepts comes back with its
  stop-loss (and entry) unchanged.  If its reward:risk ratio, as the program computes it,
  is below \<open>minRiskReward\<close>, the adjusted target is the entry plus (BUY) or minus (any
  other action) the minimum reward, the rounded product of the risk distance and
  \<open>minRiskReward\<close>, the sum or difference rounded again: it lies on the profit side of
  the entry or at the entry, and the ratio \<open>|target - entry| / |entry - stop|\<close> of the
  adjusted signal equals \<open>minRiskReward\<close> up to the rounding of these operations, its
  distance from \<open>minRiskReward\<close> being at most the rounding slack divided by the stop
  distance.  Otherwise the target is unchanged.
\<close>

theorem reward_adjustment_up_to_rounding:
  assumes valid: "isValid (snd (validateTrade rm signal env))"
  shows "\<exists>adjusted. adjustedSignal (snd (validateTrade rm signal env)) = Some adjusted \<and>
           stopLoss adjusted = stopLoss signal \<and> entry adjusted = entry signal \<and>
           (js_lt (computedRR signal) (Num (minRiskReward (riskParams rm))) \<longrightarrow>
              entry signal \<noteq> stopLoss signal \<and>
              takeProfit adjusted =
                (if action signal = BUY then fadd (entry signal) (minReward rm signal)
                 else fsub (entry signal) (minReward rm signal)) \<and>
              0 \<le> minReward rm signal \<and>
              (dbl (entry signal) = entry signal \<longrightarrow>
                 (action signal = BUY \<longrightarrow> entry signal \<le> takeProfit adjusted) \<and>
                 (action signal \<noteq> BUY \<longrightarrow> takeProfit adjusted \<le> entry signal)) \<and>
              \<bar>\<bar>takeProfit adjusted - entry adjusted\<bar> / \<bar>entry adjusted - stopLoss adjusted\<bar>
                  - minRiskReward (riskParams rm)\<bar>
                \<le> roundingSlack rm signal / \<bar>entry signal - stopLoss signal\<bar>) \<and>
           (\<not> js_lt (computedRR signal) (Num (minRiskReward (riskParams rm))) \<longrightarrow>
              takeProfit adjusted = takeProfit signal)"
proof -
  let ?c = "minRiskReward (riskParams rm)"
  let ?d = "\<bar>entry signal - stopLoss signal\<bar>"
  let ?m = "minReward rm signal"
  let ?adj = "signal\<lparr>stopLoss := adjustStopLoss rm signal,
                      takeProfit := adjustTakeProfit rm signal\<rparr>"
  have a: "adjustedSignal (snd (validateTrade rm signal env)) = Some ?adj"
    using validateTrade_valid [OF valid] .
  have s: "stopLoss ?adj = stopLoss signal" "entry ?adj = entry signal"
    by (simp_all add: adjustStopLoss_def)
  have keep: "takeProfit ?adj = takeProfit signal" if "\<not> js_lt (computedRR signal) (Num ?c)"
    using adjustTakeProfit_not_below [OF that] by simp
  have move: "entry signal \<noteq> stopLoss signal \<and>
       takeProfit ?adj = (if action signal = BUY then fadd (entry signal) ?m
                          else fsub (entry signal) ?m) \<and>
       0 \<le> ?m \<and>
       (dbl (entry signal) = entry signal \<longrightarrow>
          (action signal = BUY \<longrightarrow> entry signal \<le> takeProfit ?adj) \<and>
          (action signal \<noteq> BUY \<longrightarrow> takeProfit ?adj \<le> entry signal)) \<and>
       \<bar>\<bar>takeProfit ?adj - entry ?adj\<bar> / \<bar>entry ?adj - stopLoss ?adj\<bar> - ?c\<bar>
         \<le> roundingSlack rm signal / ?d"
    if lt: "js_lt (computedRR signal) (Num ?c)"
  proof -
    have ne: "entry signal \<noteq> stopLoss signal" and c: "0 < ?c"
      using below_min [OF lt] by simp_all
    have d: "0 < ?d" using ne by simp
    have tp: "takeProfit ?adj = (if action signal = BUY then fadd (entry signal) ?m
                                 else fsub (entry signal) ?m)"
      using adjustTakeProfit_below [OF lt] by simp
    have m: "0 \<le> ?m" using minReward_nonneg [of rm signal] c by simp
    have side: "(action signal = BUY \<longrightarrow> entry signal \<le> takeProfit ?adj) \<and>
                (action signal \<noteq> BUY \<longrightarrow> takeProfit ?adj \<le> entry signal)"
      if e: "dbl (entry signal) = entry signal"
    proof -
      have "entry signal \<le> dbl (entry signal + ?m)"
        using dbl_ge [OF e, of "entry signal + ?m"] m by simp
      moreover have "dbl (entry signal - ?m) \<le> entry signal"
        using dbl_le [OF e, of "entry signal - ?m"] m by simp
      ultimately show ?thesis
        by (simp add: tp fadd_def fsub_def)
    qed
    have err: "\<bar>\<bar>takeProfit ?adj - entry signal\<bar> - ?d * ?c\<bar> \<le> roundingSlack rm signal"
      using adjusted_reward_error [OF _ tp] c by simp
    have "\<bar>takeProfit ?adj - entry signal\<bar> / ?d - ?c
            = (\<bar>takeProfit ?adj - entry signal\<bar> - ?d * ?c) / ?d"
      using d by (simp add: diff_divide_distrib)
    then have "\<bar>\<bar>takeProfit ?adj - entry signal\<bar> / ?d - ?c\<bar>
            = \<bar>\<bar>takeProfit ?adj - entry signal\<bar> - ?d * ?c\<bar> / ?d"
      using d by (simp only: abs_divide abs_abs)
    also have "\<dots> \<le> roundingSlack rm signal / ?d"
      using err d by (simp add: divide_right_mono)
    finally have ratio: "\<bar>\<bar>takeProfit ?adj - entry ?adj\<bar> / \<bar>entry ?adj - stopLoss ?adj\<bar> - ?c\<bar>
         \<le> roundingSlack rm signal / ?d"
      by (simp add: adjustStopLoss_def)
    show ?thesis using ne tp m side ratio by blast
  qed
  show ?thesis
    using a s keep move by blast
qed

theorem reward_adjustment_up_to_rounding_witness:
  "isValid (snd (validateTrade rm10k lowRewardSell (replies 10000))) \<and>
   js_lt (computedRR lowRewardSell) (Num (minRiskReward (riskParams rm10k))) \<and>
   action lowRewardSell \<noteq> BUY \<and> dbl (entry lowRewardSell) = entry lowRewardSell \<and>
   adjustedSignal (snd (validateTrade rm10k lowRewardSell (replies 10000)))
     = Some (lowRewardSell\<lparr>takeProfit := 1230045648225567 / 1125899906842624\<rparr>) \<and>
   1230045648225567 / 1125899906842624 \<le> entry lowRewardSell \<and>
   \<bar>\<bar>1230045648225567 / 1125899906842624 - entry lowRewardSell\<bar>
        / \<bar>entry lowRewardSell - stopLoss lowRewardSell\<bar> - 3 / 2\<bar>
     \<le> (517 / 4611686018427387904) / \<bar>entry lowRewardSell - stopLoss lowRewardSell\<bar> \<and>
   isValid (snd (validateTrade rm10k lowRewardBuy (replies 10000))) \<and>
   js_lt (computedRR lowRewardBuy) (Num (minRiskReward (riskParams rm10k))) \<and>
   action lowRewardBuy = BUY \<and> dbl (entry lowRewardBuy) = entry lowRewardBuy \<and>
   adjustedSignal (snd (validateTrade rm10k lowRewardBuy (replies 10000)))
     = Some (lowRewardBuy\<lparr>takeProfit := 2493868293656413 / 2251799813685248\<rparr>) \<and>
   entry lowRewardBuy \<le> 2493868293656413 / 2251799813685248 \<and>
   \<bar>\<bar>2493868293656413 / 2251799813685248 - entry lowRewardBuy\<bar>
        / \<bar>entry lowRewardBuy - stopLoss lowRewardBuy\<bar> - 3 / 2\<bar>
     \<le> (517 / 4611686018427387904) / \<bar>entry lowRewardBuy - stopLoss lowRewardBuy\<bar> \<and>
   isValid (snd (validateTrade rm10k fairBuy (replies 10000))) \<and>
   \<not> js_lt (computedRR fairBuy) (Num (minRiskReward (riskParams rm10k))) \<and>
   adjustedSignal (snd (validateTrade rm10k fairBuy (replies 10000))) = Some fairBuy"
proof -
  \<comment> \<open>a SELL signal below the minimum\<close>
  have v1: "isValid (snd (validateTrade rm10k lowRewardSell (replies 10000)))"
    by (rule validateTrade_sample_valid)
  have l1: "js_lt (computedRR lowRewardSell) (Num (minRiskReward (riskParams rm10k)))"
    by (simp add: computedRR_samples minimum_sample)
  have b1: "action lowRewardSell \<noteq> BUY"
    by (simp add: lowRewardSell_fields)
  have d1: "dbl (entry lowRewardSell) = entry lowRewardSell"
    by (simp add: lowRewardSell_def quoted_def dbl_idem)
  from reward_adjustment_up_to_rounding [OF v1] l1 b1 d1
  obtain adj1 where adj1:
    "adjustedSignal (snd (validateTrade rm10k lowRewardSell (replies 10000))) = Some adj1"
    "stopLoss adj1 = stopLoss lowRewardSell" "entry adj1 = entry lowRewardSell"
    "takeProfit adj1 = fsub (entry lowRewardSell) (minReward rm10k lowRewardSell)"
    "takeProfit adj1 \<le> entry lowRewardSell"
    "\<bar>\<bar>takeProfit adj1 - entry adj1\<bar> / \<bar>entry adj1 - stopLoss adj1\<bar>
        - minRiskReward (riskParams rm10k)\<bar>
      \<le> roundingSlack rm10k lowRewardSell / \<bar>entry lowRewardSell - stopLoss lowRewardSell\<bar>"
    by auto
  have t1: "takeProfit adj1 = 1230045648225567 / 1125899906842624"
    using adj1(4) by (simp only: adjusted_targets)
  have a1: "adjustedSignal (snd (validateTrade rm10k lowRewardSell (replies 10000)))
     = Some (lowRewardSell\<lparr>takeProfit := 1230045648225567 / 1125899906842624\<rparr>)"
    using adjusted_sample [OF l1] b1 by (simp add: adjusted_targets)
  have s1: "1230045648225567 / 1125899906842624 \<le> entry lowRewardSell"
    using adj1(5) unfolding t1 .
  have e1: "\<bar>\<bar>1230045648225567 / 1125899906842624 - entry lowRewardSell\<bar>
        / \<bar>entry lowRewardSell - stopLoss lowRewardSell\<bar> - 3 / 2\<bar>
     \<le> (517 / 4611686018427387904) / \<bar>entry lowRewardSell - stopLoss lowRewardSell\<bar>"
    using adj1(6) unfolding t1 adj1(2,3) minimum_sample roundingSlack_samples .
  \<comment> \<open>a BUY signal below the minimum\<close>
  have v2: "isValid (snd (validateTrade rm10k lowRewardBuy (replies 10000)))"
    by (rule validateTrade_sample_valid)
  have l2: "js_lt (computedRR lowRewardBuy) (Num (minRiskReward (riskParams rm10k)))"
    by (simp add: computedRR_samples minimum_sample)
  have b2: "action lowRewardBuy = BUY"
    by (simp add: lowRewardBuy_fields)
  have d2: "dbl (entry lowRewardBuy) = entry lowRewardBuy"
    by (simp add: lowRewardBuy_def quoted_def dbl_idem)
  from reward_adjustment_up_to_rounding [OF v2] l2 b2 d2
  obtain adj2 where adj2:
    "adjustedSignal (snd (validateTrade rm10k lowRewardBuy (replies 10000))) = Some adj2"
    "stopLoss adj2 = stopLoss lowRewardBuy" "entry adj2 = entry lowRewardBuy"
    "takeProfit adj2 = fadd (entry lowRewardBuy) (minReward rm10k lowRewardBuy)"
    "entry lowRewardBuy \<le> takeProfit adj2"
    "\<bar>\<bar>takeProfit adj2 - entry adj2\<bar> / \<bar>entry adj2 - stopLoss adj2\<bar>
        - minRiskReward (riskParams rm10k)\<bar>
      \<le> roundingSlack rm10k lowRewardBuy / \<bar>entry lowRewardBuy - stopLoss lowRewardBuy\<bar>"
    by auto
  have t2: "takeProfit adj2 = 2493868293656413 / 2251799813685248"
    using adj2(4) by (simp only: adjusted_targets)
  have a2: "adjustedSignal (snd (validateTrade rm10k lowRewardBuy (replies 10000)))
     = Some (lowRewardBuy\<lparr>takeProfit := 2493868293656413 / 2251799813685248\<rparr>)"
    using adjusted_sample [OF l2] b2 by (simp add: adjusted_targets)
  have s2: "entry lowRewardBuy \<le> 2493868293656413 / 2251799813685248"
    using adj2(5) unfolding t2 .
  have e2: "\<bar>\<bar>2493868293656413 / 2251799813685248 - entry lowRewardBuy\<bar>
        / \<bar>entry lowRewardBuy - stopLoss lowRewardBuy\<bar> - 3 / 2\<bar>
     \<le> (517 / 4611686018427387904) / \<bar>entry lowRewardBuy - stopLoss lowRewardBuy\<bar>"
    using adj2(6) unfolding t2 adj2(2,3) minimum_sample roundingSlack_samples .
  \<comment> \<open>a signal at or above the minimum\<close>
  have v3: "isValid (snd (validateTrade rm10k fairBuy (replies 10000)))"
    by (rule validateTrade_sample_valid)
  have l3: "\<not> js_lt (computedRR fairBuy) (Num (minRiskReward (riskParams rm10k)))"
    by (simp add: computedRR_samples minimum_sample)
  from reward_adjustment_up_to_rounding [OF v3] l3
  obtain adj3 where adj3:
    "adjustedSignal (snd (validateTrade rm10k fairBuy (replies 10000))) = Some adj3"
    "takeProfit adj3 = takeProfit fairBuy"
    by blast
  have "adjustedSignal (snd (validateTrade rm10k fairBuy (replies 10000))) =
          Some (fairBuy\<lparr>stopLoss := adjustStopLoss rm10k fairBuy,
                          takeProfit := adjustTakeProfit rm10k fairBuy\<rparr>)"
    by (rule validateTrade_valid [OF v3])
  moreover from this adj3 have "adjustTakeProfit rm10k fairBuy = takeProfit fairBuy"
    by auto
  ultimately have a3: "adjustedSignal (snd (validateTrade rm10k fairBuy (replies 10000)))
                         = Some fairBuy"
    by (simp add: adjustStopLoss_def)
  show ?thesis
    using v1 l1 b1 d1 a1 s1 e1 v2 l2 b2 d2 a2 s2 e2 v3 l3 a3 by (intro conjI)
qed

subsection \<open>Break-even\<close>

text \<open>
  Claim C9 is not met by the code.  \<^verbatim>\<open>shouldMoveToBreakEven\<close> compares the absolute
  value of \<open>currentPrice - openPrice\<close> with 1.5 times the stop distance, whatever the
  side of the position.  A BUY position opened at 1.1000 with stop 1.0950 whose price has
  fallen to 1.0920 (a loss, \<open>profit < 0\<close>) is moved to break-even, and monitoring sends
  the request that puts its stop at 1.1000.  So is a SELL position opened at 100 without
  a stop (stop 0) whose price has risen to 260.
\<close>

theorem break_even_on_losing_position:
  "pos_type (buyPosition 1.0950 1.0920 (- 80)) = PosBUY \<and>
   profit (buyPosition 1.0950 1.0920 (- 80)) < 0 \<and>
   currentPrice (buyPosition 1.0950 1.0920 (- 80))
     < openPrice (buyPosition 1.0950 1.0920 (- 80)) \<and>
   shouldMoveToBreakEven rm10k (buyPosition 1.0950 1.0920 (- 80)) \<and>
   monitorPositions rm10k [buyPosition 1.0950 1.0920 (- 80)]
     = [ModifyPosition 1 1.1000 1.1200] \<and>
   pos_type (sellPosition 100 0 260 (- 160)) = PosSELL \<and>
   profit (sellPosition 100 0 260 (- 160)) < 0 \<and>
   openPrice (sellPosition 100 0 260 (- 160)) < currentPrice (sellPosition 100 0 260 (- 160)) \<and>
   shouldMoveToBreakEven rm10k (sellPosition 100 0 260 (- 160)) \<and>
   monitorPositions rm10k [sellPosition 100 0 260 (- 160)] = [ModifyPosition 2 100 0]"
  by (simp add: shouldMoveToBreakEven_def buyPosition_def sellPosition_def monitorPositions_def
      applyPositionRiskManagement_def moveToBreakEven_def shouldEmergencyClose_def
      shouldTrailStop_def rm10k_def defaultRiskParams_def)

text \<open>
  The scenario of the claim holds: at entry 1.1000, stop 1.0950 and price 1.1080 the stop
  is moved to the entry, and a position whose stop is at the entry is not moved again.
\<close>

lemma break_even_scenario:
  "monitorPositions rm10k [buyPosition 1.0950 1.1080 80] = [ModifyPosition 1 1.1000 1.1200]"
  "monitorPositions rm10k [buyPosition 1.1000 1.1080 80] = []"
  by (simp_all add: shouldMoveToBreakEven_def buyPosition_def monitorPositions_def
      applyPositionRiskManagement_def moveToBreakEven_def shouldEmergencyClose_def
      shouldTrailStop_def rm10k_def defaultRiskParams_def)

lemma shouldMoveToBreakEven_iff:
  "shouldMoveToBreakEven rm position \<longleftrightarrow>
     1.5 * \<bar>openPrice position - pos_stopLoss position\<bar>
       \<le> \<bar>currentPrice position - openPrice position\<bar>
     \<and> pos_stopLoss position \<noteq> openPrice position"
  by (auto simp: shouldMoveToBreakEven_def Let_def)

end
